theory Spec2Isabelle
  imports Complex_Main
begin

section \<open>JavaScript values\<close>

text \<open>
  The handlers take \<^verbatim>\<open>args: unknown\<close>: any value of the runtime. The values that
  reach them are those of a JSON document, and \<^verbatim>\<open>undefined\<close> for what is absent.
  A number of a JSON document is a finite double, which is a rational; a string is its
  sequence of code units, of which a \<^typ>\<open>char\<close> covers the first 256; an object is
  an association list read with \<^const>\<open>map_of\<close>.
\<close>

datatype jsval =
    JUndefined
  | JNull
  | JBool bool
  | JNum rat
  | JStr string
  | JArr "jsval list"
  | JObj "(string \<times> jsval) list"

text \<open>Reading a property \<^verbatim>\<open>v.k\<close> of a value that is neither undefined nor null.
  The names read in this program (\<^verbatim>\<open>id\<close>, \<^verbatim>\<open>name\<close>, \<^verbatim>\<open>pos\<close>, ...) are not
  properties of strings, numbers, booleans or arrays, so only an object yields a value.
  Three names are: \<^verbatim>\<open>length\<close> and \<^verbatim>\<open>map\<close>, which are read below by functions of
  their own, and \<^verbatim>\<open>filter\<close>, which the handlers read only from what a validator of
  \<^verbatim>\<open>../utils/validation.js\<close> returns, by its type an object and no array.\<close>

fun get :: "jsval \<Rightarrow> string \<Rightarrow> jsval" where
  "get (JObj kvs) k = (case map_of kvs k of Some v \<Rightarrow> v | None \<Rightarrow> JUndefined)"
| "get _ k = JUndefined"

fun nullish :: "jsval \<Rightarrow> bool" where
  "nullish JUndefined = True"
| "nullish JNull = True"
| "nullish _ = False"

fun truthy :: "jsval \<Rightarrow> bool" where
  "truthy JUndefined = False"
| "truthy JNull = False"
| "truthy (JBool b) = b"
| "truthy (JNum r) = (r \<noteq> 0)"
| "truthy (JStr s) = (s \<noteq> [])"
| "truthy _ = True"

section \<open>The validation library, as far as the schemas use it\<close>

text \<open>
  The schemas of \<^verbatim>\<open>boards.ts\<close> and \<^verbatim>\<open>checklists.ts\<close> are built from
  \<^verbatim>\<open>z.string()\<close> with \<^verbatim>\<open>min\<close>, \<^verbatim>\<open>max\<close>, \<^verbatim>\<open>regex\<close> and \<^verbatim>\<open>datetime\<close>,
  \<^verbatim>\<open>z.number().min\<close>, \<^verbatim>\<open>z.boolean()\<close>, \<^verbatim>\<open>z.enum\<close>, \<^verbatim>\<open>z.union\<close>,
  \<^verbatim>\<open>.optional()\<close>, \<^verbatim>\<open>.nullable()\<close> and one flat \<^verbatim>\<open>z.object\<close> per operation.
  None of them transforms, coerces or defaults a value, so a field that validates
  is parsed to itself. The only regular expression of the sources is
  \<^verbatim>\<open>/^[a-f0-9]{24}$/\<close>: a character class of ranges, repeated a fixed number of
  times, anchored at both ends (no flag, so \<^verbatim>\<open>$\<close> is the end of the input).
\<close>

datatype regex = ClassRepeat "(char \<times> char) list" nat

definition in_class :: "(char \<times> char) list \<Rightarrow> char \<Rightarrow> bool" where
  "in_class ranges c =
     list_ex (\<lambda>(lo, hi). (of_char lo :: nat) \<le> of_char c \<and> (of_char c :: nat) \<le> of_char hi) ranges"

fun regex_test :: "regex \<Rightarrow> string \<Rightarrow> bool" where
  "regex_test (ClassRepeat ranges n) s = (length s = n \<and> list_all (in_class ranges) s)"

datatype issue_code =
  invalid_type | too_small | too_big | invalid_string | invalid_enum_value

text \<open>An issue: the path of the field, the code, and the message the schema gives
  for it (the library's own message otherwise). The issue of a union none of whose
  options matched (\<^verbatim>\<open>invalid_union\<close>) holds the issues of each option.\<close>

datatype issue =
    Issue "string list" issue_code "string option"
  | InvalidUnion "string list" "issue list list"

text \<open>The status a schema returns with its issues: \<^verbatim>\<open>valid\<close>; \<^verbatim>\<open>dirty\<close>, when the
  value has the type of the schema and fails a check; \<^verbatim>\<open>aborted\<close>
  (\<^verbatim>\<open>INVALID\<close>), when it has not.\<close>

datatype status = Valid | Dirty "issue list" | Aborted "issue list"

fun issues_of :: "status \<Rightarrow> issue list" where
  "issues_of Valid = []"
| "issues_of (Dirty is) = is"
| "issues_of (Aborted is) = is"

fun is_dirty :: "status \<Rightarrow> bool" where
  "is_dirty (Dirty is) = True"
| "is_dirty _ = False"

definition checked :: "issue list \<Rightarrow> status" where
  "checked is = (if is = [] then Valid else Dirty is)"

datatype str_check =
    SMin nat "string option"
  | SMax nat
  | Regex regex string
  | Datetime

datatype num_check = NMin rat

datatype zod =
    ZString "str_check list"
  | ZNumber "num_check list"
  | ZBoolean
  | ZEnum "string list"
  | ZUnion "zod list"
  | ZOptional zod
  | ZNullable zod

text \<open>\<^verbatim>\<open>z.string().datetime()\<close> tests the library's ISO-8601 pattern, which is not
  part of this repository: it is the parameter \<open>dt\<close>.\<close>

fun str_issues :: "(string \<Rightarrow> bool) \<Rightarrow> string list \<Rightarrow> string \<Rightarrow> str_check \<Rightarrow> issue list" where
  "str_issues dt p s (SMin n m) = (if length s < n then [Issue p too_small m] else [])"
| "str_issues dt p s (SMax n) = (if n < length s then [Issue p too_big None] else [])"
| "str_issues dt p s (Regex r m) = (if regex_test r s then [] else [Issue p invalid_string (Some m)])"
| "str_issues dt p s Datetime = (if dt s then [] else [Issue p invalid_string None])"

fun num_issues :: "string list \<Rightarrow> rat \<Rightarrow> num_check \<Rightarrow> issue list" where
  "num_issues p r (NMin m) = (if r < m then [Issue p too_small None] else [])"

text \<open>\<^verbatim>\<open>schema._parse\<close> on the value at path \<open>p\<close>, as in version 3 of the
  library. A string or number of the right type runs all its checks and reports each
  that fails. A union tries its options in order, each with an issue list of its own:
  the first valid option is the result; otherwise the first dirty option, with its
  issues; otherwise one \<^verbatim>\<open>invalid_union\<close> issue holding the issues of the options.\<close>

fun parse :: "(string \<Rightarrow> bool) \<Rightarrow> string list \<Rightarrow> zod \<Rightarrow> jsval \<Rightarrow> status" where
  "parse dt p (ZString cs) v =
     (case v of
        JStr s \<Rightarrow> checked (concat (map (str_issues dt p s) cs))
      | _ \<Rightarrow> Aborted [Issue p invalid_type None])"
| "parse dt p (ZNumber cs) v =
     (case v of
        JNum r \<Rightarrow> checked (concat (map (num_issues p r) cs))
      | _ \<Rightarrow> Aborted [Issue p invalid_type None])"
| "parse dt p ZBoolean v =
     (case v of JBool b \<Rightarrow> Valid | _ \<Rightarrow> Aborted [Issue p invalid_type None])"
| "parse dt p (ZEnum xs) v =
     (case v of
        JStr s \<Rightarrow> if s \<in> set xs then Valid else Aborted [Issue p invalid_enum_value None]
      | _ \<Rightarrow> Aborted [Issue p invalid_type None])"
| "parse dt p (ZUnion zs) v =
     (let results = map (\<lambda>z. parse dt p z v) zs in
      if list_ex (\<lambda>r. r = Valid) results then Valid
      else
        (case filter is_dirty results of
           dirty # _ \<Rightarrow> dirty
         | [] \<Rightarrow> Aborted [InvalidUnion p (filter (\<lambda>is. is \<noteq> []) (map issues_of results))]))"
| "parse dt p (ZOptional z) v =
     (case v of JUndefined \<Rightarrow> Valid | _ \<Rightarrow> parse dt p z v)"
| "parse dt p (ZNullable z) v =
     (case v of JNull \<Rightarrow> Valid | _ \<Rightarrow> parse dt p z v)"

text \<open>The issues a field schema raises on a value; none means the value is accepted.\<close>

definition issues :: "(string \<Rightarrow> bool) \<Rightarrow> string list \<Rightarrow> zod \<Rightarrow> jsval \<Rightarrow> issue list" where
  "issues dt p z v = issues_of (parse dt p z v)"

definition accepts :: "(string \<Rightarrow> bool) \<Rightarrow> zod \<Rightarrow> jsval \<Rightarrow> bool" where
  "accepts dt z v = (issues dt [] z v = [])"

text \<open>What a handler's \<^verbatim>\<open>try\<close> block can throw: the library's \<^verbatim>\<open>ZodError\<close> with
  its issues, an \<^verbatim>\<open>Error\<close> with its message, or a value that is not an \<^verbatim>\<open>Error\<close>.\<close>

datatype thrown = ZodError "issue list" | Error string | NonError

text \<open>\<^verbatim>\<open>z.object({...}).parse(args)\<close>: the value must be an object; every field of
  the shape is validated on \<^verbatim>\<open>args[key]\<close> and all issues are collected; the result
  holds the fields of the shape only (unknown keys are stripped, the default of
  \<^verbatim>\<open>z.object\<close>).\<close>

definition object_issues :: "(string \<Rightarrow> bool) \<Rightarrow> (string \<times> zod) list \<Rightarrow> jsval \<Rightarrow> issue list" where
  "object_issues dt shape v = concat (map (\<lambda>(k, z). issues dt [k] z (get v k)) shape)"

definition strip :: "(string \<times> zod) list \<Rightarrow> jsval \<Rightarrow> jsval" where
  "strip shape v = JObj (map (\<lambda>(k, z). (k, get v k)) (filter (\<lambda>(k, z). get v k \<noteq> JUndefined) shape))"

definition parse_object :: "(string \<Rightarrow> bool) \<Rightarrow> (string \<times> zod) list \<Rightarrow> jsval \<Rightarrow> thrown + jsval" where
  "parse_object dt shape args =
     (case args of
        JObj kvs \<Rightarrow>
          (case object_issues dt shape args of
             [] \<Rightarrow> Inr (strip shape args)
           | i # is \<Rightarrow> Inl (ZodError (i # is)))
      | _ \<Rightarrow> Inl (ZodError [Issue [] invalid_type None]))"

section \<open>The schemas of the operations\<close>

subsection \<open>boards.ts\<close>

definition validateCreateBoard_schema :: "(string \<times> zod) list" where
  "validateCreateBoard_schema =
     [(''apiKey'', ZString [SMin 1 (Some ''API key is required'')]),
      (''token'', ZString [SMin 1 (Some ''Token is required'')]),
      (''name'', ZString [SMin 1 (Some ''Board name is required''), SMax 16384]),
      (''desc'', ZOptional (ZString [SMax 16384])),
      (''idOrganization'',
         ZOptional (ZString [Regex (ClassRepeat [(CHR ''a'', CHR ''f''), (CHR ''0'', CHR ''9'')] 24)
                               ''Invalid organization ID''])),
      (''defaultLabels'', ZOptional ZBoolean),
      (''defaultLists'', ZOptional ZBoolean),
      (''prefs_permissionLevel'', ZOptional (ZEnum [''org'', ''private'', ''public'', ''enterprise''])),
      (''prefs_background'', ZOptional (ZString []))]"

subsection \<open>checklists.ts\<close>

definition trelloId :: zod where
  "trelloId =
     ZString [Regex (ClassRepeat [(CHR ''a'', CHR ''f''), (CHR ''0'', CHR ''9'')] 24)
                ''Invalid Trello ID format'']"

definition validateCreateChecklist_schema :: "(string \<times> zod) list" where
  "validateCreateChecklist_schema =
     [(''apiKey'', ZString [SMin 1 (Some ''API key is required'')]),
      (''token'', ZString [SMin 1 (Some ''Token is required'')]),
      (''idCard'', trelloId),
      (''name'', ZOptional (ZString [SMin 1 None, SMax 16384])),
      (''pos'', ZOptional (ZUnion [ZNumber [NMin 0], ZEnum [''top'', ''bottom'']])),
      (''idChecklistSource'', ZOptional trelloId)]"

definition validateGetChecklist_schema :: "(string \<times> zod) list" where
  "validateGetChecklist_schema =
     [(''apiKey'', ZString [SMin 1 (Some ''API key is required'')]),
      (''token'', ZString [SMin 1 (Some ''Token is required'')]),
      (''checklistId'', trelloId)]"

definition validateUpdateChecklist_schema :: "(string \<times> zod) list" where
  "validateUpdateChecklist_schema =
     [(''apiKey'', ZString [SMin 1 (Some ''API key is required'')]),
      (''token'', ZString [SMin 1 (Some ''Token is required'')]),
      (''checklistId'', trelloId),
      (''name'', ZOptional (ZString [SMin 1 None, SMax 16384])),
      (''pos'', ZOptional (ZUnion [ZNumber [NMin 0], ZEnum [''top'', ''bottom'']]))]"

definition validateDeleteChecklist_schema :: "(string \<times> zod) list" where
  "validateDeleteChecklist_schema =
     [(''apiKey'', ZString [SMin 1 (Some ''API key is required'')]),
      (''token'', ZString [SMin 1 (Some ''Token is required'')]),
      (''checklistId'', trelloId)]"

definition validateCreateChecklistItem_schema :: "(string \<times> zod) list" where
  "validateCreateChecklistItem_schema =
     [(''apiKey'', ZString [SMin 1 (Some ''API key is required'')]),
      (''token'', ZString [SMin 1 (Some ''Token is required'')]),
      (''checklistId'', trelloId),
      (''name'', ZString [SMin 1 (Some ''Item name is required''), SMax 16384]),
      (''pos'', ZOptional (ZUnion [ZNumber [NMin 0], ZEnum [''top'', ''bottom'']])),
      (''checked'', ZOptional ZBoolean),
      (''due'', ZOptional (ZString [Datetime])),
      (''idMember'', ZOptional trelloId)]"

definition validateUpdateChecklistItem_schema :: "(string \<times> zod) list" where
  "validateUpdateChecklistItem_schema =
     [(''apiKey'', ZString [SMin 1 (Some ''API key is required'')]),
      (''token'', ZString [SMin 1 (Some ''Token is required'')]),
      (''cardId'', trelloId),
      (''checkItemId'', trelloId),
      (''state'', ZOptional (ZEnum [''complete'', ''incomplete''])),
      (''name'', ZOptional (ZString [SMin 1 None, SMax 16384])),
      (''pos'', ZOptional (ZUnion [ZNumber [NMin 0], ZEnum [''top'', ''bottom'']])),
      (''due'', ZOptional (ZNullable (ZString [Datetime]))),
      (''idMember'', ZOptional (ZNullable trelloId)),
      (''idChecklist'', ZOptional trelloId)]"

definition validateDeleteChecklistItem_schema :: "(string \<times> zod) list" where
  "validateDeleteChecklistItem_schema =
     [(''apiKey'', ZString [SMin 1 (Some ''API key is required'')]),
      (''token'', ZString [SMin 1 (Some ''Token is required'')]),
      (''checklistId'', trelloId),
      (''checkItemId'', trelloId)]"

section \<open>The collaborators of a handler\<close>

text \<open>What \<^verbatim>\<open>TrelloClient\<close> resolves to: \<^verbatim>\<open>{ data, rateLimit }\<close>.\<close>

record response =
  data :: jsval
  rateLimit :: jsval

text \<open>The methods of \<^verbatim>\<open>TrelloClient\<close> that \<^verbatim>\<open>boards.ts\<close> and \<^verbatim>\<open>checklists.ts\<close>
  call, each with its arguments in the order of the call.\<close>

datatype client_call =
    createBoard jsval
  | getMyBoards jsval
  | getBoard jsval jsval
  | getBoardLists jsval jsval
  | createChecklist jsval
  | getChecklist jsval
  | updateChecklist jsval jsval
  | deleteChecklist jsval
  | createChecklistItem jsval jsval
  | updateChecklistItem jsval jsval jsval
  | deleteChecklistItem jsval jsval

text \<open>A request: the credentials \<^verbatim>\<open>new TrelloClient({ apiKey, token })\<close> is built
  with, and the method called on that client.\<close>

type_synonym request = "(jsval \<times> jsval) \<times> client_call"

text \<open>The response envelope: \<^verbatim>\<open>{ content: [{ type: 'text', text }], isError? }\<close>.\<close>

datatype content_item = TextContent string

record envelope =
  content :: "content_item list"
  isError :: "bool option"

text \<open>A tool descriptor: \<^verbatim>\<open>{ name, description, inputSchema }\<close>.\<close>

record tool =
  name :: string
  description :: string
  inputSchema :: jsval

text \<open>The tool descriptors and the handlers that \<^verbatim>\<open>server.ts\<close> imports, by the names
  of the import statements.\<close>

datatype tool_ref =
    CreateBoardTool | ListBoardsTool | GetBoardDetailsTool | GetListsTool
  | CreateCardTool | UpdateCardTool | MoveCardTool | GetCardTool
  | TrelloSearchTool
  | TrelloGetListCardsTool | TrelloCreateListTool | TrelloAddCommentTool
  | TrelloGetUserBoardsTool | TrelloGetMemberTool
  | TrelloGetBoardCardsTool | TrelloGetCardActionsTool | TrelloGetCardAttachmentsTool
  | TrelloGetCardChecklistsTool | TrelloGetBoardMembersTool | TrelloGetBoardLabelsTool
  | TrelloCreateChecklistTool | TrelloGetChecklistTool | TrelloUpdateChecklistTool
  | TrelloDeleteChecklistTool | TrelloCreateChecklistItemTool | TrelloUpdateChecklistItemTool
  | TrelloDeleteChecklistItemTool

datatype handler =
    HandleCreateBoard | HandleListBoards | HandleGetBoardDetails | HandleGetLists
  | HandleCreateCard | HandleUpdateCard | HandleMoveCard | HandleGetCard
  | HandleTrelloSearch
  | HandleTrelloGetListCards | HandleTrelloCreateList | HandleTrelloAddComment
  | HandleTrelloGetUserBoards | HandleTrelloGetMember
  | HandleTrelloGetBoardCards | HandleTrelloGetCardActions | HandleTrelloGetCardAttachments
  | HandleTrelloGetCardChecklists | HandleTrelloGetBoardMembers | HandleTrelloGetBoardLabels
  | HandleTrelloCreateChecklist | HandleTrelloGetChecklist | HandleTrelloUpdateChecklist
  | HandleTrelloDeleteChecklist | HandleTrelloCreateChecklistItem | HandleTrelloUpdateChecklistItem
  | HandleTrelloDeleteChecklistItem

text \<open>
  What the handlers use and this repository's files \<^verbatim>\<open>boards.ts\<close> and
  \<^verbatim>\<open>checklists.ts\<close> do not define:
  \<^item> \<open>datetime\<close>: the ISO-8601 test of \<^verbatim>\<open>z.string().datetime()\<close>;
  \<^item> \<open>formatValidationError\<close> and the three validators of \<^verbatim>\<open>../utils/validation.js\<close>;
  \<^item> \<open>client\<close>: building a \<^verbatim>\<open>TrelloClient\<close> with the credentials and calling one
    of its methods, which resolves to a response or throws;
  \<^item> \<open>stringify\<close>: \<^verbatim>\<open>JSON.stringify(result, null, 2)\<close>;
  \<^item> \<open>toString\<close>: the text of a value that is not a string inside a template
    literal, when the conversion succeeds;
  \<^item> \<open>typeError\<close>: the message of the \<^verbatim>\<open>TypeError\<close> the engine throws when the
    named property is read from \<^verbatim>\<open>undefined\<close> or \<^verbatim>\<open>null\<close>, or the named method
    is not a function;
  \<^item> \<open>imported_tool\<close> and \<open>imported_handler\<close>: the descriptors and handlers of
    \<^verbatim>\<open>cards.ts\<close>, \<^verbatim>\<open>search.ts\<close>, \<^verbatim>\<open>lists.ts\<close>, \<^verbatim>\<open>members.ts\<close> and
    \<^verbatim>\<open>advanced.ts\<close>; such a handler returns an envelope or throws.
\<close>

record runtime =
  datetime :: "string \<Rightarrow> bool"
  formatValidationError :: "issue list \<Rightarrow> string"
  validateListBoards :: "jsval \<Rightarrow> thrown + jsval"
  validateGetBoard :: "jsval \<Rightarrow> thrown + jsval"
  validateGetBoardLists :: "jsval \<Rightarrow> thrown + jsval"
  client :: "jsval \<times> jsval \<Rightarrow> client_call \<Rightarrow> thrown + response"
  stringify :: "jsval \<Rightarrow> string"
  toString :: "jsval \<Rightarrow> string"
  typeError :: "string \<Rightarrow> string"
  imported_tool :: "tool_ref \<Rightarrow> tool"
  imported_handler :: "handler \<Rightarrow> jsval \<Rightarrow> thrown + envelope"

section \<open>Expressions the handlers share\<close>

text \<open>\<^verbatim>\<open>`${v}`\<close> converts \<open>v\<close> to a string. The conversion of an object calls its
  \<^verbatim>\<open>toString\<close>: that of \<^verbatim>\<open>Object.prototype\<close>, unless the object has a property
  of that name, which in a value of a JSON document is not a function, and then the
  conversion throws a \<^verbatim>\<open>TypeError\<close> (\<^verbatim>\<open>valueOf\<close> returns the object itself). The
  conversion of an array joins the conversions of its elements, undefined and null
  giving the empty string.\<close>

fun convertible :: "jsval \<Rightarrow> bool" where
  "convertible (JObj kvs) = (map_of kvs ''toString'' = None)"
| "convertible (JArr xs) = list_all convertible xs"
| "convertible _ = True"

definition template :: "runtime \<Rightarrow> jsval \<Rightarrow> thrown + string" where
  "template rt v =
     (case v of
        JStr s \<Rightarrow> Inr s
      | _ \<Rightarrow> if convertible v then Inr (toString rt v) else Inl (Error (typeError rt ''toString'')))"

text \<open>\<^verbatim>\<open>`Found ${n} ${filter} `\<close>, the start of the summaries of
  \<^verbatim>\<open>handleListBoards\<close> and \<^verbatim>\<open>handleGetLists\<close>, \<open>n\<close> being the length read from the
  response: the two values are converted in this order.\<close>

definition found :: "runtime \<Rightarrow> jsval \<Rightarrow> jsval \<Rightarrow> thrown + string" where
  "found rt n filter' =
     (case template rt n of
        Inl e \<Rightarrow> Inl e
      | Inr n' \<Rightarrow>
          (case template rt filter' of
             Inl e \<Rightarrow> Inl e
           | Inr f \<Rightarrow> Inr (''Found '' @ n' @ '' '' @ f)))"

text \<open>\<^verbatim>\<open>a || b\<close>, \<^verbatim>\<open>a ?? b\<close> and \<^verbatim>\<open>a?.k\<close>\<close>

definition or_else :: "jsval \<Rightarrow> jsval \<Rightarrow> jsval" where
  "or_else a b = (if truthy a then a else b)"

definition coalesce :: "jsval \<Rightarrow> jsval \<Rightarrow> jsval" where
  "coalesce a b = (if nullish a then b else a)"

definition opt_get :: "jsval \<Rightarrow> string \<Rightarrow> jsval" where
  "opt_get a k = (if nullish a then JUndefined else get a k)"

text \<open>\<^verbatim>\<open>...(k !== undefined && { k })\<close>, for \<^verbatim>\<open>k\<close> destructured from the validated
  arguments \<open>v\<close>: the entry when the field is defined, nothing otherwise.\<close>

definition present :: "jsval \<Rightarrow> string \<Rightarrow> (string \<times> jsval) list" where
  "present v k = (if get v k \<noteq> JUndefined then [(k, get v k)] else [])"

text \<open>An object literal all of whose fields read properties of \<open>x\<close>, the first of them
  \<open>k\<close>: it throws when \<open>x\<close> is undefined or null.\<close>

definition reading :: "runtime \<Rightarrow> jsval \<Rightarrow> string \<Rightarrow> jsval \<Rightarrow> thrown + jsval" where
  "reading rt x k obj = (if nullish x then Inl (Error (typeError rt k)) else Inr obj)"

fun traverse :: "('a \<Rightarrow> thrown + 'b) \<Rightarrow> 'a list \<Rightarrow> thrown + 'b list" where
  "traverse f [] = Inr []"
| "traverse f (x # xs) =
     (case f x of
        Inl e \<Rightarrow> Inl e
      | Inr y \<Rightarrow> (case traverse f xs of Inl e \<Rightarrow> Inl e | Inr ys \<Rightarrow> Inr (y # ys)))"

text \<open>\<^verbatim>\<open>xs.map(f)\<close>: only an array has the method; \<open>f\<close> may throw on an element.\<close>

definition array_map :: "runtime \<Rightarrow> (jsval \<Rightarrow> thrown + jsval) \<Rightarrow> jsval \<Rightarrow> thrown + jsval" where
  "array_map rt f v =
     (case v of
        JArr xs \<Rightarrow> (case traverse f xs of Inl e \<Rightarrow> Inl e | Inr ys \<Rightarrow> Inr (JArr ys))
      | _ \<Rightarrow> Inl (Error (typeError rt ''map'')))"

text \<open>\<^verbatim>\<open>xs?.map(f)\<close>\<close>

definition opt_map :: "runtime \<Rightarrow> (jsval \<Rightarrow> thrown + jsval) \<Rightarrow> jsval \<Rightarrow> thrown + jsval" where
  "opt_map rt f v = (if nullish v then Inr JUndefined else array_map rt f v)"

text \<open>\<^verbatim>\<open>xs.length\<close> of a value that is neither undefined nor null.\<close>

fun js_length :: "jsval \<Rightarrow> jsval" where
  "js_length (JArr xs) = JNum (of_nat (length xs))"
| "js_length (JStr s) = JNum (of_nat (length s))"
| "js_length v = get v ''length''"

text \<open>The call of the client inside the \<^verbatim>\<open>try\<close> block, and what follows it: the
  outcome of the block and the requests made.\<close>

definition invoke ::
  "runtime \<Rightarrow> request \<Rightarrow> (response \<Rightarrow> thrown + jsval) \<Rightarrow> (thrown + jsval) \<times> request list" where
  "invoke rt req k =
     (case client rt (fst req) (snd req) of
        Inl e \<Rightarrow> (Inl e, [req])
      | Inr r \<Rightarrow> (k r, [req]))"

text \<open>The message of the \<^verbatim>\<open>catch\<close> block.\<close>

definition errorMessage :: "runtime \<Rightarrow> thrown \<Rightarrow> string" where
  "errorMessage rt e =
     (case e of
        ZodError is \<Rightarrow> formatValidationError rt is
      | Error m \<Rightarrow> m
      | NonError \<Rightarrow> ''Unknown error occurred'')"

text \<open>The two \<^verbatim>\<open>return\<close> statements of a handler: the one that ends the \<^verbatim>\<open>try\<close>
  block and the one of the \<^verbatim>\<open>catch\<close> block, whose text starts with \<open>doing\<close>.\<close>

definition respond :: "runtime \<Rightarrow> string \<Rightarrow> (thrown + jsval) \<times> request list \<Rightarrow> envelope \<times> request list" where
  "respond rt doing outcome =
     (case fst outcome of
        Inr result \<Rightarrow> (\<lparr>content = [TextContent (stringify rt result)], isError = None\<rparr>, snd outcome)
      | Inl e \<Rightarrow>
          (\<lparr>content = [TextContent (doing @ errorMessage rt e)], isError = Some True\<rparr>, snd outcome))"

section \<open>The handlers of boards.ts\<close>

subsection \<open>handleCreateBoard\<close>

definition validateCreateBoard :: "runtime \<Rightarrow> jsval \<Rightarrow> thrown + jsval" where
  "validateCreateBoard rt args = parse_object (datetime rt) validateCreateBoard_schema args"

definition createBoard_request :: "jsval \<Rightarrow> request" where
  "createBoard_request v =
     ((get v ''apiKey'', get v ''token''),
      createBoard (JObj ((''name'', get v ''name'')
        # present v ''desc''
        @ present v ''idOrganization''
        @ present v ''defaultLabels''
        @ present v ''defaultLists''
        @ present v ''prefs_permissionLevel''
        @ present v ''prefs_background'')))"

definition createBoard_result :: "runtime \<Rightarrow> response \<Rightarrow> thrown + jsval" where
  "createBoard_result rt r =
     (let board = data r in
      if nullish board then Inl (Error (typeError rt ''name''))
      else
        (case template rt (get board ''name'') of
           Inl e \<Rightarrow> Inl e
         | Inr name' \<Rightarrow>
             Inr (JObj [(''summary'', JStr (''Created board: '' @ name')),
                        (''board'', JObj
                           [(''id'', get board ''id''),
                            (''name'', get board ''name''),
                            (''description'', or_else (get board ''desc'') (JStr ''No description'')),
                            (''url'', get board ''shortUrl''),
                            (''closed'', get board ''closed''),
                            (''permissionLevel'', opt_get (get board ''prefs'') ''permissionLevel'')]),
                        (''rateLimit'', rateLimit r)])))"

definition handleCreateBoard :: "runtime \<Rightarrow> jsval \<Rightarrow> envelope \<times> request list" where
  "handleCreateBoard rt args =
     respond rt ''Error creating board: ''
       (case validateCreateBoard rt args of
          Inl e \<Rightarrow> (Inl e, [])
        | Inr v \<Rightarrow> invoke rt (createBoard_request v) (createBoard_result rt))"

subsection \<open>handleListBoards\<close>

text \<open>The validators of the next three handlers come from \<^verbatim>\<open>../utils/validation.js\<close>;
  destructuring what they return throws when that is undefined or null.\<close>

definition listBoards_result :: "runtime \<Rightarrow> jsval \<Rightarrow> response \<Rightarrow> thrown + jsval" where
  "listBoards_result rt v r =
     (let boards = data r; filter' = get v ''filter'' in
      if nullish boards then Inl (Error (typeError rt ''length''))
      else
        (case found rt (js_length boards) filter' of
           Inl e \<Rightarrow> Inl e
         | Inr found' \<Rightarrow>
             (case array_map rt
                     (\<lambda>board. reading rt board ''id''
                        (JObj [(''id'', get board ''id''),
                               (''name'', get board ''name''),
                               (''description'', or_else (get board ''desc'') (JStr ''No description'')),
                               (''url'', get board ''shortUrl''),
                               (''lastActivity'', get board ''dateLastActivity''),
                               (''closed'', get board ''closed'')]))
                     boards of
                Inl e \<Rightarrow> Inl e
              | Inr boardList \<Rightarrow>
                  Inr (JObj [(''summary'', JStr (found' @ '' board(s)'')),
                             (''boards'', boardList),
                             (''rateLimit'', rateLimit r)]))))"

definition handleListBoards :: "runtime \<Rightarrow> jsval \<Rightarrow> envelope \<times> request list" where
  "handleListBoards rt args =
     respond rt ''Error listing boards: ''
       (case validateListBoards rt args of
          Inl e \<Rightarrow> (Inl e, [])
        | Inr v \<Rightarrow>
            if nullish v then (Inl (Error (typeError rt ''apiKey'')), [])
            else invoke rt ((get v ''apiKey'', get v ''token''), getMyBoards (get v ''filter''))
                   (listBoards_result rt v))"

subsection \<open>handleGetBoardDetails\<close>

definition board_list_entry :: "runtime \<Rightarrow> jsval \<Rightarrow> thrown + jsval" where
  "board_list_entry rt list =
     reading rt list ''id''
       (JObj [(''id'', get list ''id''),
              (''name'', get list ''name''),
              (''position'', get list ''pos''),
              (''closed'', get list ''closed'')])"

definition card_label_entry :: "runtime \<Rightarrow> jsval \<Rightarrow> thrown + jsval" where
  "card_label_entry rt label =
     reading rt label ''id''
       (JObj [(''id'', get label ''id''),
              (''name'', get label ''name''),
              (''color'', get label ''color'')])"

definition board_card_entry :: "runtime \<Rightarrow> jsval \<Rightarrow> thrown + jsval" where
  "board_card_entry rt card' =
     (if nullish card' then Inl (Error (typeError rt ''id''))
      else
        (case opt_map rt (card_label_entry rt) (get card' ''labels'') of
           Inl e \<Rightarrow> Inl e
         | Inr labels \<Rightarrow>
             Inr (JObj [(''id'', get card' ''id''),
                        (''name'', get card' ''name''),
                        (''description'', get card' ''desc''),
                        (''url'', get card' ''shortUrl''),
                        (''listId'', get card' ''idList''),
                        (''position'', get card' ''pos''),
                        (''due'', get card' ''due''),
                        (''closed'', get card' ''closed''),
                        (''labels'', or_else labels (JArr []))])))"

text \<open>\<^verbatim>\<open>...(includeDetails && { lists: ..., cards: ... })\<close>\<close>

definition board_details :: "runtime \<Rightarrow> jsval \<Rightarrow> jsval \<Rightarrow> thrown + (string \<times> jsval) list" where
  "board_details rt includeDetails board =
     (if truthy includeDetails then
        (case opt_map rt (board_list_entry rt) (get board ''lists'') of
           Inl e \<Rightarrow> Inl e
         | Inr lists' \<Rightarrow>
             (case opt_map rt (board_card_entry rt) (get board ''cards'') of
                Inl e \<Rightarrow> Inl e
              | Inr cards \<Rightarrow>
                  Inr [(''lists'', or_else lists' (JArr [])), (''cards'', or_else cards (JArr []))]))
      else Inr [])"

definition getBoardDetails_result :: "runtime \<Rightarrow> jsval \<Rightarrow> response \<Rightarrow> thrown + jsval" where
  "getBoardDetails_result rt v r =
     (let board = data r; includeDetails = get v ''includeDetails'' in
      if nullish board then Inl (Error (typeError rt ''name''))
      else
        (case template rt (get board ''name'') of
           Inl e \<Rightarrow> Inl e
         | Inr name' \<Rightarrow>
             (case board_details rt includeDetails board of
                Inl e \<Rightarrow> Inl e
              | Inr details \<Rightarrow>
                  Inr (JObj [(''summary'', JStr (''Board: '' @ name')),
                             (''board'', JObj
                                ([(''id'', get board ''id''),
                                  (''name'', get board ''name''),
                                  (''description'', or_else (get board ''desc'') (JStr ''No description'')),
                                  (''url'', get board ''shortUrl''),
                                  (''lastActivity'', get board ''dateLastActivity''),
                                  (''closed'', get board ''closed''),
                                  (''permissions'',
                                     or_else (opt_get (get board ''prefs'') ''permissionLevel'')
                                       (JStr ''unknown''))]
                                 @ details)),
                             (''rateLimit'', rateLimit r)]))))"

definition handleGetBoardDetails :: "runtime \<Rightarrow> jsval \<Rightarrow> envelope \<times> request list" where
  "handleGetBoardDetails rt args =
     respond rt ''Error getting board details: ''
       (case validateGetBoard rt args of
          Inl e \<Rightarrow> (Inl e, [])
        | Inr v \<Rightarrow>
            if nullish v then (Inl (Error (typeError rt ''apiKey'')), [])
            else invoke rt
                   ((get v ''apiKey'', get v ''token''),
                    getBoard (get v ''boardId'') (get v ''includeDetails''))
                   (getBoardDetails_result rt v))"

subsection \<open>handleGetLists\<close>

definition getLists_result :: "runtime \<Rightarrow> jsval \<Rightarrow> response \<Rightarrow> thrown + jsval" where
  "getLists_result rt v r =
     (let lists' = data r; boardId = get v ''boardId''; filter' = get v ''filter'' in
      if nullish lists' then Inl (Error (typeError rt ''length''))
      else
        (case found rt (js_length lists') filter' of
           Inl e \<Rightarrow> Inl e
         | Inr found' \<Rightarrow>
             (case array_map rt
                     (\<lambda>list. reading rt list ''id''
                        (JObj [(''id'', get list ''id''),
                               (''name'', get list ''name''),
                               (''position'', get list ''pos''),
                               (''closed'', get list ''closed''),
                               (''subscribed'', get list ''subscribed'')]))
                     lists' of
                Inl e \<Rightarrow> Inl e
              | Inr listList \<Rightarrow>
                  Inr (JObj [(''summary'', JStr (found' @ '' list(s) in board'')),
                             (''boardId'', boardId),
                             (''lists'', listList),
                             (''rateLimit'', rateLimit r)]))))"

definition handleGetLists :: "runtime \<Rightarrow> jsval \<Rightarrow> envelope \<times> request list" where
  "handleGetLists rt args =
     respond rt ''Error getting lists: ''
       (case validateGetBoardLists rt args of
          Inl e \<Rightarrow> (Inl e, [])
        | Inr v \<Rightarrow>
            if nullish v then (Inl (Error (typeError rt ''apiKey'')), [])
            else invoke rt
                   ((get v ''apiKey'', get v ''token''),
                    getBoardLists (get v ''boardId'') (get v ''filter''))
                   (getLists_result rt v))"

section \<open>The handlers of checklists.ts\<close>

subsection \<open>handleTrelloCreateChecklist\<close>

definition validateCreateChecklist :: "runtime \<Rightarrow> jsval \<Rightarrow> thrown + jsval" where
  "validateCreateChecklist rt args = parse_object (datetime rt) validateCreateChecklist_schema args"

definition createChecklist_request :: "jsval \<Rightarrow> request" where
  "createChecklist_request v =
     ((get v ''apiKey'', get v ''token''),
      createChecklist (JObj ((''idCard'', get v ''idCard'')
        # present v ''name''
        @ present v ''pos''
        @ present v ''idChecklistSource'')))"

definition createChecklist_result :: "runtime \<Rightarrow> response \<Rightarrow> thrown + jsval" where
  "createChecklist_result rt r =
     (let checklist = data r in
      if nullish checklist then Inl (Error (typeError rt ''name''))
      else
        (case template rt (get checklist ''name'') of
           Inl e \<Rightarrow> Inl e
         | Inr name' \<Rightarrow>
             Inr (JObj [(''summary'', JStr (''Created checklist \"'' @ name' @ ''\" on card'')),
                        (''checklist'', JObj
                           [(''id'', get checklist ''id''),
                            (''name'', get checklist ''name''),
                            (''position'', get checklist ''pos''),
                            (''cardId'', get checklist ''idCard''),
                            (''boardId'', get checklist ''idBoard''),
                            (''checkItems'', coalesce (get checklist ''checkItems'') (JArr []))]),
                        (''rateLimit'', rateLimit r)])))"

definition handleTrelloCreateChecklist :: "runtime \<Rightarrow> jsval \<Rightarrow> envelope \<times> request list" where
  "handleTrelloCreateChecklist rt args =
     respond rt ''Error creating checklist: ''
       (case validateCreateChecklist rt args of
          Inl e \<Rightarrow> (Inl e, [])
        | Inr v \<Rightarrow> invoke rt (createChecklist_request v) (createChecklist_result rt))"

subsection \<open>handleTrelloGetChecklist\<close>

definition validateGetChecklist :: "runtime \<Rightarrow> jsval \<Rightarrow> thrown + jsval" where
  "validateGetChecklist rt args = parse_object (datetime rt) validateGetChecklist_schema args"

definition getChecklist_request :: "jsval \<Rightarrow> request" where
  "getChecklist_request v =
     ((get v ''apiKey'', get v ''token''), getChecklist (get v ''checklistId''))"

definition getChecklist_result :: "runtime \<Rightarrow> response \<Rightarrow> thrown + jsval" where
  "getChecklist_result rt r =
     (let checklist = data r in
      if nullish checklist then Inl (Error (typeError rt ''name''))
      else
        (case template rt (get checklist ''name'') of
           Inl e \<Rightarrow> Inl e
         | Inr name' \<Rightarrow>
             (case opt_map rt
                     (\<lambda>item. reading rt item ''id''
                        (JObj [(''id'', get item ''id''),
                               (''name'', get item ''name''),
                               (''state'', get item ''state''),
                               (''position'', get item ''pos''),
                               (''due'', get item ''due''),
                               (''idMember'', get item ''idMember'')]))
                     (get checklist ''checkItems'') of
                Inl e \<Rightarrow> Inl e
              | Inr checkItems \<Rightarrow>
                  Inr (JObj [(''summary'', JStr (''Checklist: '' @ name')),
                             (''checklist'', JObj
                                [(''id'', get checklist ''id''),
                                 (''name'', get checklist ''name''),
                                 (''position'', get checklist ''pos''),
                                 (''cardId'', get checklist ''idCard''),
                                 (''boardId'', get checklist ''idBoard''),
                                 (''checkItems'', coalesce checkItems (JArr []))]),
                             (''rateLimit'', rateLimit r)]))))"

definition handleTrelloGetChecklist :: "runtime \<Rightarrow> jsval \<Rightarrow> envelope \<times> request list" where
  "handleTrelloGetChecklist rt args =
     respond rt ''Error getting checklist: ''
       (case validateGetChecklist rt args of
          Inl e \<Rightarrow> (Inl e, [])
        | Inr v \<Rightarrow> invoke rt (getChecklist_request v) (getChecklist_result rt))"

subsection \<open>handleTrelloUpdateChecklist\<close>

definition validateUpdateChecklist :: "runtime \<Rightarrow> jsval \<Rightarrow> thrown + jsval" where
  "validateUpdateChecklist rt args = parse_object (datetime rt) validateUpdateChecklist_schema args"

definition updateChecklist_request :: "jsval \<Rightarrow> request" where
  "updateChecklist_request v =
     ((get v ''apiKey'', get v ''token''),
      updateChecklist (get v ''checklistId'')
        (JObj (present v ''name''
          @ present v ''pos'')))"

definition updateChecklist_result :: "runtime \<Rightarrow> response \<Rightarrow> thrown + jsval" where
  "updateChecklist_result rt r =
     (let checklist = data r in
      if nullish checklist then Inl (Error (typeError rt ''name''))
      else
        (case template rt (get checklist ''name'') of
           Inl e \<Rightarrow> Inl e
         | Inr name' \<Rightarrow>
             Inr (JObj [(''summary'', JStr (''Updated checklist \"'' @ name' @ ''\"'')),
                        (''checklist'', JObj
                           [(''id'', get checklist ''id''),
                            (''name'', get checklist ''name''),
                            (''position'', get checklist ''pos''),
                            (''cardId'', get checklist ''idCard''),
                            (''boardId'', get checklist ''idBoard'')]),
                        (''rateLimit'', rateLimit r)])))"

definition handleTrelloUpdateChecklist :: "runtime \<Rightarrow> jsval \<Rightarrow> envelope \<times> request list" where
  "handleTrelloUpdateChecklist rt args =
     respond rt ''Error updating checklist: ''
       (case validateUpdateChecklist rt args of
          Inl e \<Rightarrow> (Inl e, [])
        | Inr v \<Rightarrow> invoke rt (updateChecklist_request v) (updateChecklist_result rt))"

subsection \<open>handleTrelloDeleteChecklist\<close>

definition validateDeleteChecklist :: "runtime \<Rightarrow> jsval \<Rightarrow> thrown + jsval" where
  "validateDeleteChecklist rt args = parse_object (datetime rt) validateDeleteChecklist_schema args"

definition deleteChecklist_request :: "jsval \<Rightarrow> request" where
  "deleteChecklist_request v =
     ((get v ''apiKey'', get v ''token''), deleteChecklist (get v ''checklistId''))"

text \<open>The response of the client is awaited and not read.\<close>

definition deleteChecklist_result :: "runtime \<Rightarrow> jsval \<Rightarrow> response \<Rightarrow> thrown + jsval" where
  "deleteChecklist_result rt v r =
     (let checklistId = get v ''checklistId'' in
      case template rt checklistId of
        Inl e \<Rightarrow> Inl e
      | Inr id' \<Rightarrow>
          Inr (JObj [(''summary'', JStr (''Deleted checklist '' @ id')),
                     (''checklistId'', checklistId),
                     (''deleted'', JBool True)]))"

definition handleTrelloDeleteChecklist :: "runtime \<Rightarrow> jsval \<Rightarrow> envelope \<times> request list" where
  "handleTrelloDeleteChecklist rt args =
     respond rt ''Error deleting checklist: ''
       (case validateDeleteChecklist rt args of
          Inl e \<Rightarrow> (Inl e, [])
        | Inr v \<Rightarrow> invoke rt (deleteChecklist_request v) (deleteChecklist_result rt v))"

subsection \<open>handleTrelloCreateChecklistItem\<close>

definition validateCreateChecklistItem :: "runtime \<Rightarrow> jsval \<Rightarrow> thrown + jsval" where
  "validateCreateChecklistItem rt args =
     parse_object (datetime rt) validateCreateChecklistItem_schema args"

definition createChecklistItem_request :: "jsval \<Rightarrow> request" where
  "createChecklistItem_request v =
     ((get v ''apiKey'', get v ''token''),
      createChecklistItem (get v ''checklistId'')
        (JObj ((''name'', get v ''name'')
          # present v ''pos''
          @ present v ''checked''
          @ present v ''due''
          @ present v ''idMember'')))"

definition createChecklistItem_result :: "runtime \<Rightarrow> response \<Rightarrow> thrown + jsval" where
  "createChecklistItem_result rt r =
     (let item = data r in
      if nullish item then Inl (Error (typeError rt ''name''))
      else
        (case template rt (get item ''name'') of
           Inl e \<Rightarrow> Inl e
         | Inr name' \<Rightarrow>
             Inr (JObj [(''summary'', JStr (''Created check item \"'' @ name' @ ''\"'')),
                        (''checkItem'', JObj
                           [(''id'', get item ''id''),
                            (''name'', get item ''name''),
                            (''state'', get item ''state''),
                            (''position'', get item ''pos''),
                            (''due'', get item ''due''),
                            (''idMember'', get item ''idMember''),
                            (''checklistId'', get item ''idChecklist'')]),
                        (''rateLimit'', rateLimit r)])))"

definition handleTrelloCreateChecklistItem :: "runtime \<Rightarrow> jsval \<Rightarrow> envelope \<times> request list" where
  "handleTrelloCreateChecklistItem rt args =
     respond rt ''Error creating check item: ''
       (case validateCreateChecklistItem rt args of
          Inl e \<Rightarrow> (Inl e, [])
        | Inr v \<Rightarrow> invoke rt (createChecklistItem_request v) (createChecklistItem_result rt))"

subsection \<open>handleTrelloUpdateChecklistItem\<close>

definition validateUpdateChecklistItem :: "runtime \<Rightarrow> jsval \<Rightarrow> thrown + jsval" where
  "validateUpdateChecklistItem rt args =
     parse_object (datetime rt) validateUpdateChecklistItem_schema args"

definition updateChecklistItem_request :: "jsval \<Rightarrow> request" where
  "updateChecklistItem_request v =
     ((get v ''apiKey'', get v ''token''),
      updateChecklistItem (get v ''cardId'') (get v ''checkItemId'')
        (JObj (present v ''state''
          @ present v ''name''
          @ present v ''pos''
          @ present v ''due''
          @ present v ''idMember''
          @ present v ''idChecklist'')))"

definition updateChecklistItem_result :: "runtime \<Rightarrow> response \<Rightarrow> thrown + jsval" where
  "updateChecklistItem_result rt r =
     (let item = data r in
      if nullish item then Inl (Error (typeError rt ''name''))
      else
        (case template rt (get item ''name'') of
           Inl e \<Rightarrow> Inl e
         | Inr name' \<Rightarrow>
             Inr (JObj [(''summary'', JStr (''Updated check item \"'' @ name' @ ''\"'')),
                        (''checkItem'', JObj
                           [(''id'', get item ''id''),
                            (''name'', get item ''name''),
                            (''state'', get item ''state''),
                            (''position'', get item ''pos''),
                            (''due'', get item ''due''),
                            (''idMember'', get item ''idMember''),
                            (''checklistId'', get item ''idChecklist''),
                            (''cardId'', get item ''idCard'')]),
                        (''rateLimit'', rateLimit r)])))"

definition handleTrelloUpdateChecklistItem :: "runtime \<Rightarrow> jsval \<Rightarrow> envelope \<times> request list" where
  "handleTrelloUpdateChecklistItem rt args =
     respond rt ''Error updating check item: ''
       (case validateUpdateChecklistItem rt args of
          Inl e \<Rightarrow> (Inl e, [])
        | Inr v \<Rightarrow> invoke rt (updateChecklistItem_request v) (updateChecklistItem_result rt))"

subsection \<open>handleTrelloDeleteChecklistItem\<close>

definition validateDeleteChecklistItem :: "runtime \<Rightarrow> jsval \<Rightarrow> thrown + jsval" where
  "validateDeleteChecklistItem rt args =
     parse_object (datetime rt) validateDeleteChecklistItem_schema args"

definition deleteChecklistItem_request :: "jsval \<Rightarrow> request" where
  "deleteChecklistItem_request v =
     ((get v ''apiKey'', get v ''token''),
      deleteChecklistItem (get v ''checklistId'') (get v ''checkItemId''))"

definition deleteChecklistItem_result :: "runtime \<Rightarrow> jsval \<Rightarrow> response \<Rightarrow> thrown + jsval" where
  "deleteChecklistItem_result rt v r =
     (let checklistId = get v ''checklistId''; checkItemId = get v ''checkItemId'' in
      case template rt checkItemId of
        Inl e \<Rightarrow> Inl e
      | Inr item' \<Rightarrow>
          (case template rt checklistId of
             Inl e \<Rightarrow> Inl e
           | Inr id' \<Rightarrow>
               Inr (JObj [(''summary'', JStr (''Deleted check item '' @ item'
                                              @ '' from checklist '' @ id')),
                          (''checklistId'', checklistId),
                          (''checkItemId'', checkItemId),
                          (''deleted'', JBool True)])))"

definition handleTrelloDeleteChecklistItem :: "runtime \<Rightarrow> jsval \<Rightarrow> envelope \<times> request list" where
  "handleTrelloDeleteChecklistItem rt args =
     respond rt ''Error deleting check item: ''
       (case validateDeleteChecklistItem rt args of
          Inl e \<Rightarrow> (Inl e, [])
        | Inr v \<Rightarrow> invoke rt (deleteChecklistItem_request v) (deleteChecklistItem_result rt v))"

section \<open>The tool descriptors\<close>

subsection \<open>boards.ts\<close>

definition createBoardTool :: tool where
  "createBoardTool =
     \<lparr>name = ''trello_create_board'',
      description =
        ''Create a new Trello board. Optionally set its description, visibility, default lists, and workspace.'',
      inputSchema =
        JObj
          [(''type'', JStr ''object''),
           (''properties'', JObj
             [(''apiKey'', JObj
                [(''type'', JStr ''string''),
                 (''description'',
                    JStr ''Trello API key (automatically provided by Claude.app from your stored credentials)'')]),
              (''token'', JObj
                [(''type'', JStr ''string''),
                 (''description'',
                    JStr ''Trello API token (automatically provided by Claude.app from your stored credentials)'')]),
              (''name'', JObj
                [(''type'', JStr ''string''),
                 (''description'', JStr ''Name of the new board'')]),
              (''desc'', JObj
                [(''type'', JStr ''string''),
                 (''description'', JStr ''Optional description for the board'')]),
              (''idOrganization'', JObj
                [(''type'', JStr ''string''),
                 (''description'',
                    JStr ''Optional workspace/organization ID to add the board to''),
                 (''pattern'', JStr ''^[a-f0-9]{24}$'')]),
              (''defaultLabels'', JObj
                [(''type'', JStr ''boolean''),
                 (''description'',
                    JStr ''Whether to create the default labels (red, orange, yellow, green, blue, purple). Defaults to true.''),
                 (''default'', JBool True)]),
              (''defaultLists'', JObj
                [(''type'', JStr ''boolean''),
                 (''description'',
                    JStr ''Whether to create the default lists (To Do, Doing, Done). Defaults to true.''),
                 (''default'', JBool True)]),
              (''prefs_permissionLevel'', JObj
                [(''type'', JStr ''string''),
                 (''enum'',
                    JArr [JStr ''org'', JStr ''private'', JStr ''public'', JStr ''enterprise'']),
                 (''description'',
                    JStr ''Board visibility: \"private\" (only members), \"org\" (workspace members), \"public\" (anyone)''),
                 (''default'', JStr ''private'')]),
              (''prefs_background'', JObj
                [(''type'', JStr ''string''),
                 (''description'',
                    JStr ''Background color or image ID (e.g. \"blue\", \"green\", \"red\", \"orange\", \"purple\", \"pink\", \"lime\", \"sky\", \"grey\")'')])]),
           (''required'', JArr [JStr ''apiKey'', JStr ''token'', JStr ''name''])]\<rparr>"

definition listBoardsTool :: tool where
  "listBoardsTool =
     \<lparr>name = ''list_boards'',
      description =
        ''List all Trello boards accessible to the user. Use this to see all boards you have access to, or filter by status.'',
      inputSchema =
        JObj
          [(''type'', JStr ''object''),
           (''properties'', JObj
             [(''apiKey'', JObj
                [(''type'', JStr ''string''),
                 (''description'',
                    JStr ''Trello API key (automatically provided by Claude.app from your stored credentials)'')]),
              (''token'', JObj
                [(''type'', JStr ''string''),
                 (''description'',
                    JStr ''Trello API token (automatically provided by Claude.app from your stored credentials)'')]),
              (''filter'', JObj
                [(''type'', JStr ''string''),
                 (''enum'', JArr [JStr ''all'', JStr ''open'', JStr ''closed'']),
                 (''description'',
                    JStr ''Filter boards by status: \"open\" for active boards, \"closed\" for archived boards, \"all\" for both''),
                 (''default'', JStr ''open'')])]),
           (''required'', JArr [JStr ''apiKey'', JStr ''token''])]\<rparr>"

definition getBoardDetailsTool :: tool where
  "getBoardDetailsTool =
     \<lparr>name = ''get_board_details'',
      description =
        ''Get detailed information about a specific Trello board, including its lists and cards. Useful for understanding board structure and content.'',
      inputSchema =
        JObj
          [(''type'', JStr ''object''),
           (''properties'', JObj
             [(''apiKey'', JObj
                [(''type'', JStr ''string''),
                 (''description'',
                    JStr ''Trello API key (automatically provided by Claude.app from your stored credentials)'')]),
              (''token'', JObj
                [(''type'', JStr ''string''),
                 (''description'',
                    JStr ''Trello API token (automatically provided by Claude.app from your stored credentials)'')]),
              (''boardId'', JObj
                [(''type'', JStr ''string''),
                 (''description'',
                    JStr ''The ID of the board to retrieve (you can get this from list_boards)''),
                 (''pattern'', JStr ''^[a-f0-9]{24}$'')]),
              (''includeDetails'', JObj
                [(''type'', JStr ''boolean''),
                 (''description'',
                    JStr ''Include lists and cards in the response for complete board overview''),
                 (''default'', JBool False)])]),
           (''required'', JArr [JStr ''apiKey'', JStr ''token'', JStr ''boardId''])]\<rparr>"

definition getListsTool :: tool where
  "getListsTool =
     \<lparr>name = ''get_lists'',
      description =
        ''Get all lists in a specific Trello board. Use this to see the workflow columns (like \"To Do\", \"In Progress\", \"Done\") in a board.'',
      inputSchema =
        JObj
          [(''type'', JStr ''object''),
           (''properties'', JObj
             [(''apiKey'', JObj
                [(''type'', JStr ''string''),
                 (''description'',
                    JStr ''Trello API key (automatically provided by Claude.app from your stored credentials)'')]),
              (''token'', JObj
                [(''type'', JStr ''string''),
                 (''description'',
                    JStr ''Trello API token (automatically provided by Claude.app from your stored credentials)'')]),
              (''boardId'', JObj
                [(''type'', JStr ''string''),
                 (''description'',
                    JStr ''The ID of the board to get lists from (you can get this from list_boards)''),
                 (''pattern'', JStr ''^[a-f0-9]{24}$'')]),
              (''filter'', JObj
                [(''type'', JStr ''string''),
                 (''enum'', JArr [JStr ''all'', JStr ''open'', JStr ''closed'']),
                 (''description'',
                    JStr ''Filter lists by status: \"open\" for active lists, \"closed\" for archived lists, \"all\" for both''),
                 (''default'', JStr ''open'')])]),
           (''required'', JArr [JStr ''apiKey'', JStr ''token'', JStr ''boardId''])]\<rparr>"

subsection \<open>checklists.ts\<close>

definition trelloCreateChecklistTool :: tool where
  "trelloCreateChecklistTool =
     \<lparr>name = ''trello_create_checklist'',
      description =
        ''Create a new checklist on a Trello card. Optionally copy items from an existing checklist.'',
      inputSchema =
        JObj
          [(''type'', JStr ''object''),
           (''properties'', JObj
             [(''apiKey'', JObj
                [(''type'', JStr ''string''),
                 (''description'',
                    JStr ''Trello API key (automatically provided by Claude.app from your stored credentials)'')]),
              (''token'', JObj
                [(''type'', JStr ''string''),
                 (''description'',
                    JStr ''Trello API token (automatically provided by Claude.app from your stored credentials)'')]),
              (''idCard'', JObj
                [(''type'', JStr ''string''),
                 (''description'', JStr ''ID of the card to add the checklist to''),
                 (''pattern'', JStr ''^[a-f0-9]{24}$'')]),
              (''name'', JObj
                [(''type'', JStr ''string''),
                 (''description'',
                    JStr ''Name of the checklist (defaults to \"Checklist\" if omitted)'')]),
              (''pos'', JObj
                [(''oneOf'', JArr
                   [JObj
                      [(''type'', JStr ''number''),
                       (''minimum'', JNum 0)],
                    JObj
                      [(''type'', JStr ''string''),
                       (''enum'', JArr [JStr ''top'', JStr ''bottom''])]]),
                 (''description'',
                    JStr ''Position of the checklist on the card: \"top\", \"bottom\", or a positive number'')]),
              (''idChecklistSource'', JObj
                [(''type'', JStr ''string''),
                 (''description'', JStr ''ID of an existing checklist to copy items from''),
                 (''pattern'', JStr ''^[a-f0-9]{24}$'')])]),
           (''required'', JArr [JStr ''apiKey'', JStr ''token'', JStr ''idCard''])]\<rparr>"

definition trelloGetChecklistTool :: tool where
  "trelloGetChecklistTool =
     \<lparr>name = ''trello_get_checklist'',
      description =
        ''Get a specific Trello checklist by ID, including all of its check items.'',
      inputSchema =
        JObj
          [(''type'', JStr ''object''),
           (''properties'', JObj
             [(''apiKey'', JObj
                [(''type'', JStr ''string''),
                 (''description'',
                    JStr ''Trello API key (automatically provided by Claude.app from your stored credentials)'')]),
              (''token'', JObj
                [(''type'', JStr ''string''),
                 (''description'',
                    JStr ''Trello API token (automatically provided by Claude.app from your stored credentials)'')]),
              (''checklistId'', JObj
                [(''type'', JStr ''string''),
                 (''description'', JStr ''ID of the checklist to retrieve''),
                 (''pattern'', JStr ''^[a-f0-9]{24}$'')])]),
           (''required'', JArr [JStr ''apiKey'', JStr ''token'', JStr ''checklistId''])]\<rparr>"

definition trelloUpdateChecklistTool :: tool where
  "trelloUpdateChecklistTool =
     \<lparr>name = ''trello_update_checklist'',
      description =
        ''Update the name or position of a Trello checklist.'',
      inputSchema =
        JObj
          [(''type'', JStr ''object''),
           (''properties'', JObj
             [(''apiKey'', JObj
                [(''type'', JStr ''string''),
                 (''description'',
                    JStr ''Trello API key (automatically provided by Claude.app from your stored credentials)'')]),
              (''token'', JObj
                [(''type'', JStr ''string''),
                 (''description'',
                    JStr ''Trello API token (automatically provided by Claude.app from your stored credentials)'')]),
              (''checklistId'', JObj
                [(''type'', JStr ''string''),
                 (''description'', JStr ''ID of the checklist to update''),
                 (''pattern'', JStr ''^[a-f0-9]{24}$'')]),
              (''name'', JObj
                [(''type'', JStr ''string''),
                 (''description'', JStr ''New name for the checklist'')]),
              (''pos'', JObj
                [(''oneOf'', JArr
                   [JObj
                      [(''type'', JStr ''number''),
                       (''minimum'', JNum 0)],
                    JObj
                      [(''type'', JStr ''string''),
                       (''enum'', JArr [JStr ''top'', JStr ''bottom''])]]),
                 (''description'',
                    JStr ''New position: \"top\", \"bottom\", or a positive number'')])]),
           (''required'', JArr [JStr ''apiKey'', JStr ''token'', JStr ''checklistId''])]\<rparr>"

definition trelloDeleteChecklistTool :: tool where
  "trelloDeleteChecklistTool =
     \<lparr>name = ''trello_delete_checklist'',
      description =
        ''Permanently delete a checklist from a Trello card. This also removes all its check items.'',
      inputSchema =
        JObj
          [(''type'', JStr ''object''),
           (''properties'', JObj
             [(''apiKey'', JObj
                [(''type'', JStr ''string''),
                 (''description'',
                    JStr ''Trello API key (automatically provided by Claude.app from your stored credentials)'')]),
              (''token'', JObj
                [(''type'', JStr ''string''),
                 (''description'',
                    JStr ''Trello API token (automatically provided by Claude.app from your stored credentials)'')]),
              (''checklistId'', JObj
                [(''type'', JStr ''string''),
                 (''description'', JStr ''ID of the checklist to delete''),
                 (''pattern'', JStr ''^[a-f0-9]{24}$'')])]),
           (''required'', JArr [JStr ''apiKey'', JStr ''token'', JStr ''checklistId''])]\<rparr>"

definition trelloCreateChecklistItemTool :: tool where
  "trelloCreateChecklistItemTool =
     \<lparr>name = ''trello_create_checklist_item'',
      description =
        ''Add a new check item to an existing Trello checklist.'',
      inputSchema =
        JObj
          [(''type'', JStr ''object''),
           (''properties'', JObj
             [(''apiKey'', JObj
                [(''type'', JStr ''string''),
                 (''description'',
                    JStr ''Trello API key (automatically provided by Claude.app from your stored credentials)'')]),
              (''token'', JObj
                [(''type'', JStr ''string''),
                 (''description'',
                    JStr ''Trello API token (automatically provided by Claude.app from your stored credentials)'')]),
              (''checklistId'', JObj
                [(''type'', JStr ''string''),
                 (''description'', JStr ''ID of the checklist to add the item to''),
                 (''pattern'', JStr ''^[a-f0-9]{24}$'')]),
              (''name'', JObj
                [(''type'', JStr ''string''),
                 (''description'', JStr ''Text/name of the check item'')]),
              (''pos'', JObj
                [(''oneOf'', JArr
                   [JObj
                      [(''type'', JStr ''number''),
                       (''minimum'', JNum 0)],
                    JObj
                      [(''type'', JStr ''string''),
                       (''enum'', JArr [JStr ''top'', JStr ''bottom''])]]),
                 (''description'',
                    JStr ''Position in the checklist: \"top\", \"bottom\", or a positive number'')]),
              (''checked'', JObj
                [(''type'', JStr ''boolean''),
                 (''description'', JStr ''Whether the item starts as checked (complete)''),
                 (''default'', JBool False)]),
              (''due'', JObj
                [(''type'', JStr ''string''),
                 (''format'', JStr ''date-time''),
                 (''description'',
                    JStr ''Optional due date for the check item (ISO 8601 format)'')]),
              (''idMember'', JObj
                [(''type'', JStr ''string''),
                 (''description'', JStr ''Optional member ID to assign to this check item''),
                 (''pattern'', JStr ''^[a-f0-9]{24}$'')])]),
           (''required'',
              JArr [JStr ''apiKey'', JStr ''token'', JStr ''checklistId'', JStr ''name''])]\<rparr>"

definition trelloUpdateChecklistItemTool :: tool where
  "trelloUpdateChecklistItemTool =
     \<lparr>name = ''trello_update_checklist_item'',
      description =
        ''Update a check item on a Trello card. Use this to mark items complete/incomplete, rename them, change their position, or move them to a different checklist.'',
      inputSchema =
        JObj
          [(''type'', JStr ''object''),
           (''properties'', JObj
             [(''apiKey'', JObj
                [(''type'', JStr ''string''),
                 (''description'',
                    JStr ''Trello API key (automatically provided by Claude.app from your stored credentials)'')]),
              (''token'', JObj
                [(''type'', JStr ''string''),
                 (''description'',
                    JStr ''Trello API token (automatically provided by Claude.app from your stored credentials)'')]),
              (''cardId'', JObj
                [(''type'', JStr ''string''),
                 (''description'', JStr ''ID of the card that owns the check item''),
                 (''pattern'', JStr ''^[a-f0-9]{24}$'')]),
              (''checkItemId'', JObj
                [(''type'', JStr ''string''),
                 (''description'', JStr ''ID of the check item to update''),
                 (''pattern'', JStr ''^[a-f0-9]{24}$'')]),
              (''state'', JObj
                [(''type'', JStr ''string''),
                 (''enum'', JArr [JStr ''complete'', JStr ''incomplete'']),
                 (''description'', JStr ''Mark the item as \"complete\" or \"incomplete\"'')]),
              (''name'', JObj
                [(''type'', JStr ''string''),
                 (''description'', JStr ''New text/name for the check item'')]),
              (''pos'', JObj
                [(''oneOf'', JArr
                   [JObj
                      [(''type'', JStr ''number''),
                       (''minimum'', JNum 0)],
                    JObj
                      [(''type'', JStr ''string''),
                       (''enum'', JArr [JStr ''top'', JStr ''bottom''])]]),
                 (''description'',
                    JStr ''New position: \"top\", \"bottom\", or a positive number'')]),
              (''due'', JObj
                [(''type'', JArr [JStr ''string'', JStr ''null'']),
                 (''format'', JStr ''date-time''),
                 (''description'', JStr ''Set a due date (ISO 8601) or null to remove it'')]),
              (''idMember'', JObj
                [(''type'', JArr [JStr ''string'', JStr ''null'']),
                 (''description'',
                    JStr ''Assign a member by ID, or null to remove the assignment''),
                 (''pattern'', JStr ''^[a-f0-9]{24}$'')]),
              (''idChecklist'', JObj
                [(''type'', JStr ''string''),
                 (''description'',
                    JStr ''Move the check item to a different checklist by providing the target checklist ID''),
                 (''pattern'', JStr ''^[a-f0-9]{24}$'')])]),
           (''required'',
              JArr [JStr ''apiKey'', JStr ''token'', JStr ''cardId'', JStr ''checkItemId''])]\<rparr>"

definition trelloDeleteChecklistItemTool :: tool where
  "trelloDeleteChecklistItemTool =
     \<lparr>name = ''trello_delete_checklist_item'',
      description =
        ''Permanently delete a check item from a Trello checklist.'',
      inputSchema =
        JObj
          [(''type'', JStr ''object''),
           (''properties'', JObj
             [(''apiKey'', JObj
                [(''type'', JStr ''string''),
                 (''description'',
                    JStr ''Trello API key (automatically provided by Claude.app from your stored credentials)'')]),
              (''token'', JObj
                [(''type'', JStr ''string''),
                 (''description'',
                    JStr ''Trello API token (automatically provided by Claude.app from your stored credentials)'')]),
              (''checklistId'', JObj
                [(''type'', JStr ''string''),
                 (''description'', JStr ''ID of the checklist that contains the item''),
                 (''pattern'', JStr ''^[a-f0-9]{24}$'')]),
              (''checkItemId'', JObj
                [(''type'', JStr ''string''),
                 (''description'', JStr ''ID of the check item to delete''),
                 (''pattern'', JStr ''^[a-f0-9]{24}$'')])]),
           (''required'',
              JArr [JStr ''apiKey'', JStr ''token'', JStr ''checklistId'', JStr ''checkItemId''])]\<rparr>"

section \<open>server.ts\<close>

text \<open>What an imported name stands for: the descriptor or handler defined above for
  \<^verbatim>\<open>boards.ts\<close> and \<^verbatim>\<open>checklists.ts\<close>, the runtime's for the other modules.\<close>

fun descriptor :: "runtime \<Rightarrow> tool_ref \<Rightarrow> tool" where
  "descriptor rt CreateBoardTool = createBoardTool"
| "descriptor rt ListBoardsTool = listBoardsTool"
| "descriptor rt GetBoardDetailsTool = getBoardDetailsTool"
| "descriptor rt GetListsTool = getListsTool"
| "descriptor rt TrelloCreateChecklistTool = trelloCreateChecklistTool"
| "descriptor rt TrelloGetChecklistTool = trelloGetChecklistTool"
| "descriptor rt TrelloUpdateChecklistTool = trelloUpdateChecklistTool"
| "descriptor rt TrelloDeleteChecklistTool = trelloDeleteChecklistTool"
| "descriptor rt TrelloCreateChecklistItemTool = trelloCreateChecklistItemTool"
| "descriptor rt TrelloUpdateChecklistItemTool = trelloUpdateChecklistItemTool"
| "descriptor rt TrelloDeleteChecklistItemTool = trelloDeleteChecklistItemTool"
| "descriptor rt t = imported_tool rt t"

text \<open>The handler functions of \<^verbatim>\<open>boards.ts\<close> and \<^verbatim>\<open>checklists.ts\<close>, each with
  the requests it makes; the other modules' handlers are the runtime's.\<close>

fun module_handler :: "handler \<Rightarrow> (runtime \<Rightarrow> jsval \<Rightarrow> envelope \<times> request list) option" where
  "module_handler HandleCreateBoard = Some handleCreateBoard"
| "module_handler HandleListBoards = Some handleListBoards"
| "module_handler HandleGetBoardDetails = Some handleGetBoardDetails"
| "module_handler HandleGetLists = Some handleGetLists"
| "module_handler HandleTrelloCreateChecklist = Some handleTrelloCreateChecklist"
| "module_handler HandleTrelloGetChecklist = Some handleTrelloGetChecklist"
| "module_handler HandleTrelloUpdateChecklist = Some handleTrelloUpdateChecklist"
| "module_handler HandleTrelloDeleteChecklist = Some handleTrelloDeleteChecklist"
| "module_handler HandleTrelloCreateChecklistItem = Some handleTrelloCreateChecklistItem"
| "module_handler HandleTrelloUpdateChecklistItem = Some handleTrelloUpdateChecklistItem"
| "module_handler HandleTrelloDeleteChecklistItem = Some handleTrelloDeleteChecklistItem"
| "module_handler h = None"

text \<open>The schema a handler's validator parses with, for the validators that
  \<^verbatim>\<open>boards.ts\<close> and \<^verbatim>\<open>checklists.ts\<close> define themselves.\<close>

fun schema_of :: "handler \<Rightarrow> (string \<times> zod) list option" where
  "schema_of HandleCreateBoard = Some validateCreateBoard_schema"
| "schema_of HandleTrelloCreateChecklist = Some validateCreateChecklist_schema"
| "schema_of HandleTrelloGetChecklist = Some validateGetChecklist_schema"
| "schema_of HandleTrelloUpdateChecklist = Some validateUpdateChecklist_schema"
| "schema_of HandleTrelloDeleteChecklist = Some validateDeleteChecklist_schema"
| "schema_of HandleTrelloCreateChecklistItem = Some validateCreateChecklistItem_schema"
| "schema_of HandleTrelloUpdateChecklistItem = Some validateUpdateChecklistItem_schema"
| "schema_of HandleTrelloDeleteChecklistItem = Some validateDeleteChecklistItem_schema"
| "schema_of h = None"

text \<open>\<^verbatim>\<open>await handleX(args)\<close> in the dispatcher: the envelope, or what the handler
  throws.\<close>

definition await_handler :: "runtime \<Rightarrow> handler \<Rightarrow> jsval \<Rightarrow> thrown + envelope" where
  "await_handler rt h args =
     (case module_handler h of
        Some f \<Rightarrow> Inr (fst (f rt args))
      | None \<Rightarrow> imported_handler rt h args)"

text \<open>The \<^verbatim>\<open>ListToolsRequestSchema\<close> handler: the \<^verbatim>\<open>tools\<close> array, in its order.\<close>

definition listTools :: "tool_ref list" where
  "listTools =
     [TrelloSearchTool,
      TrelloGetUserBoardsTool,
      GetBoardDetailsTool,
      GetCardTool,
      CreateCardTool,
      UpdateCardTool,
      MoveCardTool,
      TrelloAddCommentTool,
      TrelloGetListCardsTool,
      TrelloCreateListTool,
      CreateBoardTool,
      ListBoardsTool,
      GetListsTool,
      TrelloGetMemberTool,
      TrelloGetBoardCardsTool,
      TrelloGetCardActionsTool,
      TrelloGetCardAttachmentsTool,
      TrelloGetCardChecklistsTool,
      TrelloGetBoardMembersTool,
      TrelloGetBoardLabelsTool,
      TrelloCreateChecklistTool,
      TrelloGetChecklistTool,
      TrelloUpdateChecklistTool,
      TrelloDeleteChecklistTool,
      TrelloCreateChecklistItemTool,
      TrelloUpdateChecklistItemTool,
      TrelloDeleteChecklistItemTool]"

text \<open>The \<^verbatim>\<open>CallToolRequestSchema\<close> handler: the \<^verbatim>\<open>case\<close> labels of its
  \<^verbatim>\<open>switch\<close> with the handler each calls, in their order, and the \<^verbatim>\<open>default\<close>
  branch, which throws.\<close>

definition callTool_cases :: "(string \<times> handler) list" where
  "callTool_cases =
     [(''trello_search'', HandleTrelloSearch),
      (''trello_get_user_boards'', HandleTrelloGetUserBoards),
      (''trello_create_board'', HandleCreateBoard),
      (''get_board_details'', HandleGetBoardDetails),
      (''get_card'', HandleGetCard),
      (''create_card'', HandleCreateCard),
      (''update_card'', HandleUpdateCard),
      (''move_card'', HandleMoveCard),
      (''trello_add_comment'', HandleTrelloAddComment),
      (''trello_get_list_cards'', HandleTrelloGetListCards),
      (''trello_create_list'', HandleTrelloCreateList),
      (''list_boards'', HandleListBoards),
      (''get_lists'', HandleGetLists),
      (''trello_get_member'', HandleTrelloGetMember),
      (''trello_get_board_cards'', HandleTrelloGetBoardCards),
      (''trello_get_card_actions'', HandleTrelloGetCardActions),
      (''trello_get_card_attachments'', HandleTrelloGetCardAttachments),
      (''trello_get_card_checklists'', HandleTrelloGetCardChecklists),
      (''trello_get_board_members'', HandleTrelloGetBoardMembers),
      (''trello_get_board_labels'', HandleTrelloGetBoardLabels),
      (''trello_create_checklist'', HandleTrelloCreateChecklist),
      (''trello_get_checklist'', HandleTrelloGetChecklist),
      (''trello_update_checklist'', HandleTrelloUpdateChecklist),
      (''trello_delete_checklist'', HandleTrelloDeleteChecklist),
      (''trello_create_checklist_item'', HandleTrelloCreateChecklistItem),
      (''trello_update_checklist_item'', HandleTrelloUpdateChecklistItem),
      (''trello_delete_checklist_item'', HandleTrelloDeleteChecklistItem)]"

definition callTool :: "runtime \<Rightarrow> string \<Rightarrow> jsval \<Rightarrow> thrown + envelope" where
  "callTool rt name' args =
     (case map_of callTool_cases name' of
        Some h \<Rightarrow> await_handler rt h args
      | None \<Rightarrow> Inl (Error (''Unknown tool: '' @ name')))"

section \<open>The standalone shell\<close>

text \<open>
  \<^verbatim>\<open>src/index.ts\<close>, the entry point that injects the credentials, is not among the
  sources at hand. The developer guide says that it registers a tool by the same three
  changes as \<^verbatim>\<open>server.ts\<close> (the import, the entry of the \<^verbatim>\<open>tools\<close> array, the
  \<^verbatim>\<open>case\<close> of the \<^verbatim>\<open>switch\<close>) and calls the handler on \<^verbatim>\<open>argsWithCredentials\<close>.
\<close>

text \<open>Modelled from the spec: the catalog of \<^verbatim>\<open>src/index.ts\<close>, which is missing. The spec
  lists it in the table "Operation catalog" of its section 6; the entries are in the
  order of that table, each operation by the descriptor \<^verbatim>\<open>server.ts\<close> imports for it.\<close>

definition standalone_listTools :: "tool_ref list" where
  "standalone_listTools =
     [TrelloSearchTool,
      TrelloGetUserBoardsTool,
      CreateBoardTool,
      GetBoardDetailsTool,
      GetCardTool,
      CreateCardTool,
      UpdateCardTool,
      MoveCardTool,
      TrelloAddCommentTool,
      TrelloGetListCardsTool,
      TrelloCreateListTool,
      ListBoardsTool,
      GetListsTool,
      TrelloGetMemberTool,
      TrelloGetBoardCardsTool,
      TrelloGetCardActionsTool,
      TrelloGetCardAttachmentsTool,
      TrelloGetCardChecklistsTool,
      TrelloGetBoardMembersTool,
      TrelloGetBoardLabelsTool,
      TrelloCreateChecklistTool,
      TrelloGetChecklistTool,
      TrelloUpdateChecklistTool,
      TrelloDeleteChecklistTool,
      TrelloCreateChecklistItemTool,
      TrelloUpdateChecklistItemTool,
      TrelloDeleteChecklistItemTool]"

text \<open>Modelled from the spec: the \<^verbatim>\<open>switch\<close> of \<^verbatim>\<open>src/index.ts\<close>, which is missing. The
  names are those of the table of section 6 of the spec, in its order, each with the
  handler of the operation ("the same name-to-handler mapping").\<close>

definition standalone_cases :: "(string \<times> handler) list" where
  "standalone_cases =
     [(''trello_search'', HandleTrelloSearch),
      (''trello_get_user_boards'', HandleTrelloGetUserBoards),
      (''trello_create_board'', HandleCreateBoard),
      (''get_board_details'', HandleGetBoardDetails),
      (''get_card'', HandleGetCard),
      (''create_card'', HandleCreateCard),
      (''update_card'', HandleUpdateCard),
      (''move_card'', HandleMoveCard),
      (''trello_add_comment'', HandleTrelloAddComment),
      (''trello_get_list_cards'', HandleTrelloGetListCards),
      (''trello_create_list'', HandleTrelloCreateList),
      (''list_boards'', HandleListBoards),
      (''get_lists'', HandleGetLists),
      (''trello_get_member'', HandleTrelloGetMember),
      (''trello_get_board_cards'', HandleTrelloGetBoardCards),
      (''trello_get_card_actions'', HandleTrelloGetCardActions),
      (''trello_get_card_attachments'', HandleTrelloGetCardAttachments),
      (''trello_get_card_checklists'', HandleTrelloGetCardChecklists),
      (''trello_get_board_members'', HandleTrelloGetBoardMembers),
      (''trello_get_board_labels'', HandleTrelloGetBoardLabels),
      (''trello_create_checklist'', HandleTrelloCreateChecklist),
      (''trello_get_checklist'', HandleTrelloGetChecklist),
      (''trello_update_checklist'', HandleTrelloUpdateChecklist),
      (''trello_delete_checklist'', HandleTrelloDeleteChecklist),
      (''trello_create_checklist_item'', HandleTrelloCreateChecklistItem),
      (''trello_update_checklist_item'', HandleTrelloUpdateChecklistItem),
      (''trello_delete_checklist_item'', HandleTrelloDeleteChecklistItem)]"

text \<open>Modelled from the spec: the credential injection of \<^verbatim>\<open>src/index.ts\<close>, which is
  missing. "Before dispatch, injects two credential fields into the argument map from
  process-wide configuration, overriding any caller-supplied values for those two fields
  only; all other fields pass through unmodified."\<close>

definition argsWithCredentials :: "jsval \<times> jsval \<Rightarrow> jsval \<Rightarrow> jsval" where
  "argsWithCredentials credentials args =
     JObj ((''apiKey'', fst credentials) # (''token'', snd credentials)
           # (case args of JObj kvs \<Rightarrow> kvs | _ \<Rightarrow> []))"

text \<open>Modelled from the spec: the dispatch of \<^verbatim>\<open>src/index.ts\<close>, which is missing. It
  is that of \<^verbatim>\<open>server.ts\<close> over the cases above, on the arguments with the
  credentials injected.\<close>

definition standalone_callTool :: "runtime \<Rightarrow> jsval \<times> jsval \<Rightarrow> string \<Rightarrow> jsval \<Rightarrow> thrown + envelope" where
  "standalone_callTool rt credentials name' args =
     (case map_of standalone_cases name' of
        Some h \<Rightarrow> await_handler rt h (argsWithCredentials credentials args)
      | None \<Rightarrow> Inl (Error (''Unknown tool: '' @ name')))"

section \<open>Tables over the handlers\<close>

text \<open>What the handlers of \<^verbatim>\<open>boards.ts\<close> and \<^verbatim>\<open>checklists.ts\<close> differ in, by
  handler, so that a property can be stated for all of them: the validator called first,
  the words of the \<^verbatim>\<open>catch\<close> block's text between \<^verbatim>\<open>Error\<close> and the colon, the
  request built from the validated arguments, and the result built from the response.
  The last equation of each table stands for the handlers of the other modules, of
  which nothing is stated.\<close>

fun validation :: "runtime \<Rightarrow> handler \<Rightarrow> jsval \<Rightarrow> thrown + jsval" where
  "validation rt HandleCreateBoard args = validateCreateBoard rt args"
| "validation rt HandleListBoards args = validateListBoards rt args"
| "validation rt HandleGetBoardDetails args = validateGetBoard rt args"
| "validation rt HandleGetLists args = validateGetBoardLists rt args"
| "validation rt HandleTrelloCreateChecklist args = validateCreateChecklist rt args"
| "validation rt HandleTrelloGetChecklist args = validateGetChecklist rt args"
| "validation rt HandleTrelloUpdateChecklist args = validateUpdateChecklist rt args"
| "validation rt HandleTrelloDeleteChecklist args = validateDeleteChecklist rt args"
| "validation rt HandleTrelloCreateChecklistItem args = validateCreateChecklistItem rt args"
| "validation rt HandleTrelloUpdateChecklistItem args = validateUpdateChecklistItem rt args"
| "validation rt HandleTrelloDeleteChecklistItem args = validateDeleteChecklistItem rt args"
| "validation rt h args = Inr args"

fun doing :: "handler \<Rightarrow> string" where
  "doing HandleCreateBoard = ''creating board''"
| "doing HandleListBoards = ''listing boards''"
| "doing HandleGetBoardDetails = ''getting board details''"
| "doing HandleGetLists = ''getting lists''"
| "doing HandleTrelloCreateChecklist = ''creating checklist''"
| "doing HandleTrelloGetChecklist = ''getting checklist''"
| "doing HandleTrelloUpdateChecklist = ''updating checklist''"
| "doing HandleTrelloDeleteChecklist = ''deleting checklist''"
| "doing HandleTrelloCreateChecklistItem = ''creating check item''"
| "doing HandleTrelloUpdateChecklistItem = ''updating check item''"
| "doing HandleTrelloDeleteChecklistItem = ''deleting check item''"
| "doing h = []"

fun request_of :: "handler \<Rightarrow> jsval \<Rightarrow> request" where
  "request_of HandleCreateBoard v = createBoard_request v"
| "request_of HandleListBoards v = ((get v ''apiKey'', get v ''token''), getMyBoards (get v ''filter''))"
| "request_of HandleGetBoardDetails v =
     ((get v ''apiKey'', get v ''token''), getBoard (get v ''boardId'') (get v ''includeDetails''))"
| "request_of HandleGetLists v =
     ((get v ''apiKey'', get v ''token''), getBoardLists (get v ''boardId'') (get v ''filter''))"
| "request_of HandleTrelloCreateChecklist v = createChecklist_request v"
| "request_of HandleTrelloGetChecklist v = getChecklist_request v"
| "request_of HandleTrelloUpdateChecklist v = updateChecklist_request v"
| "request_of HandleTrelloDeleteChecklist v = deleteChecklist_request v"
| "request_of HandleTrelloCreateChecklistItem v = createChecklistItem_request v"
| "request_of HandleTrelloUpdateChecklistItem v = updateChecklistItem_request v"
| "request_of HandleTrelloDeleteChecklistItem v = deleteChecklistItem_request v"
| "request_of h v = ((JUndefined, JUndefined), getMyBoards JUndefined)"

fun result_of :: "runtime \<Rightarrow> handler \<Rightarrow> jsval \<Rightarrow> response \<Rightarrow> thrown + jsval" where
  "result_of rt HandleCreateBoard v r = createBoard_result rt r"
| "result_of rt HandleListBoards v r = listBoards_result rt v r"
| "result_of rt HandleGetBoardDetails v r = getBoardDetails_result rt v r"
| "result_of rt HandleGetLists v r = getLists_result rt v r"
| "result_of rt HandleTrelloCreateChecklist v r = createChecklist_result rt r"
| "result_of rt HandleTrelloGetChecklist v r = getChecklist_result rt r"
| "result_of rt HandleTrelloUpdateChecklist v r = updateChecklist_result rt r"
| "result_of rt HandleTrelloDeleteChecklist v r = deleteChecklist_result rt v r"
| "result_of rt HandleTrelloCreateChecklistItem v r = createChecklistItem_result rt r"
| "result_of rt HandleTrelloUpdateChecklistItem v r = updateChecklistItem_result rt r"
| "result_of rt HandleTrelloDeleteChecklistItem v r = deleteChecklistItem_result rt v r"
| "result_of rt h v r = Inr JUndefined"

text \<open>The parts of a call: the object of fields it sends (none for a call that only
  names an entity), and the identifiers passed before it.\<close>

fun call_data :: "client_call \<Rightarrow> (string \<times> jsval) list" where
  "call_data (createBoard (JObj d)) = d"
| "call_data (createChecklist (JObj d)) = d"
| "call_data (updateChecklist i (JObj d)) = d"
| "call_data (createChecklistItem i (JObj d)) = d"
| "call_data (updateChecklistItem i j (JObj d)) = d"
| "call_data c = []"

fun call_ids :: "client_call \<Rightarrow> jsval list" where
  "call_ids (createBoard d) = []"
| "call_ids (getMyBoards f) = []"
| "call_ids (getBoard i d) = [i]"
| "call_ids (getBoardLists i f) = [i]"
| "call_ids (createChecklist d) = []"
| "call_ids (getChecklist i) = [i]"
| "call_ids (updateChecklist i d) = [i]"
| "call_ids (deleteChecklist i) = [i]"
| "call_ids (createChecklistItem i d) = [i]"
| "call_ids (updateChecklistItem i j d) = [i, j]"
| "call_ids (deleteChecklistItem i j) = [i, j]"

text \<open>The fields a handler passes as identifiers before the object of fields.\<close>

fun positional :: "handler \<Rightarrow> string list" where
  "positional HandleGetBoardDetails = [''boardId'']"
| "positional HandleGetLists = [''boardId'']"
| "positional HandleTrelloGetChecklist = [''checklistId'']"
| "positional HandleTrelloUpdateChecklist = [''checklistId'']"
| "positional HandleTrelloDeleteChecklist = [''checklistId'']"
| "positional HandleTrelloCreateChecklistItem = [''checklistId'']"
| "positional HandleTrelloUpdateChecklistItem = [''cardId'', ''checkItemId'']"
| "positional HandleTrelloDeleteChecklistItem = [''checklistId'', ''checkItemId'']"
| "positional h = []"

text \<open>The handlers of the operations that create or update an entity.\<close>

definition create_update_handlers :: "handler list" where
  "create_update_handlers =
     [HandleCreateBoard, HandleTrelloCreateChecklist, HandleTrelloUpdateChecklist,
      HandleTrelloCreateChecklistItem, HandleTrelloUpdateChecklistItem]"

text \<open>The optional and the required fields of a schema.\<close>

fun is_optional :: "zod \<Rightarrow> bool" where
  "is_optional (ZOptional z) = True"
| "is_optional z = False"

definition optional_fields :: "(string \<times> zod) list \<Rightarrow> string list" where
  "optional_fields shape = map fst (filter (\<lambda>(k, z). is_optional z) shape)"

definition required_fields :: "(string \<times> zod) list \<Rightarrow> string list" where
  "required_fields shape = map fst (filter (\<lambda>(k, z). \<not> is_optional z) shape)"

text \<open>The fields of the schemas that hold an identifier of the remote system, and
  those that hold free text.\<close>

definition identifier_fields :: "string list" where
  "identifier_fields =
     [''idOrganization'', ''idCard'', ''idChecklistSource'', ''checklistId'', ''cardId'',
      ''checkItemId'', ''idMember'', ''idChecklist'']"

definition free_text_fields :: "string list" where
  "free_text_fields = [''name'', ''desc'']"

text \<open>The pattern of an identifier, with the message of the schema: the schema of an
  identifier field is this, bare, optional, or nullable and optional.\<close>

definition id_pattern :: "string \<Rightarrow> zod" where
  "id_pattern m = ZString [Regex (ClassRepeat [(CHR ''a'', CHR ''f''), (CHR ''0'', CHR ''9'')] 24) m]"

text \<open>The required fields that a create or update request sends in its object of
  fields: those that are neither credentials nor passed as identifiers.\<close>

definition sent_required :: "handler \<Rightarrow> (string \<times> zod) list \<Rightarrow> string list" where
  "sent_required h shape =
     filter (\<lambda>k. k \<notin> {''apiKey'', ''token''} \<union> set (positional h)) (required_fields shape)"

text \<open>The response data from which a handler builds its result without a
  \<^verbatim>\<open>TypeError\<close>, by the call that returned it: the entity is neither undefined
  nor null, what the summary quotes converts to a string, and what the handler maps
  over is an array of values that are neither undefined nor null (or, behind
  \<^verbatim>\<open>?.\<close>, absent). The summary is built before anything is mapped; it quotes the
  name of the entity, or the length of the array and the filter of the call, or the
  identifiers of the call.\<close>

definition elements_readable :: "jsval \<Rightarrow> bool" where
  "elements_readable v = (case v of JArr xs \<Rightarrow> list_all (\<lambda>x. \<not> nullish x) xs | _ \<Rightarrow> False)"

definition cards_readable :: "jsval \<Rightarrow> bool" where
  "cards_readable v =
     (case v of
        JArr xs \<Rightarrow>
          list_all (\<lambda>c. \<not> nullish c
                        \<and> (nullish (get c ''labels'') \<or> elements_readable (get c ''labels''))) xs
      | _ \<Rightarrow> False)"

fun readable :: "client_call \<Rightarrow> jsval \<Rightarrow> bool" where
  "readable (createBoard d) x = (\<not> nullish x \<and> convertible (get x ''name''))"
| "readable (getMyBoards f) x = (convertible f \<and> elements_readable x)"
| "readable (getBoard i includeDetails) x =
     (\<not> nullish x \<and> convertible (get x ''name'')
      \<and> (truthy includeDetails \<longrightarrow>
           (nullish (get x ''lists'') \<or> elements_readable (get x ''lists''))
           \<and> (nullish (get x ''cards'') \<or> cards_readable (get x ''cards''))))"
| "readable (getBoardLists i f) x = (convertible f \<and> elements_readable x)"
| "readable (createChecklist d) x = (\<not> nullish x \<and> convertible (get x ''name''))"
| "readable (getChecklist i) x =
     (\<not> nullish x \<and> convertible (get x ''name'')
      \<and> (nullish (get x ''checkItems'') \<or> elements_readable (get x ''checkItems'')))"
| "readable (updateChecklist i d) x = (\<not> nullish x \<and> convertible (get x ''name''))"
| "readable (deleteChecklist i) x = convertible i"
| "readable (createChecklistItem i d) x = (\<not> nullish x \<and> convertible (get x ''name''))"
| "readable (updateChecklistItem i j d) x = (\<not> nullish x \<and> convertible (get x ''name''))"
| "readable (deleteChecklistItem i j) x = (convertible i \<and> convertible j)"

section \<open>A runtime for the examples\<close>

text \<open>A runtime whose client answers every call with the given outcome. Its validation
  message and its conversion to a string are fixed strings; the message of its
  \<^verbatim>\<open>TypeError\<close> names what was read or called; it serialises an object to the names
  of its fields; its date-time test accepts one timestamp.\<close>

definition example_runtime :: "thrown + response \<Rightarrow> runtime" where
  "example_runtime outcome =
     \<lparr>datetime = (\<lambda>s. s = ''2026-01-01T00:00:00Z''),
      formatValidationError = (\<lambda>is. ''Validation failed''),
      validateListBoards = Inr,
      validateGetBoard = Inr,
      validateGetBoardLists = Inr,
      client = (\<lambda>credentials call. outcome),
      stringify = (\<lambda>v. case v of JObj kvs \<Rightarrow> concat (map (\<lambda>(k, x). k @ '' '') kvs) | _ \<Rightarrow> ''?''),
      toString = (\<lambda>v. ''?''),
      typeError = (\<lambda>k. ''TypeError: '' @ k),
      imported_tool = (\<lambda>t. \<lparr>name = [], description = [], inputSchema = JNull\<rparr>),
      imported_handler = (\<lambda>h args. Inl NonError)\<rparr>"

section \<open>Validation: general facts\<close>

text \<open>A schema raises no issue exactly when its status is valid.\<close>

lemma checked_Valid: "checked is = Valid \<longleftrightarrow> is = []"
  by (simp add: checked_def)

lemma issues_of_checked: "issues_of (checked is) = is"
  by (simp add: checked_def)

lemma parse_ZUnion_Valid:
  "parse dt p (ZUnion zs) v = Valid \<longleftrightarrow> (\<exists>z \<in> set zs. parse dt p z v = Valid)"
proof -
  let ?rs = "map (\<lambda>z. parse dt p z v) zs"
  have "r \<noteq> Valid" if "filter is_dirty ?rs = r # rs" for r rs
  proof -
    from that have "r \<in> set (filter is_dirty ?rs)"
      by simp
    then have "is_dirty r"
      by simp
    then show ?thesis
      by (cases r) auto
  qed
  moreover have "list_ex (\<lambda>r. r = Valid) ?rs \<longleftrightarrow> (\<exists>z \<in> set zs. parse dt p z v = Valid)"
    by (induction zs) auto
  ultimately show ?thesis
    by (auto simp: Let_def split: list.splits)
qed

lemma parse_ZUnion_issues:
  assumes "\<And>z. z \<in> set zs \<Longrightarrow> issues_of (parse dt p z v) = [] \<longleftrightarrow> parse dt p z v = Valid"
  shows "issues_of (parse dt p (ZUnion zs) v) = [] \<longleftrightarrow> parse dt p (ZUnion zs) v = Valid"
proof -
  let ?rs = "map (\<lambda>z. parse dt p z v) zs"
  have "issues_of r \<noteq> [] \<and> r \<noteq> Valid" if "filter is_dirty ?rs = r # rs" for r rs
  proof -
    from that have "r \<in> set (filter is_dirty ?rs)"
      by simp
    then have r: "r \<in> set ?rs" and d: "is_dirty r"
      by simp_all
    from d have "r \<noteq> Valid"
      by (cases r) auto
    with r assms show ?thesis
      by auto
  qed
  then show ?thesis
    by (auto simp: Let_def split: list.splits)
qed

lemma parse_issues: "issues_of (parse dt p z v) = [] \<longleftrightarrow> parse dt p z v = Valid"
proof (induction z arbitrary: v)
  case (ZString cs)
  show ?case by (cases v) (simp_all add: checked_def)
next
  case (ZNumber cs)
  show ?case by (cases v) (simp_all add: checked_def)
next
  case ZBoolean
  show ?case by (cases v) simp_all
next
  case (ZEnum xs)
  show ?case by (cases v) simp_all
next
  case (ZUnion zs)
  show ?case by (rule parse_ZUnion_issues) (rule ZUnion)
next
  case (ZOptional z)
  then show ?case by (cases v) simp_all
next
  case (ZNullable z)
  then show ?case by (cases v) simp_all
qed

lemma accepts_Valid: "accepts dt z v \<longleftrightarrow> parse dt [] z v = Valid"
  by (simp add: accepts_def issues_def parse_issues)

text \<open>Whether a field is accepted does not depend on the path its issues would carry.\<close>

lemma str_issues_path: "str_issues dt p s c = [] \<Longrightarrow> str_issues dt q s c = []"
  by (cases c) (auto split: if_splits)

lemma num_issues_path: "num_issues p r c = [] \<Longrightarrow> num_issues q r c = []"
  by (cases c) (auto split: if_splits)

lemma parse_path: "parse dt p z v = Valid \<Longrightarrow> parse dt q z v = Valid"
proof (induction z arbitrary: v)
  case (ZString cs)
  then show ?case by (cases v) (auto simp: checked_Valid dest: str_issues_path)
next
  case (ZNumber cs)
  then show ?case by (cases v) (auto simp: checked_Valid dest: num_issues_path)
next
  case ZBoolean
  then show ?case by (cases v) auto
next
  case (ZEnum xs)
  then show ?case by (cases v) (auto split: if_splits)
next
  case (ZUnion zs)
  then show ?case unfolding parse_ZUnion_Valid by blast
next
  case (ZOptional z)
  then show ?case by (cases v) auto
next
  case (ZNullable z)
  then show ?case by (cases v) auto
qed

lemma issues_accepts: "issues dt p z v = [] \<longleftrightarrow> accepts dt z v"
  unfolding accepts_Valid issues_def parse_issues using parse_path by blast

text \<open>What each kind of schema accepts.\<close>

lemma accepts_ZString:
  "accepts dt (ZString cs) v \<longleftrightarrow> (\<exists>s. v = JStr s \<and> (\<forall>c \<in> set cs. str_issues dt [] s c = []))"
  by (cases v) (auto simp: accepts_Valid checked_Valid)

lemma accepts_ZNumber:
  "accepts dt (ZNumber cs) v \<longleftrightarrow> (\<exists>r. v = JNum r \<and> (\<forall>c \<in> set cs. num_issues [] r c = []))"
  by (cases v) (auto simp: accepts_Valid checked_Valid)

lemma accepts_ZBoolean: "accepts dt ZBoolean v \<longleftrightarrow> (\<exists>b. v = JBool b)"
  by (cases v) (auto simp: accepts_Valid)

lemma accepts_ZEnum: "accepts dt (ZEnum xs) v \<longleftrightarrow> (\<exists>s. v = JStr s \<and> s \<in> set xs)"
  by (cases v) (auto simp: accepts_Valid)

lemma accepts_ZUnion: "accepts dt (ZUnion zs) v \<longleftrightarrow> (\<exists>z \<in> set zs. accepts dt z v)"
  unfolding accepts_Valid by (rule parse_ZUnion_Valid)

lemma accepts_ZOptional: "accepts dt (ZOptional z) v \<longleftrightarrow> v = JUndefined \<or> accepts dt z v"
  by (cases v) (auto simp: accepts_Valid)

lemma accepts_ZNullable: "accepts dt (ZNullable z) v \<longleftrightarrow> v = JNull \<or> accepts dt z v"
  by (cases v) (auto simp: accepts_Valid)

lemmas accepts_simps =
  accepts_ZString accepts_ZNumber accepts_ZBoolean accepts_ZEnum accepts_ZUnion
  accepts_ZOptional accepts_ZNullable

lemma object_issues_Nil:
  "object_issues dt shape args = [] \<longleftrightarrow> (\<forall>(k, z) \<in> set shape. accepts dt z (get args k))"
  by (auto simp: object_issues_def issues_accepts)

lemma parse_object_Inr:
  "parse_object dt shape args = Inr v \<longleftrightarrow>
     (\<exists>kvs. args = JObj kvs) \<and> (\<forall>(k, z) \<in> set shape. accepts dt z (get args k)) \<and> v = strip shape args"
  unfolding object_issues_Nil [symmetric]
  by (cases args; cases "object_issues dt shape args") (auto simp: parse_object_def)

lemma parse_object_Inl:
  "(\<exists>e. parse_object dt shape args = Inl e) \<longleftrightarrow>
     \<not> ((\<exists>kvs. args = JObj kvs) \<and> (\<forall>(k, z) \<in> set shape. accepts dt z (get args k)))"
  unfolding object_issues_Nil [symmetric]
  by (cases args; cases "object_issues dt shape args") (auto simp: parse_object_def)

lemma parse_object_throws_ZodError:
  "parse_object dt shape args = Inl e \<Longrightarrow> \<exists>i is. e = ZodError (i # is)"
  by (cases args; cases "object_issues dt shape args") (auto simp: parse_object_def)

lemma map_of_strip:
  "map_of (map (\<lambda>(k, z). (k, get v k)) (filter (\<lambda>(k, z). get v k \<noteq> JUndefined) shape)) k =
     (if k \<in> fst ` set shape \<and> get v k \<noteq> JUndefined then Some (get v k) else None)"
  by (induction shape) (auto split: if_splits)

lemma get_strip:
  "get (strip shape v) k = (if k \<in> fst ` set shape then get v k else JUndefined)"
  by (simp add: strip_def map_of_strip)

text \<open>The definitions that evaluate a validator on given arguments.\<close>

lemmas parse_object_eval =
  parse_object_def object_issues_def issues_def checked_def strip_def

lemmas schema_defs =
  validateCreateBoard_schema_def validateCreateChecklist_schema_def validateGetChecklist_schema_def
  validateUpdateChecklist_schema_def validateDeleteChecklist_schema_def
  validateCreateChecklistItem_schema_def validateUpdateChecklistItem_schema_def
  validateDeleteChecklistItem_schema_def

section \<open>Validation reads the declared fields only\<close>

lemma parse_object_agree:
  assumes "\<forall>k \<in> fst ` set shape. get (JObj kvs') k = get (JObj kvs) k"
  shows "parse_object dt shape (JObj kvs') = parse_object dt shape (JObj kvs)"
proof -
  have eq: "get (JObj kvs') k = get (JObj kvs) k" if "(k, z) \<in> set shape" for k z
    using assms that by force
  have i: "object_issues dt shape (JObj kvs') = object_issues dt shape (JObj kvs)"
    unfolding object_issues_def
    by (rule arg_cong [where f = concat], rule map_cong, rule refl) (auto simp: eq simp del: get.simps)
  have fl: "filter (\<lambda>(k, z). get (JObj kvs') k \<noteq> JUndefined) shape
      = filter (\<lambda>(k, z). get (JObj kvs) k \<noteq> JUndefined) shape"
    by (rule filter_cong, rule refl) (auto simp: eq simp del: get.simps)
  have s: "strip shape (JObj kvs') = strip shape (JObj kvs)"
    unfolding strip_def fl jsval.inject
    by (rule map_cong, rule refl) (auto simp: eq simp del: get.simps)
  show ?thesis
    unfolding parse_object_def jsval.case i s by (rule refl)
qed

lemma parse_object_update:
  assumes "parse_object dt shape (JObj kvs) = Inr v"
    and "\<forall>z. (k, z) \<in> set shape \<longrightarrow> accepts dt z w"
  shows "\<exists>v'. parse_object dt shape (JObj ((k, w) # kvs)) = Inr v'"
proof -
  have "accepts dt z (get (JObj ((k, w) # kvs)) k')" if "(k', z) \<in> set shape" for k' z
  proof (cases "k' = k")
    case True
    with that assms(2) have "accepts dt z w" by blast
    with True show ?thesis by (cases w) (auto simp: accepts_ZOptional)
  next
    case False
    with assms(1) that show ?thesis by (auto simp: parse_object_Inr)
  qed
  then show ?thesis
    unfolding parse_object_Inr by blast
qed

section \<open>What the handlers do with a verdict of the validator\<close>

lemmas validate_defs =
  validateCreateBoard_def validateCreateChecklist_def validateGetChecklist_def
  validateUpdateChecklist_def validateDeleteChecklist_def validateCreateChecklistItem_def
  validateUpdateChecklistItem_def validateDeleteChecklistItem_def

lemmas handler_defs =
  handleCreateBoard_def handleListBoards_def handleGetBoardDetails_def handleGetLists_def
  handleTrelloCreateChecklist_def handleTrelloGetChecklist_def handleTrelloUpdateChecklist_def
  handleTrelloDeleteChecklist_def handleTrelloCreateChecklistItem_def
  handleTrelloUpdateChecklistItem_def handleTrelloDeleteChecklistItem_def

lemma validation_schema:
  "schema_of h = Some shape \<Longrightarrow> validation rt h args = parse_object (datetime rt) shape args"
  by (cases h) (auto simp: validate_defs)

lemma schema_of_module_handler:
  "schema_of h = Some shape \<Longrightarrow> \<exists>f. module_handler h = Some f"
  by (cases h) auto

lemma schema_keys_distinct:
  "schema_of h = Some shape \<Longrightarrow> distinct (map fst shape)"
  by (cases h) (auto simp: schema_defs)

text \<open>A handler whose validator throws makes no request and returns the error
  envelope with the validation message.\<close>

lemma handler_rejects:
  assumes "module_handler h = Some f" and "validation rt h args = Inl e"
  shows "f rt args =
     (\<lparr>content = [TextContent (''Error '' @ doing h @ '': '' @ errorMessage rt e)],
       isError = Some True\<rparr>, [])"
  using assms by (cases h) (auto simp: handler_defs respond_def)

text \<open>A handler with a schema of its own whose validator returns makes exactly the
  request built from the validated arguments.\<close>

lemma handler_requests:
  assumes "module_handler h = Some f" and "schema_of h = Some shape"
    and "validation rt h args = Inr v"
  shows "snd (f rt args) = [request_of h v]"
  using assms
  by (cases h) (auto simp: handler_defs respond_def invoke_def split: sum.splits)

lemma validated_get:
  assumes "schema_of h = Some shape" and "validation rt h args = Inr v"
  shows "get v k = (if k \<in> fst ` set shape then get args k else JUndefined)"
  using assms by (auto simp: validation_schema parse_object_Inr get_strip)

text \<open>The verdict of a validator on one field of its schema. Arguments that validate
  have a value the field accepts, and the validated arguments hold it as given;
  arguments that validate still do when the field is set to a value it accepts; a
  value the field rejects makes the validator throw, and the handler return the error
  envelope with the validation message, without a request.\<close>

lemma field_validated:
  assumes "schema_of h = Some shape" and "(k, z) \<in> set shape"
    and "validation rt h args = Inr out"
  shows "accepts (datetime rt) z (get args k) \<and> get out k = get args k"
proof -
  have "parse_object (datetime rt) shape args = Inr out"
    using assms(3) unfolding validation_schema [OF assms(1)] .
  then have "accepts (datetime rt) z (get args k)"
    using assms(2) unfolding parse_object_Inr by blast
  moreover have "k \<in> fst ` set shape"
    using assms(2) by force
  then have "get out k = get args k"
    using validated_get [OF assms(1,3), of k] by simp
  ultimately show ?thesis by blast
qed

lemma field_accepted:
  assumes "schema_of h = Some shape" and "(k, z) \<in> set shape"
    and "validation rt h (JObj kvs) = Inr out" and "accepts (datetime rt) z w"
  shows "\<exists>out'. validation rt h (JObj ((k, w) # kvs)) = Inr out' \<and> get out' k = w"
proof -
  have p: "parse_object (datetime rt) shape (JObj kvs) = Inr out"
    using assms(3) unfolding validation_schema [OF assms(1)] .
  have "z' = z" if "(k, z') \<in> set shape" for z'
    using schema_keys_distinct [OF assms(1)] assms(2) that
    by (meson eq_key_imp_eq_value)
  then have "\<forall>z'. (k, z') \<in> set shape \<longrightarrow> accepts (datetime rt) z' w"
    using assms(4) by blast
  from parse_object_update [OF p this] obtain out' where
    "parse_object (datetime rt) shape (JObj ((k, w) # kvs)) = Inr out'"
    by blast
  then have v: "validation rt h (JObj ((k, w) # kvs)) = Inr out'"
    by (simp add: validation_schema [OF assms(1)])
  have "k \<in> fst ` set shape"
    using assms(2) by force
  then have "get out' k = w"
    using validated_get [OF assms(1) v, of k] by simp
  with v show ?thesis by blast
qed

lemma field_rejected:
  assumes "schema_of h = Some shape" and "(k, z) \<in> set shape" and "module_handler h = Some f"
    and "\<not> accepts (datetime rt) z (get args k)"
  shows "\<exists>i is. validation rt h args = Inl (ZodError (i # is))
       \<and> f rt args =
           (\<lparr>content = [TextContent (''Error '' @ doing h @ '': ''
                                       @ formatValidationError rt (i # is))],
             isError = Some True\<rparr>, [])"
proof -
  have "\<exists>e. parse_object (datetime rt) shape args = Inl e"
    unfolding parse_object_Inl using assms(2,4) by blast
  then obtain e where p: "parse_object (datetime rt) shape args = Inl e"
    by blast
  then have e: "validation rt h args = Inl e"
    by (simp add: validation_schema [OF assms(1)])
  from parse_object_throws_ZodError [OF p] obtain i "is" where z: "e = ZodError (i # is)"
    by blast
  from handler_rejects [OF assms(3) e] z e show ?thesis
    by (auto simp: errorMessage_def)
qed

section \<open>The position field\<close>

lemma accepts_NMin: "accepts dt (ZNumber [NMin m]) v \<longleftrightarrow> (\<exists>r. v = JNum r \<and> m \<le> r)"
  by (cases v) (auto simp: accepts_Valid checked_Valid)

lemma accepts_pos:
  "accepts dt (ZOptional (ZUnion [ZNumber [NMin 0], ZEnum [''top'', ''bottom'']])) v \<longleftrightarrow>
     v = JUndefined \<or> (\<exists>r. v = JNum r \<and> 0 \<le> r) \<or> v = JStr ''top'' \<or> v = JStr ''bottom''"
  by (auto simp: accepts_ZOptional accepts_ZUnion accepts_ZEnum accepts_NMin)

lemma pos_field_schema:
  assumes "schema_of h = Some shape" and "(''pos'', z) \<in> set shape"
  shows "z = ZOptional (ZUnion [ZNumber [NMin 0], ZEnum [''top'', ''bottom'']])"
  using assms by (cases h) (auto simp: schema_defs trelloId_def)

text \<open>
  Claim C7. For every operation with a position field (\<open>pos\<close> in the schemas of
  \<^verbatim>\<open>checklists.ts\<close>), the validator of the operation accepts exactly these values
  of the field: a number that is not negative, the string \<^verbatim>\<open>top\<close> and the string
  \<^verbatim>\<open>bottom\<close>. Arguments that validate have one of them in the field, or omit it
  (\<open>JUndefined\<close>: the field is optional), and both forms are carried by the same field
  of the validated arguments, which holds the value as given. Arguments that validate
  still do when the field is set to one of these values. On a negative number, any
  other string and any value of another type the validator throws, and the handler
  returns the error envelope with the validation message, having made no request.
\<close>

theorem position_field:
  assumes "schema_of h = Some shape" and "(''pos'', z) \<in> set shape"
    and "module_handler h = Some f"
  shows "(validation rt h args = Inr out \<longrightarrow>
            (get args ''pos'' = JUndefined \<or> (\<exists>r. get args ''pos'' = JNum r \<and> 0 \<le> r)
             \<or> get args ''pos'' = JStr ''top'' \<or> get args ''pos'' = JStr ''bottom'')
            \<and> get out ''pos'' = get args ''pos'')
       \<and> (validation rt h (JObj kvs) = Inr out
            \<and> ((\<exists>r. v = JNum r \<and> 0 \<le> r) \<or> v = JStr ''top'' \<or> v = JStr ''bottom'') \<longrightarrow>
            (\<exists>out'. validation rt h (JObj ((''pos'', v) # kvs)) = Inr out' \<and> get out' ''pos'' = v))
       \<and> (get args ''pos'' \<noteq> JUndefined
            \<and> \<not> ((\<exists>r. get args ''pos'' = JNum r \<and> 0 \<le> r)
                   \<or> get args ''pos'' = JStr ''top'' \<or> get args ''pos'' = JStr ''bottom'') \<longrightarrow>
            (\<exists>i is. validation rt h args = Inl (ZodError (i # is))
               \<and> f rt args =
                   (\<lparr>content = [TextContent (''Error '' @ doing h @ '': ''
                                               @ formatValidationError rt (i # is))],
                     isError = Some True\<rparr>, [])))"
proof -
  have z: "z = ZOptional (ZUnion [ZNumber [NMin 0], ZEnum [''top'', ''bottom'']])"
    using assms(1,2) by (rule pos_field_schema)
  have a: "accepts (datetime rt) z w \<longleftrightarrow>
      w = JUndefined \<or> (\<exists>r. w = JNum r \<and> 0 \<le> r) \<or> w = JStr ''top'' \<or> w = JStr ''bottom''" for w
    unfolding z by (rule accepts_pos)
  have 1: "validation rt h args = Inr out \<longrightarrow>
            (get args ''pos'' = JUndefined \<or> (\<exists>r. get args ''pos'' = JNum r \<and> 0 \<le> r)
             \<or> get args ''pos'' = JStr ''top'' \<or> get args ''pos'' = JStr ''bottom'')
            \<and> get out ''pos'' = get args ''pos''"
    using field_validated [OF assms(1,2), of rt args out] unfolding a by blast
  have 2: "validation rt h (JObj kvs) = Inr out
            \<and> ((\<exists>r. v = JNum r \<and> 0 \<le> r) \<or> v = JStr ''top'' \<or> v = JStr ''bottom'') \<longrightarrow>
            (\<exists>out'. validation rt h (JObj ((''pos'', v) # kvs)) = Inr out' \<and> get out' ''pos'' = v)"
    using field_accepted [OF assms(1,2), of rt kvs out v] unfolding a by blast
  have 3: "get args ''pos'' \<noteq> JUndefined
            \<and> \<not> ((\<exists>r. get args ''pos'' = JNum r \<and> 0 \<le> r)
                   \<or> get args ''pos'' = JStr ''top'' \<or> get args ''pos'' = JStr ''bottom'') \<longrightarrow>
            (\<exists>i is. validation rt h args = Inl (ZodError (i # is))
               \<and> f rt args =
                   (\<lparr>content = [TextContent (''Error '' @ doing h @ '': ''
                                               @ formatValidationError rt (i # is))],
                     isError = Some True\<rparr>, []))"
    using field_rejected [OF assms(1,2,3), of rt args] unfolding a by blast
  from 1 2 3 show ?thesis by blast
qed

theorem position_field_witness:
  "(\<exists>out. validation (example_runtime (Inl NonError)) HandleTrelloUpdateChecklist
             (JObj [(''pos'', JNum (7 / 2)), (''apiKey'', JStr ''k''), (''token'', JStr ''t''),
                    (''checklistId'', JStr ''5f1a2b3c4d5e6f7a8b9c0d1e'')]) = Inr out
          \<and> get out ''pos'' = JNum (7 / 2))
   \<and> (\<exists>out. validation (example_runtime (Inl NonError)) HandleTrelloUpdateChecklist
             (JObj [(''pos'', JStr ''top''), (''apiKey'', JStr ''k''), (''token'', JStr ''t''),
                    (''checklistId'', JStr ''5f1a2b3c4d5e6f7a8b9c0d1e'')]) = Inr out
          \<and> get out ''pos'' = JStr ''top'')
   \<and> validation (example_runtime (Inl NonError)) HandleTrelloUpdateChecklist
        (JObj [(''pos'', JNum (- 1)), (''apiKey'', JStr ''k''), (''token'', JStr ''t''),
               (''checklistId'', JStr ''5f1a2b3c4d5e6f7a8b9c0d1e'')])
      = Inl (ZodError [Issue [''pos''] too_small None])
   \<and> handleTrelloUpdateChecklist (example_runtime (Inl NonError))
        (JObj [(''pos'', JNum (- 1)), (''apiKey'', JStr ''k''), (''token'', JStr ''t''),
               (''checklistId'', JStr ''5f1a2b3c4d5e6f7a8b9c0d1e'')])
      = (\<lparr>content = [TextContent ''Error updating checklist: Validation failed''],
          isError = Some True\<rparr>, [])
   \<and> validation (example_runtime (Inl NonError)) HandleTrelloUpdateChecklist
        (JObj [(''pos'', JStr ''middle''), (''apiKey'', JStr ''k''), (''token'', JStr ''t''),
               (''checklistId'', JStr ''5f1a2b3c4d5e6f7a8b9c0d1e'')])
      = Inl (ZodError [InvalidUnion [''pos'']
                         [[Issue [''pos''] invalid_type None],
                          [Issue [''pos''] invalid_enum_value None]]])
   \<and> handleTrelloUpdateChecklist (example_runtime (Inl NonError))
        (JObj [(''pos'', JStr ''middle''), (''apiKey'', JStr ''k''), (''token'', JStr ''t''),
               (''checklistId'', JStr ''5f1a2b3c4d5e6f7a8b9c0d1e'')])
      = (\<lparr>content = [TextContent ''Error updating checklist: Validation failed''],
          isError = Some True\<rparr>, [])"
proof -
  let ?rt = "example_runtime (Inl NonError)"
  let ?z = "ZOptional (ZUnion [ZNumber [NMin 0], ZEnum [''top'', ''bottom'']])"
  let ?kvs = "[(''apiKey'', JStr ''k''), (''token'', JStr ''t''),
               (''checklistId'', JStr ''5f1a2b3c4d5e6f7a8b9c0d1e'')]"
  have h: "schema_of HandleTrelloUpdateChecklist = Some validateUpdateChecklist_schema"
    by simp
  have m: "(''pos'', ?z) \<in> set validateUpdateChecklist_schema"
    by (simp add: validateUpdateChecklist_schema_def)
  have f: "module_handler HandleTrelloUpdateChecklist = Some handleTrelloUpdateChecklist"
    by simp
  note inst = position_field [OF h m f, where rt = ?rt]
  have base: "validation ?rt HandleTrelloUpdateChecklist (JObj ?kvs) = Inr (JObj ?kvs)"
    by (simp add: validateUpdateChecklist_def parse_object_eval validateUpdateChecklist_schema_def
        trelloId_def in_class_def)
  have "\<exists>r::rat. JNum (7 / 2) = JNum r \<and> 0 \<le> r"
    by (rule exI [of _ "7 / 2"]) simp
  with base have 1: "\<exists>out. validation ?rt HandleTrelloUpdateChecklist
      (JObj ((''pos'', JNum (7 / 2)) # ?kvs)) = Inr out \<and> get out ''pos'' = JNum (7 / 2)"
    using inst [where kvs = ?kvs and out = "JObj ?kvs" and v = "JNum (7 / 2)"] by blast
  have 2: "\<exists>out. validation ?rt HandleTrelloUpdateChecklist
      (JObj ((''pos'', JStr ''top'') # ?kvs)) = Inr out \<and> get out ''pos'' = JStr ''top''"
    using base inst [where kvs = ?kvs and out = "JObj ?kvs" and v = "JStr ''top''"] by blast
  have 3: "validation ?rt HandleTrelloUpdateChecklist (JObj ((''pos'', JNum (- 1)) # ?kvs))
      = Inl (ZodError [Issue [''pos''] too_small None])"
    by (simp add: validateUpdateChecklist_def parse_object_eval validateUpdateChecklist_schema_def
        trelloId_def in_class_def)
  have 4: "handleTrelloUpdateChecklist ?rt (JObj ((''pos'', JNum (- 1)) # ?kvs))
      = (\<lparr>content = [TextContent ''Error updating checklist: Validation failed''],
          isError = Some True\<rparr>, [])"
    using inst [where args = "JObj ((''pos'', JNum (- 1)) # ?kvs)"]
    by (auto simp: example_runtime_def)
  have 5: "validation ?rt HandleTrelloUpdateChecklist (JObj ((''pos'', JStr ''middle'') # ?kvs))
      = Inl (ZodError [InvalidUnion [''pos'']
                         [[Issue [''pos''] invalid_type None],
                          [Issue [''pos''] invalid_enum_value None]]])"
    by (simp add: validateUpdateChecklist_def parse_object_eval validateUpdateChecklist_schema_def
        trelloId_def in_class_def)
  have 6: "handleTrelloUpdateChecklist ?rt (JObj ((''pos'', JStr ''middle'') # ?kvs))
      = (\<lparr>content = [TextContent ''Error updating checklist: Validation failed''],
          isError = Some True\<rparr>, [])"
    using inst [where args = "JObj ((''pos'', JStr ''middle'') # ?kvs)"]
    by (auto simp: example_runtime_def)
  from 1 2 3 4 5 6 show ?thesis by blast
qed

section \<open>Identifier fields\<close>

lemma char_eq_code: "c = d \<longleftrightarrow> (of_char c :: nat) = of_char d"
  by (metis char_of_char)

lemma in_class_hex:
  "in_class [(CHR ''a'', CHR ''f''), (CHR ''0'', CHR ''9'')] c \<longleftrightarrow> c \<in> set ''0123456789abcdef''"
proof -
  define n where "n = (of_char c :: nat)"
  have "in_class [(CHR ''a'', CHR ''f''), (CHR ''0'', CHR ''9'')] c
      \<longleftrightarrow> (97 \<le> n \<and> n \<le> 102 \<or> 48 \<le> n \<and> n \<le> 57)"
    by (simp add: in_class_def n_def)
  moreover have "c \<in> set ''0123456789abcdef'' \<longleftrightarrow>
      n = 48 \<or> n = 49 \<or> n = 50 \<or> n = 51 \<or> n = 52 \<or> n = 53 \<or> n = 54 \<or> n = 55 \<or> n = 56 \<or> n = 57
      \<or> n = 97 \<or> n = 98 \<or> n = 99 \<or> n = 100 \<or> n = 101 \<or> n = 102"
    unfolding n_def list.set insert_iff empty_iff by (simp add: char_eq_code [of c])
  moreover have "(97 \<le> n \<and> n \<le> 102 \<or> 48 \<le> n \<and> n \<le> 57) \<longleftrightarrow>
      n = 48 \<or> n = 49 \<or> n = 50 \<or> n = 51 \<or> n = 52 \<or> n = 53 \<or> n = 54 \<or> n = 55 \<or> n = 56 \<or> n = 57
      \<or> n = 97 \<or> n = 98 \<or> n = 99 \<or> n = 100 \<or> n = 101 \<or> n = 102"
    by presburger
  ultimately show ?thesis by simp
qed

lemma regex_test_hex24:
  "regex_test (ClassRepeat [(CHR ''a'', CHR ''f''), (CHR ''0'', CHR ''9'')] 24) s \<longleftrightarrow>
     length s = 24 \<and> set s \<subseteq> set ''0123456789abcdef''"
  by (auto simp: list_all_iff in_class_hex simp del: list.set)

text \<open>The schema of an identifier field: the pattern, required; or optional; or, for
  \<^verbatim>\<open>idMember\<close> of the check item update alone, nullable and optional.\<close>

lemma identifier_field_schema:
  assumes "schema_of h = Some shape" and "(k, z) \<in> set shape" and "k \<in> set identifier_fields"
  shows "\<exists>m. z = id_pattern m \<and> \<not> (h = HandleTrelloUpdateChecklistItem \<and> k = ''idMember'')
           \<or> z = ZOptional (id_pattern m)
             \<and> \<not> (h = HandleTrelloUpdateChecklistItem \<and> k = ''idMember'')
           \<or> z = ZOptional (ZNullable (id_pattern m))
             \<and> h = HandleTrelloUpdateChecklistItem \<and> k = ''idMember''"
  using assms
  by (cases h) (auto simp: schema_defs trelloId_def identifier_fields_def id_pattern_def)

lemma optional_fields_iff:
  assumes "distinct (map fst shape)" and "(k, z) \<in> set shape"
  shows "k \<in> set (optional_fields shape) \<longleftrightarrow> is_optional z"
proof
  assume "k \<in> set (optional_fields shape)"
  then obtain z' where z': "(k, z') \<in> set shape" "is_optional z'"
    by (auto simp: optional_fields_def)
  with assms have "z' = z"
    by (meson eq_key_imp_eq_value)
  with z' show "is_optional z"
    by simp
next
  assume "is_optional z"
  with assms(2) show "k \<in> set (optional_fields shape)"
    by (force simp: optional_fields_def)
qed

lemma accepts_Regex: "accepts dt (ZString [Regex r m]) v \<longleftrightarrow> (\<exists>s. v = JStr s \<and> regex_test r s)"
  by (cases v) (auto simp: accepts_Valid checked_Valid)

lemma accepts_id_pattern:
  "accepts dt (id_pattern m) v \<longleftrightarrow> (\<exists>s. v = JStr s \<and> length s = 24 \<and> set s \<subseteq> set ''0123456789abcdef'')"
  unfolding id_pattern_def accepts_Regex regex_test_hex24 by (rule refl)

lemma accepts_identifier:
  assumes "schema_of h = Some shape" and "(k, z) \<in> set shape" and "k \<in> set identifier_fields"
  shows "accepts dt z w \<longleftrightarrow>
     (\<exists>s. w = JStr s \<and> length s = 24 \<and> set s \<subseteq> set ''0123456789abcdef'')
     \<or> w = JUndefined \<and> k \<in> set (optional_fields shape)
     \<or> w = JNull \<and> h = HandleTrelloUpdateChecklistItem \<and> k = ''idMember''"
proof -
  have opt: "k \<in> set (optional_fields shape) \<longleftrightarrow> is_optional z"
    using schema_keys_distinct [OF assms(1)] assms(2) by (rule optional_fields_iff)
  have req: "\<not> is_optional (id_pattern m)" for m
    by (simp add: id_pattern_def)
  from identifier_field_schema [OF assms] show ?thesis
    unfolding opt
    by (auto simp: accepts_ZOptional accepts_ZNullable accepts_id_pattern req simp del: list.set)
qed

text \<open>
  Claim C5, as amended. For every operation of \<^verbatim>\<open>boards.ts\<close> and \<^verbatim>\<open>checklists.ts\<close>
  whose schema has an identifier field, the validator of the operation accepts in that
  field: a string of exactly 24 characters, each one of \<^verbatim>\<open>0123456789abcdef\<close> (the
  pattern \<^verbatim>\<open>^[a-f0-9]{24}$\<close>); the omission of the field (\<open>JUndefined\<close>), only if the
  field is optional; and \<^verbatim>\<open>null\<close>, only on \<^verbatim>\<open>idMember\<close> of the check item update.
  Arguments that validate have one of these in the field, and arguments that validate
  still do when the field is set to one of them. On every other value (a string of 24
  characters with an uppercase letter or another character, a string of another length,
  a value of another type, \<^verbatim>\<open>null\<close> or an omission where it is not allowed) the validator
  throws, and the handler returns the error envelope with the validation message,
  having made no request to the client.
\<close>

theorem identifier_field:
  assumes "schema_of h = Some shape" and "(k, z) \<in> set shape" and "k \<in> set identifier_fields"
    and "module_handler h = Some f"
  shows "(validation rt h args = Inr out \<longrightarrow>
            ((\<exists>s. get args k = JStr s \<and> length s = 24 \<and> set s \<subseteq> set ''0123456789abcdef'')
             \<or> get args k = JUndefined \<and> k \<in> set (optional_fields shape)
             \<or> get args k = JNull \<and> h = HandleTrelloUpdateChecklistItem \<and> k = ''idMember'')
            \<and> get out k = get args k)
       \<and> (validation rt h (JObj kvs) = Inr out
            \<and> ((\<exists>s. w = JStr s \<and> length s = 24 \<and> set s \<subseteq> set ''0123456789abcdef'')
                \<or> w = JUndefined \<and> k \<in> set (optional_fields shape)
                \<or> w = JNull \<and> h = HandleTrelloUpdateChecklistItem \<and> k = ''idMember'') \<longrightarrow>
            (\<exists>out'. validation rt h (JObj ((k, w) # kvs)) = Inr out' \<and> get out' k = w))
       \<and> (\<not> ((\<exists>s. get args k = JStr s \<and> length s = 24 \<and> set s \<subseteq> set ''0123456789abcdef'')
               \<or> get args k = JUndefined \<and> k \<in> set (optional_fields shape)
               \<or> get args k = JNull \<and> h = HandleTrelloUpdateChecklistItem \<and> k = ''idMember'') \<longrightarrow>
            (\<exists>i is. validation rt h args = Inl (ZodError (i # is))
               \<and> f rt args =
                   (\<lparr>content = [TextContent (''Error '' @ doing h @ '': ''
                                               @ formatValidationError rt (i # is))],
                     isError = Some True\<rparr>, [])))"
proof -
  note a = accepts_identifier [OF assms(1,2,3), where dt = "datetime rt"]
  have 1: "validation rt h args = Inr out \<longrightarrow>
            ((\<exists>s. get args k = JStr s \<and> length s = 24 \<and> set s \<subseteq> set ''0123456789abcdef'')
             \<or> get args k = JUndefined \<and> k \<in> set (optional_fields shape)
             \<or> get args k = JNull \<and> h = HandleTrelloUpdateChecklistItem \<and> k = ''idMember'')
            \<and> get out k = get args k"
    using field_validated [OF assms(1,2), of rt args out] unfolding a by blast
  have 2: "validation rt h (JObj kvs) = Inr out
            \<and> ((\<exists>s. w = JStr s \<and> length s = 24 \<and> set s \<subseteq> set ''0123456789abcdef'')
                \<or> w = JUndefined \<and> k \<in> set (optional_fields shape)
                \<or> w = JNull \<and> h = HandleTrelloUpdateChecklistItem \<and> k = ''idMember'') \<longrightarrow>
            (\<exists>out'. validation rt h (JObj ((k, w) # kvs)) = Inr out' \<and> get out' k = w)"
    using field_accepted [OF assms(1,2), of rt kvs out w] unfolding a by blast
  have 3: "\<not> ((\<exists>s. get args k = JStr s \<and> length s = 24 \<and> set s \<subseteq> set ''0123456789abcdef'')
               \<or> get args k = JUndefined \<and> k \<in> set (optional_fields shape)
               \<or> get args k = JNull \<and> h = HandleTrelloUpdateChecklistItem \<and> k = ''idMember'') \<longrightarrow>
            (\<exists>i is. validation rt h args = Inl (ZodError (i # is))
               \<and> f rt args =
                   (\<lparr>content = [TextContent (''Error '' @ doing h @ '': ''
                                               @ formatValidationError rt (i # is))],
                     isError = Some True\<rparr>, []))"
    using field_rejected [OF assms(1,2,4), of rt args] unfolding a by blast
  from 1 2 3 show ?thesis by blast
qed

text \<open>The claim as stated ("accepts a value if and only if it is exactly 24 characters
  of lowercase hexadecimal") fails on \<^verbatim>\<open>idMember\<close> of the check item update: \<^verbatim>\<open>null\<close>
  is accepted there, and the request is made with it.\<close>

theorem identifier_field_counterexample:
  "validation (example_runtime (Inl NonError)) HandleTrelloUpdateChecklistItem
     (JObj [(''apiKey'', JStr ''k''), (''token'', JStr ''t''),
            (''cardId'', JStr ''5f1a2b3c4d5e6f7a8b9c0d1e''),
            (''checkItemId'', JStr ''aaaaaaaaaaaaaaaaaaaaaaaa''),
            (''idMember'', JNull)])
   = Inr (JObj [(''apiKey'', JStr ''k''), (''token'', JStr ''t''),
                (''cardId'', JStr ''5f1a2b3c4d5e6f7a8b9c0d1e''),
                (''checkItemId'', JStr ''aaaaaaaaaaaaaaaaaaaaaaaa''),
                (''idMember'', JNull)])
   \<and> snd (handleTrelloUpdateChecklistItem (example_runtime (Inl NonError))
       (JObj [(''apiKey'', JStr ''k''), (''token'', JStr ''t''),
              (''cardId'', JStr ''5f1a2b3c4d5e6f7a8b9c0d1e''),
              (''checkItemId'', JStr ''aaaaaaaaaaaaaaaaaaaaaaaa''),
              (''idMember'', JNull)]))
     = [((JStr ''k'', JStr ''t''),
         updateChecklistItem (JStr ''5f1a2b3c4d5e6f7a8b9c0d1e'') (JStr ''aaaaaaaaaaaaaaaaaaaaaaaa'')
           (JObj [(''idMember'', JNull)]))]"
  by (simp add: handleTrelloUpdateChecklistItem_def validateUpdateChecklistItem_def
      parse_object_eval validateUpdateChecklistItem_schema_def trelloId_def in_class_def
      updateChecklistItem_request_def present_def invoke_def respond_def example_runtime_def)

theorem identifier_field_witness:
  "(\<exists>out. validation (example_runtime (Inl NonError)) HandleTrelloGetChecklist
            (JObj [(''checklistId'', JStr ''5f1a2b3c4d5e6f7a8b9c0d1e''),
                   (''apiKey'', JStr ''k''), (''token'', JStr ''t''),
                   (''checklistId'', JStr ''aaaaaaaaaaaaaaaaaaaaaaaa'')]) = Inr out
          \<and> get out ''checklistId'' = JStr ''5f1a2b3c4d5e6f7a8b9c0d1e'')
   \<and> handleTrelloGetChecklist (example_runtime (Inl NonError))
        (JObj [(''apiKey'', JStr ''k''), (''token'', JStr ''t''),
               (''checklistId'', JStr ''5F1A2B3C4D5E6F7A8B9C0D1E'')])
      = (\<lparr>content = [TextContent ''Error getting checklist: Validation failed''],
          isError = Some True\<rparr>, [])
   \<and> handleTrelloGetChecklist (example_runtime (Inl NonError))
        (JObj [(''apiKey'', JStr ''k''), (''token'', JStr ''t''),
               (''checklistId'', JStr ''5f1a2b3c4d5e6f7a8b9c0d1g'')])
      = (\<lparr>content = [TextContent ''Error getting checklist: Validation failed''],
          isError = Some True\<rparr>, [])
   \<and> handleTrelloGetChecklist (example_runtime (Inl NonError))
        (JObj [(''apiKey'', JStr ''k''), (''token'', JStr ''t''), (''checklistId'', JNull)])
      = (\<lparr>content = [TextContent ''Error getting checklist: Validation failed''],
          isError = Some True\<rparr>, [])
   \<and> handleTrelloGetChecklist (example_runtime (Inl NonError))
        (JObj [(''apiKey'', JStr ''k''), (''token'', JStr ''t'')])
      = (\<lparr>content = [TextContent ''Error getting checklist: Validation failed''],
          isError = Some True\<rparr>, [])
   \<and> validation (example_runtime (Inl NonError)) HandleTrelloGetChecklist
        (JObj [(''apiKey'', JStr ''k''), (''token'', JStr ''t''),
               (''checklistId'', JStr ''5F1A2B3C4D5E6F7A8B9C0D1E'')])
      = Inl (ZodError [Issue [''checklistId''] invalid_string (Some ''Invalid Trello ID format'')])"
proof -
  let ?rt = "example_runtime (Inl NonError)"
  let ?kvs = "[(''apiKey'', JStr ''k''), (''token'', JStr ''t''),
               (''checklistId'', JStr ''aaaaaaaaaaaaaaaaaaaaaaaa'')]"
  let ?creds = "[(''apiKey'', JStr ''k''), (''token'', JStr ''t'')]"
  have h: "schema_of HandleTrelloGetChecklist = Some validateGetChecklist_schema"
    by simp
  have m: "(''checklistId'', trelloId) \<in> set validateGetChecklist_schema"
    by (simp add: validateGetChecklist_schema_def)
  have k: "''checklistId'' \<in> set identifier_fields"
    by (simp add: identifier_fields_def)
  have f: "module_handler HandleTrelloGetChecklist = Some handleTrelloGetChecklist"
    by simp
  have opt: "optional_fields validateGetChecklist_schema = []"
    by (simp add: optional_fields_def validateGetChecklist_schema_def trelloId_def)
  note inst = identifier_field [OF h m k f, where rt = ?rt, unfolded opt]
  have base: "validation ?rt HandleTrelloGetChecklist (JObj ?kvs) = Inr (JObj ?kvs)"
    by (simp add: validateGetChecklist_def parse_object_eval validateGetChecklist_schema_def
        trelloId_def in_class_def)
  have 1: "\<exists>out. validation ?rt HandleTrelloGetChecklist
      (JObj ((''checklistId'', JStr ''5f1a2b3c4d5e6f7a8b9c0d1e'') # ?kvs)) = Inr out
      \<and> get out ''checklistId'' = JStr ''5f1a2b3c4d5e6f7a8b9c0d1e''"
    using base inst [where kvs = ?kvs and out = "JObj ?kvs" and w = "JStr ''5f1a2b3c4d5e6f7a8b9c0d1e''"]
    by simp
  have 2: "handleTrelloGetChecklist ?rt
      (JObj (?creds @ [(''checklistId'', JStr ''5F1A2B3C4D5E6F7A8B9C0D1E'')]))
      = (\<lparr>content = [TextContent ''Error getting checklist: Validation failed''],
          isError = Some True\<rparr>, [])"
    using inst [where args = "JObj (?creds @ [(''checklistId'', JStr ''5F1A2B3C4D5E6F7A8B9C0D1E'')])"]
    by (auto simp: example_runtime_def)
  have 3: "handleTrelloGetChecklist ?rt
      (JObj (?creds @ [(''checklistId'', JStr ''5f1a2b3c4d5e6f7a8b9c0d1g'')]))
      = (\<lparr>content = [TextContent ''Error getting checklist: Validation failed''],
          isError = Some True\<rparr>, [])"
    using inst [where args = "JObj (?creds @ [(''checklistId'', JStr ''5f1a2b3c4d5e6f7a8b9c0d1g'')])"]
    by (auto simp: example_runtime_def)
  have 4: "handleTrelloGetChecklist ?rt (JObj (?creds @ [(''checklistId'', JNull)]))
      = (\<lparr>content = [TextContent ''Error getting checklist: Validation failed''],
          isError = Some True\<rparr>, [])"
    using inst [where args = "JObj (?creds @ [(''checklistId'', JNull)])"]
    by (auto simp: example_runtime_def)
  have 5: "handleTrelloGetChecklist ?rt (JObj ?creds)
      = (\<lparr>content = [TextContent ''Error getting checklist: Validation failed''],
          isError = Some True\<rparr>, [])"
    using inst [where args = "JObj ?creds"]
    by (auto simp: example_runtime_def)
  have 6: "validation ?rt HandleTrelloGetChecklist
      (JObj (?creds @ [(''checklistId'', JStr ''5F1A2B3C4D5E6F7A8B9C0D1E'')]))
      = Inl (ZodError [Issue [''checklistId''] invalid_string (Some ''Invalid Trello ID format'')])"
    by (simp add: validateGetChecklist_def parse_object_eval validateGetChecklist_schema_def
        trelloId_def in_class_def)
  from 1 2 3 4 5 6 show ?thesis by simp
qed

section \<open>Free-text fields\<close>

lemma free_text_field_schema:
  assumes "schema_of h = Some shape" and "(k, z) \<in> set shape" and "k \<in> set free_text_fields"
  shows "k = ''name'' \<and> (\<exists>m. z = ZString [SMin 1 m, SMax 16384] \<or> z = ZOptional (ZString [SMin 1 m, SMax 16384]))
       \<or> k = ''desc'' \<and> z = ZOptional (ZString [SMax 16384])"
  using assms
  by (cases h) (auto simp: schema_defs trelloId_def free_text_fields_def)

lemma accepts_free_text:
  assumes "schema_of h = Some shape" and "(k, z) \<in> set shape" and "k \<in> set free_text_fields"
  shows "accepts dt z (JStr s) \<longleftrightarrow> (k = ''name'' \<longrightarrow> 1 \<le> length s) \<and> length s \<le> 16384"
  using free_text_field_schema [OF assms]
  by (auto simp: accepts_ZOptional accepts_ZString Suc_le_eq not_less split: if_splits)

text \<open>
  Claim C9, as amended. For every operation of \<^verbatim>\<open>boards.ts\<close> and \<^verbatim>\<open>checklists.ts\<close>
  with a free-text field, the validator of the operation accepts a string in a
  \<^verbatim>\<open>name\<close> field if and only if its length is at least 1 and at most 16384, and in
  the \<^verbatim>\<open>desc\<close> field if and only if its length is at most 16384: arguments that
  validate with a string in the field have one of such a length, and arguments that
  validate still do when the field is set to such a string. On any other string the
  validator throws, and the handler returns the error envelope with the validation
  message, having made no request.
\<close>

theorem free_text_field:
  assumes "schema_of h = Some shape" and "(k, z) \<in> set shape" and "k \<in> set free_text_fields"
    and "module_handler h = Some f"
  shows "(validation rt h args = Inr out \<and> get args k = JStr s \<longrightarrow>
            (k = ''name'' \<longrightarrow> 1 \<le> length s) \<and> length s \<le> 16384 \<and> get out k = JStr s)
       \<and> (validation rt h (JObj kvs) = Inr out
            \<and> (k = ''name'' \<longrightarrow> 1 \<le> length s) \<and> length s \<le> 16384 \<longrightarrow>
            (\<exists>out'. validation rt h (JObj ((k, JStr s) # kvs)) = Inr out' \<and> get out' k = JStr s))
       \<and> (get args k = JStr s \<and> \<not> ((k = ''name'' \<longrightarrow> 1 \<le> length s) \<and> length s \<le> 16384) \<longrightarrow>
            (\<exists>i is. validation rt h args = Inl (ZodError (i # is))
               \<and> f rt args =
                   (\<lparr>content = [TextContent (''Error '' @ doing h @ '': ''
                                               @ formatValidationError rt (i # is))],
                     isError = Some True\<rparr>, [])))"
proof -
  note a = accepts_free_text [OF assms(1,2,3), where dt = "datetime rt" and s = s]
  have 1: "validation rt h args = Inr out \<and> get args k = JStr s \<longrightarrow>
            (k = ''name'' \<longrightarrow> 1 \<le> length s) \<and> length s \<le> 16384 \<and> get out k = JStr s"
    using field_validated [OF assms(1,2), of rt args out] a by auto
  have 2: "validation rt h (JObj kvs) = Inr out
            \<and> (k = ''name'' \<longrightarrow> 1 \<le> length s) \<and> length s \<le> 16384 \<longrightarrow>
            (\<exists>out'. validation rt h (JObj ((k, JStr s) # kvs)) = Inr out' \<and> get out' k = JStr s)"
    using field_accepted [OF assms(1,2), of rt kvs out "JStr s"] a by blast
  have 3: "get args k = JStr s \<and> \<not> ((k = ''name'' \<longrightarrow> 1 \<le> length s) \<and> length s \<le> 16384) \<longrightarrow>
            (\<exists>i is. validation rt h args = Inl (ZodError (i # is))
               \<and> f rt args =
                   (\<lparr>content = [TextContent (''Error '' @ doing h @ '': ''
                                               @ formatValidationError rt (i # is))],
                     isError = Some True\<rparr>, []))"
    using field_rejected [OF assms(1,2,4), of rt args] a by auto
  from 1 2 3 show ?thesis by blast
qed

text \<open>The claim as stated ("accepts strings of length up to and including 16384")
  fails on the empty string: the validator of the board creation throws on the empty
  name, and the handler returns the error envelope without a request.\<close>

theorem free_text_field_counterexample:
  "length ([] :: string) \<le> 16384
   \<and> validation (example_runtime (Inl NonError)) HandleCreateBoard
       (JObj [(''apiKey'', JStr ''k''), (''token'', JStr ''t''), (''name'', JStr [])])
     = Inl (ZodError [Issue [''name''] too_small (Some ''Board name is required'')])
   \<and> handleCreateBoard (example_runtime (Inl NonError))
       (JObj [(''apiKey'', JStr ''k''), (''token'', JStr ''t''), (''name'', JStr [])])
     = (\<lparr>content = [TextContent ''Error creating board: Validation failed''],
         isError = Some True\<rparr>, [])"
  by (simp add: handleCreateBoard_def validateCreateBoard_def parse_object_eval
      validateCreateBoard_schema_def respond_def errorMessage_def example_runtime_def)

theorem free_text_field_witness:
  "(\<exists>out. validation (example_runtime (Inl NonError)) HandleCreateBoard
            (JObj [(''name'', JStr (replicate 16384 (CHR ''a''))),
                   (''apiKey'', JStr ''k''), (''token'', JStr ''t''), (''name'', JStr ''Roadmap'')])
            = Inr out
          \<and> get out ''name'' = JStr (replicate 16384 (CHR ''a'')))
   \<and> (\<exists>out. validation (example_runtime (Inl NonError)) HandleCreateBoard
            (JObj [(''desc'', JStr []),
                   (''apiKey'', JStr ''k''), (''token'', JStr ''t''), (''name'', JStr ''Roadmap'')])
            = Inr out
          \<and> get out ''desc'' = JStr [])
   \<and> handleCreateBoard (example_runtime (Inl NonError))
       (JObj [(''apiKey'', JStr ''k''), (''token'', JStr ''t''),
              (''name'', JStr (replicate 16385 (CHR ''a'')))])
     = (\<lparr>content = [TextContent ''Error creating board: Validation failed''],
         isError = Some True\<rparr>, [])
   \<and> handleCreateBoard (example_runtime (Inl NonError))
       (JObj [(''apiKey'', JStr ''k''), (''token'', JStr ''t''), (''name'', JStr ''Roadmap''),
              (''desc'', JStr (replicate 16385 (CHR ''a'')))])
     = (\<lparr>content = [TextContent ''Error creating board: Validation failed''],
         isError = Some True\<rparr>, [])"
proof -
  let ?rt = "example_runtime (Inl NonError)"
  let ?name = "ZString [SMin 1 (Some ''Board name is required''), SMax 16384]"
  let ?kvs = "[(''apiKey'', JStr ''k''), (''token'', JStr ''t''), (''name'', JStr ''Roadmap'')]"
  have h: "schema_of HandleCreateBoard = Some validateCreateBoard_schema"
    by simp
  have n: "(''name'', ?name) \<in> set validateCreateBoard_schema"
    by (simp add: validateCreateBoard_schema_def)
  have d: "(''desc'', ZOptional (ZString [SMax 16384])) \<in> set validateCreateBoard_schema"
    by (simp add: validateCreateBoard_schema_def)
  have kn: "''name'' \<in> set free_text_fields" and kd: "''desc'' \<in> set free_text_fields"
    by (simp_all add: free_text_fields_def)
  have f: "module_handler HandleCreateBoard = Some handleCreateBoard"
    by simp
  have base: "validation ?rt HandleCreateBoard (JObj ?kvs) = Inr (JObj ?kvs)"
    by (simp add: validateCreateBoard_def parse_object_eval validateCreateBoard_schema_def)
  have 1: "\<exists>out. validation ?rt HandleCreateBoard
      (JObj ((''name'', JStr (replicate 16384 (CHR ''a''))) # ?kvs)) = Inr out
      \<and> get out ''name'' = JStr (replicate 16384 (CHR ''a''))"
    using base free_text_field [OF h n kn f, where rt = ?rt and kvs = ?kvs and out = "JObj ?kvs"
        and s = "replicate 16384 (CHR ''a'')"]
    by simp
  have 2: "\<exists>out. validation ?rt HandleCreateBoard
      (JObj ((''desc'', JStr []) # ?kvs)) = Inr out \<and> get out ''desc'' = JStr []"
    using base free_text_field [OF h d kd f, where rt = ?rt and kvs = ?kvs and out = "JObj ?kvs"
        and s = "[]"]
    by simp
  have 3: "handleCreateBoard ?rt
       (JObj [(''apiKey'', JStr ''k''), (''token'', JStr ''t''),
              (''name'', JStr (replicate 16385 (CHR ''a'')))])
     = (\<lparr>content = [TextContent ''Error creating board: Validation failed''],
         isError = Some True\<rparr>, [])"
    using free_text_field [OF h n kn f, where rt = ?rt and s = "replicate 16385 (CHR ''a'')"
        and args = "JObj [(''apiKey'', JStr ''k''), (''token'', JStr ''t''),
              (''name'', JStr (replicate 16385 (CHR ''a'')))]"]
    by (auto simp: example_runtime_def)
  have 4: "handleCreateBoard ?rt
       (JObj [(''apiKey'', JStr ''k''), (''token'', JStr ''t''), (''name'', JStr ''Roadmap''),
              (''desc'', JStr (replicate 16385 (CHR ''a'')))])
     = (\<lparr>content = [TextContent ''Error creating board: Validation failed''],
         isError = Some True\<rparr>, [])"
    using free_text_field [OF h d kd f, where rt = ?rt and s = "replicate 16385 (CHR ''a'')"
        and args = "JObj [(''apiKey'', JStr ''k''), (''token'', JStr ''t''), (''name'', JStr ''Roadmap''),
              (''desc'', JStr (replicate 16385 (CHR ''a'')))]"]
    by (auto simp: example_runtime_def)
  from 1 2 3 4 show ?thesis by blast
qed

section \<open>The request built from validated arguments\<close>

lemma present_entries:
  "(k, x) \<in> set (concat (map (present v) ks)) \<longleftrightarrow> k \<in> set ks \<and> x = get v k \<and> x \<noteq> JUndefined"
  by (induction ks) (auto simp: present_def)

lemma present_keys:
  "set (map fst (concat (map (present v) ks))) = {k \<in> set ks. get v k \<noteq> JUndefined}"
  by (induction ks) (auto simp: present_def)

lemma present_distinct:
  "distinct ks \<Longrightarrow> distinct (map fst (concat (map (present v) ks)))"
  by (induction ks) (auto simp: present_def present_keys)

lemma present_map_of:
  "map_of (concat (map (present v) ks)) k =
     (if k \<in> set ks \<and> get v k \<noteq> JUndefined then Some (get v k) else None)"
  by (induction ks) (auto simp: present_def)

lemmas request_defs =
  createBoard_request_def createChecklist_request_def getChecklist_request_def
  updateChecklist_request_def deleteChecklist_request_def createChecklistItem_request_def
  updateChecklistItem_request_def deleteChecklistItem_request_def

lemma request_credentials:
  "module_handler h = Some f \<Longrightarrow> fst (request_of h v) = (get v ''apiKey'', get v ''token'')"
  by (cases h) (auto simp: request_defs)

lemma request_ids:
  "module_handler h = Some f \<Longrightarrow> call_ids (snd (request_of h v)) = map (get v) (positional h)"
  by (cases h) (auto simp: request_defs)

lemma request_data:
  assumes "h \<in> set create_update_handlers" and "schema_of h = Some shape"
  shows "call_data (snd (request_of h v)) =
     map (\<lambda>k. (k, get v k)) (sent_required h shape) @ concat (map (present v) (optional_fields shape))"
  using assms
  by (cases h)
    (auto simp: create_update_handlers_def request_defs schema_defs trelloId_def sent_required_def
      required_fields_def optional_fields_def)

lemma request_data_other:
  assumes "h \<notin> set create_update_handlers" and "schema_of h = Some shape"
  shows "call_data (snd (request_of h v)) = []"
  using assms
  by (cases h) (auto simp: create_update_handlers_def request_defs)

lemma required_optional_keys:
  "set (required_fields shape) \<union> set (optional_fields shape) = fst ` set shape"
  "distinct (map fst shape) \<Longrightarrow> set (required_fields shape) \<inter> set (optional_fields shape) = {}"
  "distinct (map fst shape) \<Longrightarrow> distinct (required_fields shape)"
  "distinct (map fst shape) \<Longrightarrow> distinct (optional_fields shape)"
  by (induction shape) (auto simp: required_fields_def optional_fields_def)

lemma sent_required_keys:
  "set (sent_required h shape) \<subseteq> fst ` set shape"
  using required_optional_keys(1) [of shape] by (auto simp: sent_required_def)

lemma sent_required_disjoint:
  assumes "distinct (map fst shape)"
  shows "set (sent_required h shape) \<inter> set (optional_fields shape) = {}"
  using required_optional_keys(2) [OF assms] by (auto simp: sent_required_def)

lemma map_of_fields:
  "map_of (map (\<lambda>k. (k, g k)) ks) k = (if k \<in> set ks then Some (g k) else None)"
  by (induction ks) auto

text \<open>
  Claim C4. For every operation that creates or updates an entity, once the arguments
  validate the handler makes one request: with the credentials of the arguments, the
  identifiers the client method takes before its object of fields, and an object of
  fields that holds exactly the required fields not passed otherwise and the optional
  fields that are present in the arguments, each with the value given. An optional field
  that is omitted has no entry in the object: it is never sent as an explicit empty or
  null value.
\<close>

theorem absence_preserved:
  assumes "h \<in> set create_update_handlers" and "module_handler h = Some f"
    and "schema_of h = Some shape" and "validation rt h args = Inr v"
  shows "\<exists>call d. snd (f rt args) = [((get args ''apiKey'', get args ''token''), call)]
       \<and> call_ids call = map (get args) (positional h)
       \<and> call_data call = d
       \<and> distinct (map fst d)
       \<and> (\<forall>k \<in> set (optional_fields shape).
             map_of d k = (if get args k = JUndefined then None else Some (get args k)))
       \<and> (\<forall>k \<in> set (required_fields shape) - {''apiKey'', ''token''} - set (positional h).
             map_of d k = Some (get args k))
       \<and> (\<forall>k. map_of d k \<noteq> None \<longrightarrow>
             k \<in> set (optional_fields shape)
             \<or> k \<in> set (required_fields shape) - {''apiKey'', ''token''} - set (positional h))"
proof -
  let ?call = "snd (request_of h v)"
  let ?d = "call_data ?call"
  have get_v: "get v k = get args k" if "k \<in> fst ` set shape" for k
    using validated_get [OF assms(3,4)] that by simp
  have creds: "''apiKey'' \<in> fst ` set shape" "''token'' \<in> fst ` set shape"
    using assms(3) by (cases h; force simp: schema_defs)+
  have pos: "set (positional h) \<subseteq> fst ` set shape"
    using assms(3) by (cases h) (auto simp: schema_defs)
  have dist: "distinct (map fst shape)"
    using assms(3) by (rule schema_keys_distinct)
  have opt: "set (optional_fields shape) \<subseteq> fst ` set shape"
    using required_optional_keys(1) [of shape] by blast
  have d: "?d = map (\<lambda>k. (k, get v k)) (sent_required h shape)
      @ concat (map (present v) (optional_fields shape))"
    using assms(1,3) by (rule request_data)
  have sent: "set (sent_required h shape)
      = set (required_fields shape) - {''apiKey'', ''token''} - set (positional h)"
    by (auto simp: sent_required_def)
  have 1: "snd (f rt args) = [((get args ''apiKey'', get args ''token''), ?call)]"
    using handler_requests [OF assms(2,3,4)] request_credentials [OF assms(2), of v] creds
    by (simp add: get_v prod_eq_iff)
  have 2: "call_ids ?call = map (get args) (positional h)"
    using request_ids [OF assms(2), of v] pos get_v by auto
  have 3: "distinct (map fst ?d)"
  proof -
    let ?opt = "concat (map (present v) (optional_fields shape))"
    have a: "map fst (map (\<lambda>k. (k, get v k)) (sent_required h shape)) = sent_required h shape"
      by (simp add: comp_def)
    have b: "distinct (sent_required h shape)"
      using required_optional_keys(3) [OF dist] by (simp add: sent_required_def)
    have c: "distinct (map fst ?opt)"
      using required_optional_keys(4) [OF dist] by (rule present_distinct)
    have e: "set (sent_required h shape) \<inter> set (map fst ?opt) = {}"
      using sent_required_disjoint [OF dist, of h] unfolding present_keys by blast
    show ?thesis
      unfolding d map_append a using b c e by (simp only: distinct_append)
  qed
  have m: "map_of ?d k =
      (if k \<in> set (sent_required h shape) then Some (get v k)
       else if k \<in> set (optional_fields shape) \<and> get v k \<noteq> JUndefined then Some (get v k)
       else None)" for k
    unfolding d by (simp add: map_of_append map_add_def map_of_fields present_map_of)
  have get_opt: "get v k = get args k" if "k \<in> set (optional_fields shape)" for k
    using that opt get_v by blast
  have get_sent: "get v k = get args k" if "k \<in> set (sent_required h shape)" for k
    using that sent_required_keys [of h shape] get_v by blast
  have 4: "\<forall>k \<in> set (optional_fields shape).
      map_of ?d k = (if get args k = JUndefined then None else Some (get args k))"
    using sent_required_disjoint [OF dist, of h] by (auto simp: m get_opt)
  have 5: "\<forall>k \<in> set (required_fields shape) - {''apiKey'', ''token''} - set (positional h).
      map_of ?d k = Some (get args k)"
    unfolding sent [symmetric] by (auto simp: m get_sent)
  have 6: "\<forall>k. map_of ?d k \<noteq> None \<longrightarrow>
      k \<in> set (optional_fields shape)
      \<or> k \<in> set (required_fields shape) - {''apiKey'', ''token''} - set (positional h)"
    unfolding sent [symmetric] by (auto simp: m split: if_splits)
  from 1 2 3 4 5 6 show ?thesis by blast
qed

theorem absence_preserved_witness:
  "\<exists>call d.
     snd (handleTrelloUpdateChecklistItem (example_runtime (Inl NonError))
            (JObj [(''apiKey'', JStr ''k''), (''token'', JStr ''t''),
                   (''cardId'', JStr ''5f1a2b3c4d5e6f7a8b9c0d1e''),
                   (''checkItemId'', JStr ''aaaaaaaaaaaaaaaaaaaaaaaa''),
                   (''state'', JStr ''complete'')]))
       = [((JStr ''k'', JStr ''t''), call)]
     \<and> call_ids call = [JStr ''5f1a2b3c4d5e6f7a8b9c0d1e'', JStr ''aaaaaaaaaaaaaaaaaaaaaaaa'']
     \<and> call_data call = d
     \<and> map_of d ''state'' = Some (JStr ''complete'')
     \<and> map_of d ''name'' = None
     \<and> map_of d ''due'' = None
     \<and> map_of d ''cardId'' = None"
proof -
  let ?rt = "example_runtime (Inl NonError)"
  let ?args = "JObj [(''apiKey'', JStr ''k''), (''token'', JStr ''t''),
                   (''cardId'', JStr ''5f1a2b3c4d5e6f7a8b9c0d1e''),
                   (''checkItemId'', JStr ''aaaaaaaaaaaaaaaaaaaaaaaa''),
                   (''state'', JStr ''complete'')]"
  have h: "HandleTrelloUpdateChecklistItem \<in> set create_update_handlers"
    by (simp add: create_update_handlers_def)
  have f: "module_handler HandleTrelloUpdateChecklistItem = Some handleTrelloUpdateChecklistItem"
    by simp
  have s: "schema_of HandleTrelloUpdateChecklistItem = Some validateUpdateChecklistItem_schema"
    by simp
  have v: "validation ?rt HandleTrelloUpdateChecklistItem ?args = Inr ?args"
    by (simp add: validateUpdateChecklistItem_def parse_object_eval
        validateUpdateChecklistItem_schema_def trelloId_def in_class_def)
  have opt: "optional_fields validateUpdateChecklistItem_schema
      = [''state'', ''name'', ''pos'', ''due'', ''idMember'', ''idChecklist'']"
    by (simp add: optional_fields_def validateUpdateChecklistItem_schema_def trelloId_def)
  have req: "required_fields validateUpdateChecklistItem_schema
      = [''apiKey'', ''token'', ''cardId'', ''checkItemId'']"
    by (simp add: required_fields_def validateUpdateChecklistItem_schema_def trelloId_def)
  from absence_preserved [OF h f s v] obtain call d where
    1: "snd (handleTrelloUpdateChecklistItem ?rt ?args) = [((get ?args ''apiKey'', get ?args ''token''), call)]"
    and 2: "call_ids call = map (get ?args) (positional HandleTrelloUpdateChecklistItem)"
    and 3: "call_data call = d"
    and 4: "\<forall>k \<in> set (optional_fields validateUpdateChecklistItem_schema).
             map_of d k = (if get ?args k = JUndefined then None else Some (get ?args k))"
    and 5: "\<forall>k. map_of d k \<noteq> None \<longrightarrow>
             k \<in> set (optional_fields validateUpdateChecklistItem_schema)
             \<or> k \<in> set (required_fields validateUpdateChecklistItem_schema) - {''apiKey'', ''token''}
                 - set (positional HandleTrelloUpdateChecklistItem)"
    by blast
  have a: "snd (handleTrelloUpdateChecklistItem ?rt ?args) = [((JStr ''k'', JStr ''t''), call)]"
    using 1 by simp
  have b: "call_ids call = [JStr ''5f1a2b3c4d5e6f7a8b9c0d1e'', JStr ''aaaaaaaaaaaaaaaaaaaaaaaa'']"
    using 2 by simp
  have c: "map_of d ''state'' = Some (JStr ''complete'')" "map_of d ''name'' = None"
    "map_of d ''due'' = None"
    using 4 unfolding opt by simp_all
  have e: "map_of d ''cardId'' = None"
  proof (rule ccontr)
    assume "map_of d ''cardId'' \<noteq> None"
    with 5 show False unfolding opt req by auto
  qed
  from a b 3 c e show ?thesis by blast
qed

section \<open>What a handler does depends on the verdict of its validator only\<close>

lemma handler_via_validation:
  assumes "module_handler h = Some f" and "validation rt h a = validation rt h b"
  shows "f rt a = f rt b"
  using assms by (cases h) (auto simp: handler_defs)

lemma request_map_of:
  assumes "h \<in> set create_update_handlers" and "schema_of h = Some shape"
    and "validation rt h args = Inr v"
  shows "map_of (call_data (snd (request_of h v))) k =
     (if k \<in> set (sent_required h shape) then Some (get args k)
      else if k \<in> set (optional_fields shape) \<and> get args k \<noteq> JUndefined then Some (get args k)
      else None)"
proof -
  have get_v: "get v k = get args k" if "k \<in> fst ` set shape" for k
    using validated_get [OF assms(2,3)] that by simp
  have "k \<in> fst ` set shape" if "k \<in> set (optional_fields shape)"
    using that required_optional_keys(1) [of shape] by blast
  moreover have "k \<in> fst ` set shape" if "k \<in> set (sent_required h shape)"
    using that sent_required_keys [of h shape] by blast
  ultimately show ?thesis
    unfolding request_data [OF assms(1,2)]
    by (auto simp: map_of_append map_add_def map_of_fields present_map_of get_v)
qed

section \<open>Null and omission in the check item update\<close>

lemma update_item_field_schema:
  "(''due'', z) \<in> set validateUpdateChecklistItem_schema \<longleftrightarrow> z = ZOptional (ZNullable (ZString [Datetime]))"
  "(''idMember'', z) \<in> set validateUpdateChecklistItem_schema \<longleftrightarrow>
     z = ZOptional (ZNullable (id_pattern ''Invalid Trello ID format''))"
  by (auto simp: validateUpdateChecklistItem_schema_def trelloId_def id_pattern_def)

lemma accepts_datetime: "accepts dt (ZString [Datetime]) v \<longleftrightarrow> (\<exists>s. v = JStr s \<and> dt s)"
  by (auto simp: accepts_ZString)

text \<open>
  Claim C6. In the check item update, the fields \<^verbatim>\<open>due\<close> and \<^verbatim>\<open>idMember\<close> have three
  states that stay apart. A string that validates is sent as given; an explicit
  \<^verbatim>\<open>null\<close> is sent as \<^verbatim>\<open>null\<close>; an omitted field has no entry in the object of
  fields of the request. Arguments that validate have the field in one of these three
  states, and they still validate when the field is set to \<^verbatim>\<open>null\<close> or left out.
\<close>

theorem null_is_not_omission:
  assumes "validation rt HandleTrelloUpdateChecklistItem (JObj kvs) = Inr v"
    and "k = ''due'' \<or> k = ''idMember''"
  shows "\<exists>cardId checkItemId d.
       snd (handleTrelloUpdateChecklistItem rt (JObj kvs))
         = [((get (JObj kvs) ''apiKey'', get (JObj kvs) ''token''),
             updateChecklistItem cardId checkItemId (JObj d))]
       \<and> (get (JObj kvs) k = JUndefined \<longrightarrow> map_of d k = None)
       \<and> (get (JObj kvs) k = JNull \<longrightarrow> map_of d k = Some JNull)
       \<and> (get (JObj kvs) k = JStr s \<longrightarrow> map_of d k = Some (JStr s))
       \<and> (get (JObj kvs) k = JUndefined \<or> get (JObj kvs) k = JNull
            \<or> (\<exists>s'. get (JObj kvs) k = JStr s'))
       \<and> (\<exists>v'. validation rt HandleTrelloUpdateChecklistItem (JObj ((k, JNull) # kvs)) = Inr v')
       \<and> (\<exists>v'. validation rt HandleTrelloUpdateChecklistItem (JObj ((k, JUndefined) # kvs)) = Inr v')"
proof -
  let ?h = HandleTrelloUpdateChecklistItem
  let ?shape = validateUpdateChecklistItem_schema
  let ?args = "JObj kvs"
  have h: "?h \<in> set create_update_handlers"
    by (simp add: create_update_handlers_def)
  have f: "module_handler ?h = Some handleTrelloUpdateChecklistItem"
    by simp
  have sch: "schema_of ?h = Some ?shape"
    by simp
  have opt: "k \<in> set (optional_fields ?shape)" and sent: "k \<notin> set (sent_required ?h ?shape)"
    using assms(2)
    by (auto simp: optional_fields_def sent_required_def required_fields_def
        validateUpdateChecklistItem_schema_def trelloId_def)
  have creds: "get v ''apiKey'' = get ?args ''apiKey''" "get v ''token'' = get ?args ''token''"
    by (simp_all add: validated_get [OF sch assms(1)] validateUpdateChecklistItem_schema_def
        del: get.simps)
  obtain d where d: "snd (request_of ?h v)
      = updateChecklistItem (get v ''cardId'') (get v ''checkItemId'') (JObj d)"
    by (simp add: updateChecklistItem_request_def)
  have 1: "snd (handleTrelloUpdateChecklistItem rt ?args)
      = [((get ?args ''apiKey'', get ?args ''token''),
          updateChecklistItem (get v ''cardId'') (get v ''checkItemId'') (JObj d))]"
    using handler_requests [OF f sch assms(1)] request_credentials [OF f, of v] d
    by (simp add: creds prod_eq_iff del: get.simps)
  have m: "map_of d k = (if get ?args k \<noteq> JUndefined then Some (get ?args k) else None)"
    using request_map_of [OF h sch assms(1), of k] opt sent d by (simp del: get.simps)
  have p: "parse_object (datetime rt) ?shape ?args = Inr v"
    using assms(1) unfolding validation_schema [OF sch] .
  have acc: "accepts (datetime rt) z (get ?args k')" if "(k', z) \<in> set ?shape" for k' z
    using p that unfolding parse_object_Inr by blast
  have 5: "get ?args k = JUndefined \<or> get ?args k = JNull \<or> (\<exists>s'. get ?args k = JStr s')"
  proof -
    from assms(2) show ?thesis
    proof
      assume k: "k = ''due''"
      from acc [of k "ZOptional (ZNullable (ZString [Datetime]))"] show ?thesis
        unfolding k update_item_field_schema
        by (auto simp: accepts_ZOptional accepts_ZNullable accepts_datetime simp del: get.simps)
    next
      assume k: "k = ''idMember''"
      from acc [of k "ZOptional (ZNullable (id_pattern ''Invalid Trello ID format''))"] show ?thesis
        unfolding k update_item_field_schema
        by (auto simp: accepts_ZOptional accepts_ZNullable accepts_id_pattern
            simp del: get.simps list.set)
    qed
  qed
  have nul: "\<forall>z. (k, z) \<in> set ?shape \<longrightarrow> accepts (datetime rt) z JNull"
    and und: "\<forall>z. (k, z) \<in> set ?shape \<longrightarrow> accepts (datetime rt) z JUndefined"
    using assms(2)
    by (auto simp: update_item_field_schema accepts_ZOptional accepts_ZNullable)
  have 6: "\<exists>v'. validation rt ?h (JObj ((k, JNull) # kvs)) = Inr v'"
    using parse_object_update [OF p nul] unfolding validation_schema [OF sch] .
  have 7: "\<exists>v'. validation rt ?h (JObj ((k, JUndefined) # kvs)) = Inr v'"
    using parse_object_update [OF p und] unfolding validation_schema [OF sch] .
  from 1 m 5 6 7 show ?thesis
    by (intro exI [of _ "get v ''cardId''"] exI [of _ "get v ''checkItemId''"] exI [of _ d])
      (simp del: get.simps)
qed

theorem null_is_not_omission_witness:
  "(\<exists>cardId checkItemId d.
       snd (handleTrelloUpdateChecklistItem (example_runtime (Inl NonError))
              (JObj [(''apiKey'', JStr ''k''), (''token'', JStr ''t''),
                     (''cardId'', JStr ''5f1a2b3c4d5e6f7a8b9c0d1e''),
                     (''checkItemId'', JStr ''aaaaaaaaaaaaaaaaaaaaaaaa''),
                     (''due'', JNull)]))
         = [((JStr ''k'', JStr ''t''), updateChecklistItem cardId checkItemId (JObj d))]
       \<and> map_of d ''due'' = Some JNull)
   \<and> (\<exists>cardId checkItemId d.
       snd (handleTrelloUpdateChecklistItem (example_runtime (Inl NonError))
              (JObj [(''apiKey'', JStr ''k''), (''token'', JStr ''t''),
                     (''cardId'', JStr ''5f1a2b3c4d5e6f7a8b9c0d1e''),
                     (''checkItemId'', JStr ''aaaaaaaaaaaaaaaaaaaaaaaa''),
                     (''due'', JNull)]))
         = [((JStr ''k'', JStr ''t''), updateChecklistItem cardId checkItemId (JObj d))]
       \<and> map_of d ''idMember'' = None)"
proof -
  let ?rt = "example_runtime (Inl NonError)"
  let ?kvs = "[(''apiKey'', JStr ''k''), (''token'', JStr ''t''),
               (''cardId'', JStr ''5f1a2b3c4d5e6f7a8b9c0d1e''),
               (''checkItemId'', JStr ''aaaaaaaaaaaaaaaaaaaaaaaa''),
               (''due'', JNull)]"
  have v: "validation ?rt HandleTrelloUpdateChecklistItem (JObj ?kvs) = Inr (JObj ?kvs)"
    by (simp add: validateUpdateChecklistItem_def parse_object_eval
        validateUpdateChecklistItem_schema_def trelloId_def in_class_def)
  have 1: "\<exists>cardId checkItemId d.
       snd (handleTrelloUpdateChecklistItem ?rt (JObj ?kvs))
         = [((JStr ''k'', JStr ''t''), updateChecklistItem cardId checkItemId (JObj d))]
       \<and> map_of d ''due'' = Some JNull"
    using null_is_not_omission [OF v, of "''due''"] by simp blast
  have 2: "\<exists>cardId checkItemId d.
       snd (handleTrelloUpdateChecklistItem ?rt (JObj ?kvs))
         = [((JStr ''k'', JStr ''t''), updateChecklistItem cardId checkItemId (JObj d))]
       \<and> map_of d ''idMember'' = None"
    using null_is_not_omission [OF v, of "''idMember''"] by simp blast
  from 1 2 show ?thesis by blast
qed

section \<open>Fields that the schema does not declare\<close>

text \<open>
  Claim C10. For every operation of \<^verbatim>\<open>boards.ts\<close> and \<^verbatim>\<open>checklists.ts\<close> with a
  schema of its own, fields that the schema does not declare do not count: two argument
  maps that agree on the declared fields get the same verdict of the validator, with
  the same validated arguments, and the same envelope and requests from the handler.
  The validated arguments hold no undeclared field, and neither does the object of
  fields of a request.
\<close>

theorem unknown_fields_stripped:
  assumes "schema_of h = Some shape" and "module_handler h = Some f"
    and "\<forall>k \<in> fst ` set shape. get (JObj kvs') k = get (JObj kvs) k"
  shows "validation rt h (JObj kvs') = validation rt h (JObj kvs)
       \<and> f rt (JObj kvs') = f rt (JObj kvs)
       \<and> (validation rt h (JObj kvs') = Inr v \<and> k \<notin> fst ` set shape \<longrightarrow> get v k = JUndefined)
       \<and> (req \<in> set (snd (f rt (JObj kvs'))) \<and> k \<notin> fst ` set shape \<longrightarrow>
            map_of (call_data (snd req)) k = None)"
proof -
  have 1: "validation rt h (JObj kvs') = validation rt h (JObj kvs)"
    unfolding validation_schema [OF assms(1)] using assms(3) by (rule parse_object_agree)
  have 2: "f rt (JObj kvs') = f rt (JObj kvs)"
    using assms(2) 1 by (rule handler_via_validation)
  have 3: "get v k = JUndefined"
    if v: "validation rt h (JObj kvs') = Inr v" and k: "k \<notin> fst ` set shape" for v
    using validated_get [OF assms(1) v, of k] k by simp
  have 4: "map_of (call_data (snd req)) k = None"
    if req: "req \<in> set (snd (f rt (JObj kvs')))" and k: "k \<notin> fst ` set shape"
  proof (cases "validation rt h (JObj kvs')")
    case (Inl e)
    with handler_rejects [OF assms(2) Inl] req show ?thesis by simp
  next
    case (Inr v)
    from handler_requests [OF assms(2,1) Inr] req have r: "req = request_of h v" by simp
    show ?thesis
    proof (cases "h \<in> set create_update_handlers")
      case True
      have "k \<notin> set (sent_required h shape)" "k \<notin> set (optional_fields shape)"
        using k sent_required_keys [of h shape] required_optional_keys(1) [of shape] by blast+
      then show ?thesis
        unfolding r request_map_of [OF True assms(1) Inr] by simp
    next
      case False
      then show ?thesis
        unfolding r request_data_other [OF False assms(1)] by simp
    qed
  qed
  from 1 2 3 4 show ?thesis by blast
qed

theorem unknown_fields_stripped_witness:
  "handleTrelloCreateChecklist (example_runtime (Inl NonError))
     (JObj [(''apiKey'', JStr ''k''), (''token'', JStr ''t''),
            (''idCard'', JStr ''5f1a2b3c4d5e6f7a8b9c0d1e''), (''colour'', JStr ''red'')])
   = handleTrelloCreateChecklist (example_runtime (Inl NonError))
     (JObj [(''apiKey'', JStr ''k''), (''token'', JStr ''t''),
            (''idCard'', JStr ''5f1a2b3c4d5e6f7a8b9c0d1e'')])
   \<and> validation (example_runtime (Inl NonError)) HandleTrelloCreateChecklist
     (JObj [(''apiKey'', JStr ''k''), (''token'', JStr ''t''),
            (''idCard'', JStr ''5f1a2b3c4d5e6f7a8b9c0d1e''), (''colour'', JStr ''red'')])
   = Inr (JObj [(''apiKey'', JStr ''k''), (''token'', JStr ''t''),
            (''idCard'', JStr ''5f1a2b3c4d5e6f7a8b9c0d1e'')])
   \<and> map_of (call_data (snd ((JStr ''k'', JStr ''t''),
        createChecklist (JObj [(''idCard'', JStr ''5f1a2b3c4d5e6f7a8b9c0d1e'')])))) ''colour'' = None"
proof -
  let ?rt = "example_runtime (Inl NonError)"
  let ?kvs = "[(''apiKey'', JStr ''k''), (''token'', JStr ''t''),
               (''idCard'', JStr ''5f1a2b3c4d5e6f7a8b9c0d1e'')]"
  let ?kvs' = "[(''apiKey'', JStr ''k''), (''token'', JStr ''t''),
               (''idCard'', JStr ''5f1a2b3c4d5e6f7a8b9c0d1e''), (''colour'', JStr ''red'')]"
  let ?req = "((JStr ''k'', JStr ''t''),
        createChecklist (JObj [(''idCard'', JStr ''5f1a2b3c4d5e6f7a8b9c0d1e'')]))"
  have s: "schema_of HandleTrelloCreateChecklist = Some validateCreateChecklist_schema"
    by simp
  have f: "module_handler HandleTrelloCreateChecklist = Some handleTrelloCreateChecklist"
    by simp
  have agree: "\<forall>k \<in> fst ` set validateCreateChecklist_schema. get (JObj ?kvs') k = get (JObj ?kvs) k"
    by (simp add: validateCreateChecklist_schema_def)
  have v: "validation ?rt HandleTrelloCreateChecklist (JObj ?kvs) = Inr (JObj ?kvs)"
    by (simp add: validateCreateChecklist_def parse_object_eval
        validateCreateChecklist_schema_def trelloId_def in_class_def)
  have r: "snd (handleTrelloCreateChecklist ?rt (JObj ?kvs)) = [?req]"
    using handler_requests [OF f s v] by (simp add: createChecklist_request_def present_def)
  have k: "''colour'' \<notin> fst ` set validateCreateChecklist_schema"
    by (simp add: validateCreateChecklist_schema_def)
  note inst = unknown_fields_stripped [OF s f agree, where rt = ?rt and k = "''colour''"
      and req = ?req and v = "JObj ?kvs"]
  have 1: "handleTrelloCreateChecklist ?rt (JObj ?kvs') = handleTrelloCreateChecklist ?rt (JObj ?kvs)"
    using inst by blast
  have 2: "validation ?rt HandleTrelloCreateChecklist (JObj ?kvs') = Inr (JObj ?kvs)"
    using inst v by simp
  have "?req \<in> set (snd (handleTrelloCreateChecklist ?rt (JObj ?kvs')))"
    unfolding 1 r by simp
  with inst k have 3: "map_of (call_data (snd ?req)) ''colour'' = None"
    by blast
  from 1 2 3 show ?thesis by blast
qed

section \<open>The shape of every handler\<close>

lemma validated_not_nullish:
  "schema_of h = Some shape \<Longrightarrow> validation rt h args = Inr v \<Longrightarrow> \<not> nullish v"
  by (auto simp: validation_schema parse_object_Inr strip_def)

lemma result_of_applied:
  "result_of rt HandleCreateBoard v = createBoard_result rt"
  "result_of rt HandleListBoards v = listBoards_result rt v"
  "result_of rt HandleGetBoardDetails v = getBoardDetails_result rt v"
  "result_of rt HandleGetLists v = getLists_result rt v"
  "result_of rt HandleTrelloCreateChecklist v = createChecklist_result rt"
  "result_of rt HandleTrelloGetChecklist v = getChecklist_result rt"
  "result_of rt HandleTrelloUpdateChecklist v = updateChecklist_result rt"
  "result_of rt HandleTrelloDeleteChecklist v = deleteChecklist_result rt v"
  "result_of rt HandleTrelloCreateChecklistItem v = createChecklistItem_result rt"
  "result_of rt HandleTrelloUpdateChecklistItem v = updateChecklistItem_result rt"
  "result_of rt HandleTrelloDeleteChecklistItem v = deleteChecklistItem_result rt v"
  by (rule ext, simp)+

lemma handler_run:
  assumes "module_handler h = Some f"
  shows "f rt args =
     respond rt (''Error '' @ doing h @ '': '')
       (case validation rt h args of
          Inl e \<Rightarrow> (Inl e, [])
        | Inr v \<Rightarrow>
            if nullish v then (Inl (Error (typeError rt ''apiKey'')), [])
            else invoke rt (request_of h v) (result_of rt h v))"
proof (cases "schema_of h")
  case None
  with assms show ?thesis
    by (cases h) (auto simp: handler_defs result_of_applied split: sum.splits)
next
  case (Some shape)
  have n: "\<not> nullish v" if "validation rt h args = Inr v" for v
    using validated_not_nullish [OF Some that] .
  show ?thesis
  proof (cases "validation rt h args")
    case (Inl e)
    with assms show ?thesis
      by (cases h) (auto simp: handler_defs)
  next
    case (Inr v)
    with assms n [OF Inr] Some show ?thesis
      by (cases h) (auto simp: handler_defs result_of_applied)
  qed
qed

section \<open>The result a handler builds\<close>

lemma reading_Inr: "reading rt x k obj = Inr res \<longleftrightarrow> \<not> nullish x \<and> res = obj"
  by (auto simp: reading_def)

lemma reading_Inl: "reading rt x k obj = Inl e \<longleftrightarrow> nullish x \<and> e = Error (typeError rt k)"
  by (auto simp: reading_def)

lemma traverse_Inr:
  "(\<exists>ys. traverse f xs = Inr ys) \<longleftrightarrow> list_all (\<lambda>x. \<exists>y. f x = Inr y) xs"
  by (induction xs) (auto split: sum.splits)

lemma traverse_Inl:
  "traverse f xs = Inl e \<Longrightarrow> \<exists>x \<in> set xs. f x = Inl e"
  by (induction xs) (auto split: sum.splits)

lemma array_map_Inr:
  "(\<exists>res. array_map rt f v = Inr res) \<longleftrightarrow> (\<exists>xs. v = JArr xs \<and> list_all (\<lambda>x. \<exists>y. f x = Inr y) xs)"
proof (cases v)
  case (JArr xs)
  then show ?thesis
    using traverse_Inr [of f xs] by (auto simp: array_map_def split: sum.splits)
qed (auto simp: array_map_def)

lemma array_map_Inl:
  "array_map rt f v = Inl e \<Longrightarrow>
     e = Error (typeError rt ''map'') \<or> (\<exists>xs. v = JArr xs \<and> (\<exists>x \<in> set xs. f x = Inl e))"
  by (cases v) (auto simp: array_map_def split: sum.splits dest: traverse_Inl)

lemma opt_map_Inr:
  "(\<exists>res. opt_map rt f v = Inr res) \<longleftrightarrow>
     nullish v \<or> (\<exists>xs. v = JArr xs \<and> list_all (\<lambda>x. \<exists>y. f x = Inr y) xs)"
  using array_map_Inr [of rt f v] by (auto simp: opt_map_def)

lemma opt_map_Inl:
  "opt_map rt f v = Inl e \<Longrightarrow>
     e = Error (typeError rt ''map'') \<or> (\<exists>xs. v = JArr xs \<and> (\<exists>x \<in> set xs. f x = Inl e))"
  by (auto simp: opt_map_def dest: array_map_Inl split: if_splits)

lemma elements_readable_iff:
  "elements_readable v \<longleftrightarrow> (\<exists>xs. v = JArr xs \<and> list_all (\<lambda>x. \<exists>y. reading rt x k (g x) = Inr y) xs)"
  by (cases v) (auto simp: elements_readable_def reading_Inr)

lemma entries_Inr:
  "(\<exists>res. array_map rt (\<lambda>x. reading rt x k (g x)) v = Inr res) \<longleftrightarrow> elements_readable v"
  unfolding array_map_Inr elements_readable_iff [of v rt k g] ..

lemma opt_entries_Inr:
  "(\<exists>res. opt_map rt (\<lambda>x. reading rt x k (g x)) v = Inr res) \<longleftrightarrow> nullish v \<or> elements_readable v"
  unfolding opt_map_Inr elements_readable_iff [of v rt k g] ..

lemma entries_Inl:
  "array_map rt (\<lambda>x. reading rt x k (g x)) v = Inl e \<Longrightarrow> \<exists>k'. e = Error (typeError rt k')"
  by (auto dest!: array_map_Inl simp: reading_Inl)

lemma opt_entries_Inl:
  "opt_map rt (\<lambda>x. reading rt x k (g x)) v = Inl e \<Longrightarrow> \<exists>k'. e = Error (typeError rt k')"
  by (auto dest!: opt_map_Inl simp: reading_Inl)

lemma template_JStr: "template rt (JStr s) = Inr s"
  by (simp add: template_def)

lemma template_Inr: "(\<exists>s. template rt v = Inr s) \<longleftrightarrow> convertible v"
  by (cases v) (auto simp: template_def)

lemma template_Inl: "template rt v = Inl e \<Longrightarrow> e = Error (typeError rt ''toString'')"
  by (cases v) (auto simp: template_def split: if_splits)

lemma found_Inr: "(\<exists>s. found rt n f = Inr s) \<longleftrightarrow> convertible n \<and> convertible f"
  using template_Inr [of rt n] template_Inr [of rt f]
  by (auto simp: found_def split: sum.splits)

lemma found_Inl: "found rt n f = Inl e \<Longrightarrow> e = Error (typeError rt ''toString'')"
  by (auto simp: found_def split: sum.splits dest: template_Inl)

lemma then_Inr:
  "(\<exists>res. (case m of Inl e \<Rightarrow> Inl e | Inr x \<Rightarrow> k x) = Inr res) \<longleftrightarrow>
     (\<exists>x. m = Inr x \<and> (\<exists>res. k x = Inr res))"
  by (cases m) auto

lemma bind_Inr:
  "(\<exists>res. (case m of Inl e \<Rightarrow> Inl e | Inr x \<Rightarrow> Inr (g x)) = Inr res) \<longleftrightarrow> (\<exists>x. m = Inr x)"
  by (cases m) auto

lemma bind_Inl:
  "(case m of Inl e \<Rightarrow> Inl e | Inr x \<Rightarrow> Inr (g x)) = Inl e \<longleftrightarrow> m = Inl e"
  by (cases m) auto

lemma card_label_entry_reading:
  "card_label_entry rt = (\<lambda>label. reading rt label ''id''
       (JObj [(''id'', get label ''id''), (''name'', get label ''name''),
              (''color'', get label ''color'')]))"
  by (rule ext) (simp add: card_label_entry_def)

lemma board_list_entry_reading:
  "board_list_entry rt = (\<lambda>list. reading rt list ''id''
       (JObj [(''id'', get list ''id''), (''name'', get list ''name''),
              (''position'', get list ''pos''), (''closed'', get list ''closed'')]))"
  by (rule ext) (simp add: board_list_entry_def)

lemma board_card_entry_Inr:
  "(\<exists>y. board_card_entry rt c = Inr y) \<longleftrightarrow>
     \<not> nullish c \<and> (nullish (get c ''labels'') \<or> elements_readable (get c ''labels''))"
  unfolding board_card_entry_def card_label_entry_reading
  by (simp add: bind_Inr opt_entries_Inr)

lemma board_card_entry_Inl:
  "board_card_entry rt c = Inl e \<Longrightarrow> \<exists>k. e = Error (typeError rt k)"
  unfolding board_card_entry_def card_label_entry_reading
  by (auto simp: bind_Inl dest: opt_entries_Inl split: if_splits)

lemma cards_Inr:
  "(\<exists>res. opt_map rt (board_card_entry rt) v = Inr res) \<longleftrightarrow> nullish v \<or> cards_readable v"
  unfolding opt_map_Inr
  by (cases v) (auto simp: cards_readable_def board_card_entry_Inr)

lemma cards_Inl:
  "opt_map rt (board_card_entry rt) v = Inl e \<Longrightarrow> \<exists>k. e = Error (typeError rt k)"
  by (auto dest!: opt_map_Inl dest: board_card_entry_Inl)

lemma board_details_Inr:
  "(\<exists>res. board_details rt inc board = Inr res) \<longleftrightarrow>
     (truthy inc \<longrightarrow>
        (nullish (get board ''lists'') \<or> elements_readable (get board ''lists''))
        \<and> (nullish (get board ''cards'') \<or> cards_readable (get board ''cards'')))"
proof (cases "truthy inc")
  case False
  then show ?thesis by (simp add: board_details_def)
next
  case True
  let ?l = "opt_map rt (board_list_entry rt) (get board ''lists'')"
  let ?c = "opt_map rt (board_card_entry rt) (get board ''cards'')"
  have "(\<exists>res. board_details rt inc board = Inr res) \<longleftrightarrow> (\<exists>x. ?l = Inr x) \<and> (\<exists>y. ?c = Inr y)"
    using True by (cases ?l; cases ?c) (auto simp: board_details_def)
  also have "(\<exists>x. ?l = Inr x) \<longleftrightarrow> nullish (get board ''lists'') \<or> elements_readable (get board ''lists'')"
    unfolding board_list_entry_reading by (rule opt_entries_Inr)
  finally show ?thesis
    using True by (simp add: cards_Inr)
qed

lemma board_details_Inl:
  "board_details rt inc board = Inl e \<Longrightarrow> \<exists>k. e = Error (typeError rt k)"
  unfolding board_details_def board_list_entry_reading
  by (auto dest: opt_entries_Inl cards_Inl split: if_splits sum.splits)

lemma elements_readable_not_nullish: "elements_readable v \<Longrightarrow> \<not> nullish v"
  by (cases v) (auto simp: elements_readable_def)

lemmas result_defs =
  createBoard_result_def listBoards_result_def getBoardDetails_result_def getLists_result_def
  createChecklist_result_def getChecklist_result_def updateChecklist_result_def
  deleteChecklist_result_def createChecklistItem_result_def updateChecklistItem_result_def
  deleteChecklistItem_result_def

text \<open>The result of each handler: when it is built, what is thrown otherwise, and its
  first field.\<close>

lemma js_length_convertible: "elements_readable v \<Longrightarrow> convertible (js_length v)"
  by (cases v) (auto simp: elements_readable_def)

lemma named_result_Inr:
  "(\<exists>res. (if nullish x then Inl (Error (typeError rt ''name''))
           else (case template rt (get x ''name'') of Inl e \<Rightarrow> Inl e | Inr n \<Rightarrow> Inr (g n))) = Inr res)
     \<longleftrightarrow> \<not> nullish x \<and> convertible (get x ''name'')"
  using template_Inr [of rt "get x ''name''"] by (auto split: sum.splits)

lemma createBoard_result_Inr:
  "(\<exists>res. createBoard_result rt r = Inr res) \<longleftrightarrow>
     \<not> nullish (data r) \<and> convertible (get (data r) ''name'')"
  unfolding createBoard_result_def Let_def by (rule named_result_Inr)

lemma createChecklist_result_Inr:
  "(\<exists>res. createChecklist_result rt r = Inr res) \<longleftrightarrow>
     \<not> nullish (data r) \<and> convertible (get (data r) ''name'')"
  unfolding createChecklist_result_def Let_def by (rule named_result_Inr)

lemma updateChecklist_result_Inr:
  "(\<exists>res. updateChecklist_result rt r = Inr res) \<longleftrightarrow>
     \<not> nullish (data r) \<and> convertible (get (data r) ''name'')"
  unfolding updateChecklist_result_def Let_def by (rule named_result_Inr)

lemma createChecklistItem_result_Inr:
  "(\<exists>res. createChecklistItem_result rt r = Inr res) \<longleftrightarrow>
     \<not> nullish (data r) \<and> convertible (get (data r) ''name'')"
  unfolding createChecklistItem_result_def Let_def by (rule named_result_Inr)

lemma updateChecklistItem_result_Inr:
  "(\<exists>res. updateChecklistItem_result rt r = Inr res) \<longleftrightarrow>
     \<not> nullish (data r) \<and> convertible (get (data r) ''name'')"
  unfolding updateChecklistItem_result_def Let_def by (rule named_result_Inr)

lemma listed_result_Inr:
  "(\<exists>res. (if nullish x then Inl (Error (typeError rt ''length''))
           else (case found rt (js_length x) f of
                   Inl e \<Rightarrow> Inl e
                 | Inr s \<Rightarrow>
                     (case array_map rt (\<lambda>y. reading rt y k (g y)) x of
                        Inl e \<Rightarrow> Inl e
                      | Inr ys \<Rightarrow> Inr (c s ys)))) = Inr res)
     \<longleftrightarrow> convertible f \<and> elements_readable x"
proof -
  have "(\<exists>res. (case found rt (js_length x) f of
                   Inl e \<Rightarrow> Inl e
                 | Inr s \<Rightarrow>
                     (case array_map rt (\<lambda>y. reading rt y k (g y)) x of
                        Inl e \<Rightarrow> Inl e
                      | Inr ys \<Rightarrow> Inr (c s ys))) = Inr res)
     \<longleftrightarrow> (\<exists>s. found rt (js_length x) f = Inr s)
         \<and> (\<exists>ys. array_map rt (\<lambda>y. reading rt y k (g y)) x = Inr ys)"
    by (auto split: sum.splits)
  also have "\<dots> \<longleftrightarrow> convertible (js_length x) \<and> convertible f \<and> elements_readable x"
    unfolding found_Inr entries_Inr by blast
  also have "\<dots> \<longleftrightarrow> convertible f \<and> elements_readable x"
    using js_length_convertible by blast
  finally show ?thesis
    using elements_readable_not_nullish [of x] by auto
qed

lemma listBoards_result_Inr:
  "(\<exists>res. listBoards_result rt v r = Inr res) \<longleftrightarrow>
     convertible (get v ''filter'') \<and> elements_readable (data r)"
  unfolding listBoards_result_def Let_def by (rule listed_result_Inr)

lemma getLists_result_Inr:
  "(\<exists>res. getLists_result rt v r = Inr res) \<longleftrightarrow>
     convertible (get v ''filter'') \<and> elements_readable (data r)"
  unfolding getLists_result_def Let_def by (rule listed_result_Inr)

lemma getBoardDetails_result_Inr:
  "(\<exists>res. getBoardDetails_result rt v r = Inr res) \<longleftrightarrow>
     \<not> nullish (data r) \<and> convertible (get (data r) ''name'')
     \<and> (truthy (get v ''includeDetails'') \<longrightarrow>
          (nullish (get (data r) ''lists'') \<or> elements_readable (get (data r) ''lists''))
          \<and> (nullish (get (data r) ''cards'') \<or> cards_readable (get (data r) ''cards'')))"
proof -
  let ?t = "template rt (get (data r) ''name'')"
  let ?d = "board_details rt (get v ''includeDetails'') (data r)"
  have "(\<exists>res. getBoardDetails_result rt v r = Inr res) \<longleftrightarrow>
      \<not> nullish (data r) \<and> (\<exists>s. ?t = Inr s) \<and> (\<exists>ds. ?d = Inr ds)"
    unfolding getBoardDetails_result_def Let_def
    by (cases ?t; cases ?d) (simp_all del: get.simps)
  then show ?thesis
    unfolding template_Inr board_details_Inr .
qed

lemma getChecklist_result_Inr:
  "(\<exists>res. getChecklist_result rt r = Inr res) \<longleftrightarrow>
     \<not> nullish (data r) \<and> convertible (get (data r) ''name'')
     \<and> (nullish (get (data r) ''checkItems'') \<or> elements_readable (get (data r) ''checkItems''))"
proof -
  let ?t = "template rt (get (data r) ''name'')"
  let ?g = "\<lambda>item. JObj [(''id'', get item ''id''),
                          (''name'', get item ''name''),
                          (''state'', get item ''state''),
                          (''position'', get item ''pos''),
                          (''due'', get item ''due''),
                          (''idMember'', get item ''idMember'')]"
  let ?m = "opt_map rt (\<lambda>item. reading rt item ''id'' (?g item)) (get (data r) ''checkItems'')"
  have "(\<exists>res. getChecklist_result rt r = Inr res) \<longleftrightarrow>
      \<not> nullish (data r) \<and> (\<exists>s. ?t = Inr s) \<and> (\<exists>ys. ?m = Inr ys)"
    unfolding getChecklist_result_def Let_def
    by (cases ?t; cases ?m) (simp_all del: get.simps)
  then show ?thesis
    unfolding template_Inr opt_entries_Inr [of rt "''id''" ?g] .
qed

lemma deleteChecklist_result_Inr:
  "(\<exists>res. deleteChecklist_result rt v r = Inr res) \<longleftrightarrow> convertible (get v ''checklistId'')"
  using template_Inr [of rt "get v ''checklistId''"]
  by (auto simp: deleteChecklist_result_def Let_def split: sum.splits simp del: get.simps)

lemma deleteChecklistItem_result_Inr:
  "(\<exists>res. deleteChecklistItem_result rt v r = Inr res) \<longleftrightarrow>
     convertible (get v ''checklistId'') \<and> convertible (get v ''checkItemId'')"
  using template_Inr [of rt "get v ''checklistId''"] template_Inr [of rt "get v ''checkItemId''"]
  by (auto simp: deleteChecklistItem_result_def Let_def split: sum.splits simp del: get.simps)

lemmas result_Inr =
  createBoard_result_Inr listBoards_result_Inr getBoardDetails_result_Inr getLists_result_Inr
  createChecklist_result_Inr getChecklist_result_Inr updateChecklist_result_Inr
  deleteChecklist_result_Inr createChecklistItem_result_Inr updateChecklistItem_result_Inr
  deleteChecklistItem_result_Inr

lemma result_of_Inr:
  assumes "module_handler h = Some f"
  shows "(\<exists>res. result_of rt h v r = Inr res) \<longleftrightarrow> readable (snd (request_of h v)) (data r)"
  using assms
  by (cases h) (simp_all add: result_Inr request_defs del: get.simps)

lemma result_of_Inl:
  assumes "module_handler h = Some f" and "result_of rt h v r = Inl e"
  shows "\<exists>k. e = Error (typeError rt k)"
  using assms
  by (cases h)
    (auto simp: result_defs Let_def
      dest: template_Inl found_Inl entries_Inl opt_entries_Inl board_details_Inl
      split: if_splits sum.splits simp del: get.simps)

lemma result_of_summary:
  assumes "module_handler h = Some f" and "result_of rt h v r = Inr res"
  shows "\<exists>s rest. res = JObj ((''summary'', JStr s) # rest)"
  using assms
  by (cases h)
    (auto simp: result_defs Let_def split: if_splits sum.splits simp del: get.simps)

section \<open>The uniform envelope\<close>

text \<open>
  Claim C2. Every handler of \<^verbatim>\<open>boards.ts\<close> and \<^verbatim>\<open>checklists.ts\<close> returns an
  envelope for every argument value; nothing it throws leaves it (the model of a handler
  is a total function into envelopes, its \<^verbatim>\<open>catch\<close> block being part of it). The five
  cases below are all there are.
  \<^item> The validator throws: the envelope has \<^verbatim>\<open>isError: true\<close> and the text
    \<^verbatim>\<open>Error <doing>: <message>\<close>, and no request is made.
  \<^item> A validator of \<^verbatim>\<open>../utils/validation.js\<close> returns undefined or null: the
    same, with the message of the \<^verbatim>\<open>TypeError\<close>.
  \<^item> The client throws: the same, with the message of what it threw.
  \<^item> The client returns and the handler can build its result from the response
    (\<^const>\<open>readable\<close>): \<^verbatim>\<open>isError\<close> is absent and the text is the serialisation of
    an object whose first field is \<^verbatim>\<open>summary\<close>, a string.
  \<^item> The client returns and building the result throws (the data is undefined or null
    where the handler reads a property, or is not an array where it maps, or what the
    summary quotes does not convert to a string): the error envelope again, with the
    message of the \<^verbatim>\<open>TypeError\<close>.
\<close>

theorem uniform_envelope:
  assumes "module_handler h = Some f"
  shows "(validation rt h args = Inl e \<longrightarrow>
            f rt args =
              (\<lparr>content = [TextContent (''Error '' @ doing h @ '': '' @ errorMessage rt e)],
                isError = Some True\<rparr>, []))
       \<and> (validation rt h args = Inr v \<and> nullish v \<longrightarrow>
            (\<exists>k. f rt args =
              (\<lparr>content = [TextContent (''Error '' @ doing h @ '': '' @ typeError rt k)],
                isError = Some True\<rparr>, [])))
       \<and> (validation rt h args = Inr v \<and> \<not> nullish v
            \<and> client rt (fst (request_of h v)) (snd (request_of h v)) = Inl e \<longrightarrow>
            f rt args =
              (\<lparr>content = [TextContent (''Error '' @ doing h @ '': '' @ errorMessage rt e)],
                isError = Some True\<rparr>, [request_of h v]))
       \<and> (validation rt h args = Inr v \<and> \<not> nullish v
            \<and> client rt (fst (request_of h v)) (snd (request_of h v)) = Inr r
            \<and> readable (snd (request_of h v)) (data r) \<longrightarrow>
            (\<exists>s rest. f rt args =
              (\<lparr>content = [TextContent (stringify rt (JObj ((''summary'', JStr s) # rest)))],
                isError = None\<rparr>, [request_of h v])))
       \<and> (validation rt h args = Inr v \<and> \<not> nullish v
            \<and> client rt (fst (request_of h v)) (snd (request_of h v)) = Inr r
            \<and> \<not> readable (snd (request_of h v)) (data r) \<longrightarrow>
            (\<exists>k. f rt args =
              (\<lparr>content = [TextContent (''Error '' @ doing h @ '': '' @ typeError rt k)],
                isError = Some True\<rparr>, [request_of h v])))"
proof -
  note run = handler_run [OF assms, of rt args]
  have 1: "f rt args =
      (\<lparr>content = [TextContent (''Error '' @ doing h @ '': '' @ errorMessage rt e)],
        isError = Some True\<rparr>, [])"
    if "validation rt h args = Inl e"
    using that by (simp add: run respond_def)
  have 2: "\<exists>k. f rt args =
      (\<lparr>content = [TextContent (''Error '' @ doing h @ '': '' @ typeError rt k)],
        isError = Some True\<rparr>, [])"
    if "validation rt h args = Inr v" and "nullish v"
    using that by (intro exI [of _ "''apiKey''"]) (simp add: run respond_def errorMessage_def)
  have 3: "f rt args =
      (\<lparr>content = [TextContent (''Error '' @ doing h @ '': '' @ errorMessage rt e)],
        isError = Some True\<rparr>, [request_of h v])"
    if "validation rt h args = Inr v" and "\<not> nullish v"
      and "client rt (fst (request_of h v)) (snd (request_of h v)) = Inl e"
    using that by (simp add: run respond_def invoke_def)
  have 4: "\<exists>s rest. f rt args =
      (\<lparr>content = [TextContent (stringify rt (JObj ((''summary'', JStr s) # rest)))],
        isError = None\<rparr>, [request_of h v])"
    if v: "validation rt h args = Inr v" "\<not> nullish v"
      and c: "client rt (fst (request_of h v)) (snd (request_of h v)) = Inr r"
      and ok: "readable (snd (request_of h v)) (data r)"
  proof -
    from ok obtain res where res: "result_of rt h v r = Inr res"
      using result_of_Inr [OF assms, of rt v r] by blast
    from result_of_summary [OF assms res] obtain s rest
      where "res = JObj ((''summary'', JStr s) # rest)" by blast
    with v c res show ?thesis
      by (intro exI [of _ s] exI [of _ rest]) (simp add: run respond_def invoke_def)
  qed
  have 5: "\<exists>k. f rt args =
      (\<lparr>content = [TextContent (''Error '' @ doing h @ '': '' @ typeError rt k)],
        isError = Some True\<rparr>, [request_of h v])"
    if v: "validation rt h args = Inr v" "\<not> nullish v"
      and c: "client rt (fst (request_of h v)) (snd (request_of h v)) = Inr r"
      and no: "\<not> readable (snd (request_of h v)) (data r)"
  proof -
    from no obtain e' where e': "result_of rt h v r = Inl e'"
      using result_of_Inr [OF assms, of rt v r] by (cases "result_of rt h v r") auto
    from result_of_Inl [OF assms e'] obtain k where "e' = Error (typeError rt k)" by blast
    with v c e' show ?thesis
      by (intro exI [of _ k]) (simp add: run respond_def invoke_def errorMessage_def)
  qed
  from 1 2 3 4 5 show ?thesis by blast
qed

theorem uniform_envelope_witness:
  "handleCreateBoard (example_runtime (Inl NonError)) (JObj [(''apiKey'', JStr ''k'')])
     = (\<lparr>content = [TextContent ''Error creating board: Validation failed''],
         isError = Some True\<rparr>, [])
   \<and> handleCreateBoard (example_runtime (Inl (Error ''invalid token'')))
       (JObj [(''apiKey'', JStr ''k''), (''token'', JStr ''t''), (''name'', JStr ''Roadmap'')])
     = (\<lparr>content = [TextContent ''Error creating board: invalid token''],
         isError = Some True\<rparr>,
        [((JStr ''k'', JStr ''t''), createBoard (JObj [(''name'', JStr ''Roadmap'')]))])
   \<and> handleCreateBoard
       (example_runtime (Inr \<lparr>data = JObj [(''id'', JStr ''aaaaaaaaaaaaaaaaaaaaaaaa''),
                                             (''name'', JStr ''Roadmap'')],
                                rateLimit = JNull\<rparr>))
       (JObj [(''apiKey'', JStr ''k''), (''token'', JStr ''t''), (''name'', JStr ''Roadmap'')])
     = (\<lparr>content = [TextContent ''summary board rateLimit ''], isError = None\<rparr>,
        [((JStr ''k'', JStr ''t''), createBoard (JObj [(''name'', JStr ''Roadmap'')]))])
   \<and> handleCreateBoard (example_runtime (Inr \<lparr>data = JNull, rateLimit = JNull\<rparr>))
       (JObj [(''apiKey'', JStr ''k''), (''token'', JStr ''t''), (''name'', JStr ''Roadmap'')])
     = (\<lparr>content = [TextContent ''Error creating board: TypeError: name''],
         isError = Some True\<rparr>,
        [((JStr ''k'', JStr ''t''), createBoard (JObj [(''name'', JStr ''Roadmap'')]))])
   \<and> handleCreateBoard
       (example_runtime (Inr \<lparr>data = JObj [(''name'', JObj [(''toString'', JNum 1)])],
                                rateLimit = JNull\<rparr>))
       (JObj [(''apiKey'', JStr ''k''), (''token'', JStr ''t''), (''name'', JStr ''Roadmap'')])
     = (\<lparr>content = [TextContent ''Error creating board: TypeError: toString''],
         isError = Some True\<rparr>,
        [((JStr ''k'', JStr ''t''), createBoard (JObj [(''name'', JStr ''Roadmap'')]))])
   \<and> handleListBoards (example_runtime (Inr \<lparr>data = JArr [], rateLimit = JNull\<rparr>)) JNull
     = (\<lparr>content = [TextContent ''Error listing boards: TypeError: apiKey''],
         isError = Some True\<rparr>, [])"
proof -
  let ?args = "JObj [(''apiKey'', JStr ''k''), (''token'', JStr ''t''), (''name'', JStr ''Roadmap'')]"
  let ?req = "((JStr ''k'', JStr ''t''), createBoard (JObj [(''name'', JStr ''Roadmap'')]))"
  let ?ok = "\<lparr>data = JObj [(''id'', JStr ''aaaaaaaaaaaaaaaaaaaaaaaa''), (''name'', JStr ''Roadmap'')],
             rateLimit = JNull\<rparr>"
  let ?null = "\<lparr>data = JNull, rateLimit = JNull\<rparr>"
  let ?odd = "\<lparr>data = JObj [(''name'', JObj [(''toString'', JNum 1)])], rateLimit = JNull\<rparr>"
  let ?none = "\<lparr>data = JArr [], rateLimit = JNull\<rparr>"
  have f: "module_handler HandleCreateBoard = Some handleCreateBoard"
    by simp
  have g: "module_handler HandleListBoards = Some handleListBoards"
    by simp
  have bad: "validation (example_runtime out) HandleCreateBoard (JObj [(''apiKey'', JStr ''k'')])
      = Inl (ZodError [Issue [''token''] invalid_type None, Issue [''name''] invalid_type None])" for out
    by (simp add: validateCreateBoard_def parse_object_eval validateCreateBoard_schema_def)
  have v: "validation (example_runtime out) HandleCreateBoard ?args = Inr ?args" for out
    by (simp add: validateCreateBoard_def parse_object_eval validateCreateBoard_schema_def)
  have req: "request_of HandleCreateBoard ?args = ?req"
    by (simp add: createBoard_request_def present_def)
  have cl: "client (example_runtime out) c x = out" for out c x
    by (simp add: example_runtime_def)
  have 1: "handleCreateBoard (example_runtime (Inl NonError)) (JObj [(''apiKey'', JStr ''k'')])
     = (\<lparr>content = [TextContent ''Error creating board: Validation failed''],
         isError = Some True\<rparr>, [])"
    using uniform_envelope [OF f, where rt = "example_runtime (Inl NonError)"
        and args = "JObj [(''apiKey'', JStr ''k'')]"
        and e = "ZodError [Issue [''token''] invalid_type None, Issue [''name''] invalid_type None]"]
      bad [of "Inl NonError"]
    by (simp add: errorMessage_def example_runtime_def)
  have 2: "handleCreateBoard (example_runtime (Inl (Error ''invalid token''))) ?args
     = (\<lparr>content = [TextContent ''Error creating board: invalid token''],
         isError = Some True\<rparr>, [?req])"
    using uniform_envelope [OF f, where rt = "example_runtime (Inl (Error ''invalid token''))"
        and args = ?args and v = ?args and e = "Error ''invalid token''"]
      v [of "Inl (Error ''invalid token'')"] req cl
    by (simp add: errorMessage_def)
  have "\<exists>s rest. handleCreateBoard (example_runtime (Inr ?ok)) ?args
      = (\<lparr>content = [TextContent (stringify (example_runtime (Inr ?ok))
                                       (JObj ((''summary'', JStr s) # rest)))],
          isError = None\<rparr>, [?req])"
    using uniform_envelope [OF f, where rt = "example_runtime (Inr ?ok)"
        and args = ?args and v = ?args and r = ?ok]
      v [of "Inr ?ok"] req cl
    by simp
  then have 3: "handleCreateBoard (example_runtime (Inr ?ok)) ?args
     = (\<lparr>content = [TextContent ''summary board rateLimit ''], isError = None\<rparr>, [?req])"
    by (simp add: example_runtime_def handleCreateBoard_def validateCreateBoard_def
        parse_object_eval validateCreateBoard_schema_def
        respond_def invoke_def createBoard_request_def present_def createBoard_result_def
        template_def)
  have "\<exists>k. handleCreateBoard (example_runtime (Inr ?null)) ?args
      = (\<lparr>content = [TextContent (''Error '' @ doing HandleCreateBoard @ '': ''
                                       @ typeError (example_runtime (Inr ?null)) k)],
          isError = Some True\<rparr>, [?req])"
    using uniform_envelope [OF f, where rt = "example_runtime (Inr ?null)"
        and args = ?args and v = ?args and r = ?null]
      v [of "Inr ?null"] req cl
    by simp
  then have 4: "handleCreateBoard (example_runtime (Inr ?null)) ?args
     = (\<lparr>content = [TextContent ''Error creating board: TypeError: name''],
         isError = Some True\<rparr>, [?req])"
    by (simp add: example_runtime_def handleCreateBoard_def validateCreateBoard_def
        parse_object_eval validateCreateBoard_schema_def errorMessage_def
        respond_def invoke_def createBoard_request_def present_def createBoard_result_def)
  have "\<exists>k. handleCreateBoard (example_runtime (Inr ?odd)) ?args
      = (\<lparr>content = [TextContent (''Error '' @ doing HandleCreateBoard @ '': ''
                                       @ typeError (example_runtime (Inr ?odd)) k)],
          isError = Some True\<rparr>, [?req])"
    using uniform_envelope [OF f, where rt = "example_runtime (Inr ?odd)"
        and args = ?args and v = ?args and r = ?odd]
      v [of "Inr ?odd"] req cl
    by simp
  then have 5: "handleCreateBoard (example_runtime (Inr ?odd)) ?args
     = (\<lparr>content = [TextContent ''Error creating board: TypeError: toString''],
         isError = Some True\<rparr>, [?req])"
    by (simp add: example_runtime_def handleCreateBoard_def validateCreateBoard_def
        parse_object_eval validateCreateBoard_schema_def errorMessage_def
        respond_def invoke_def createBoard_request_def present_def createBoard_result_def
        template_def)
  have "\<exists>k. handleListBoards (example_runtime (Inr ?none)) JNull
      = (\<lparr>content = [TextContent (''Error '' @ doing HandleListBoards @ '': ''
                                       @ typeError (example_runtime (Inr ?none)) k)],
          isError = Some True\<rparr>, [])"
    using uniform_envelope [OF g, where rt = "example_runtime (Inr ?none)"
        and args = JNull and v = JNull]
    by (simp add: example_runtime_def)
  then have 6: "handleListBoards (example_runtime (Inr ?none)) JNull
     = (\<lparr>content = [TextContent ''Error listing boards: TypeError: apiKey''],
         isError = Some True\<rparr>, [])"
    by (simp add: example_runtime_def handleListBoards_def respond_def errorMessage_def)
  from 1 2 3 4 5 6 show ?thesis by blast
qed

section \<open>Deletions\<close>

lemma validated_identifier:
  assumes "schema_of h = Some shape" and "validation rt h args = Inr v"
    and "(k, trelloId) \<in> set shape"
  shows "\<exists>s. get args k = JStr s \<and> get v k = JStr s"
proof -
  have "accepts (datetime rt) trelloId (get args k)"
    using assms by (auto simp: validation_schema parse_object_Inr)
  then obtain s where "get args k = JStr s"
    by (auto simp: trelloId_def accepts_Regex)
  moreover have "get v k = get args k"
    using validated_get [OF assms(1,2), of k] assms(3) by force
  ultimately show ?thesis by simp
qed

text \<open>
  Claim C8. When the arguments validate and the client returns, the handler of
  \<^verbatim>\<open>trello_delete_checklist\<close> returns the serialisation of exactly the summary, the
  identifier of the checklist and \<^verbatim>\<open>deleted: true\<close>, and the handler of
  \<^verbatim>\<open>trello_delete_checklist_item\<close> that of the summary, the identifiers of the
  checklist and of the check item and \<^verbatim>\<open>deleted: true\<close>, without \<^verbatim>\<open>isError\<close>.
  Nothing of the response \<open>r\<close> of the client is in the result: it holds none of the
  former contents of the deleted entity.
\<close>

theorem deletion_confirmed:
  "(validation rt HandleTrelloDeleteChecklist args = Inr v
      \<and> client rt (fst (request_of HandleTrelloDeleteChecklist v))
           (snd (request_of HandleTrelloDeleteChecklist v)) = Inr r \<longrightarrow>
      (\<exists>s. get args ''checklistId'' = JStr s
         \<and> handleTrelloDeleteChecklist rt args =
             (\<lparr>content = [TextContent (stringify rt
                  (JObj [(''summary'', JStr (''Deleted checklist '' @ s)),
                         (''checklistId'', JStr s),
                         (''deleted'', JBool True)]))],
               isError = None\<rparr>,
              [((get args ''apiKey'', get args ''token''), deleteChecklist (JStr s))])))
   \<and> (validation rt HandleTrelloDeleteChecklistItem args = Inr v
      \<and> client rt (fst (request_of HandleTrelloDeleteChecklistItem v))
           (snd (request_of HandleTrelloDeleteChecklistItem v)) = Inr r \<longrightarrow>
      (\<exists>s i. get args ''checklistId'' = JStr s \<and> get args ''checkItemId'' = JStr i
         \<and> handleTrelloDeleteChecklistItem rt args =
             (\<lparr>content = [TextContent (stringify rt
                  (JObj [(''summary'', JStr (''Deleted check item '' @ i @ '' from checklist '' @ s)),
                         (''checklistId'', JStr s),
                         (''checkItemId'', JStr i),
                         (''deleted'', JBool True)]))],
               isError = None\<rparr>,
              [((get args ''apiKey'', get args ''token''), deleteChecklistItem (JStr s) (JStr i))])))"
proof -
  have 1: "\<exists>s. get args ''checklistId'' = JStr s
         \<and> handleTrelloDeleteChecklist rt args =
             (\<lparr>content = [TextContent (stringify rt
                  (JObj [(''summary'', JStr (''Deleted checklist '' @ s)),
                         (''checklistId'', JStr s),
                         (''deleted'', JBool True)]))],
               isError = None\<rparr>,
              [((get args ''apiKey'', get args ''token''), deleteChecklist (JStr s))])"
    if v: "validation rt HandleTrelloDeleteChecklist args = Inr v"
      and c: "client rt (fst (request_of HandleTrelloDeleteChecklist v))
           (snd (request_of HandleTrelloDeleteChecklist v)) = Inr r"
  proof -
    have sch: "schema_of HandleTrelloDeleteChecklist = Some validateDeleteChecklist_schema"
      by simp
    have f: "module_handler HandleTrelloDeleteChecklist = Some handleTrelloDeleteChecklist"
      by simp
    obtain s where s: "get args ''checklistId'' = JStr s" "get v ''checklistId'' = JStr s"
      using validated_identifier [OF sch v, of "''checklistId''"]
      by (auto simp: validateDeleteChecklist_schema_def)
    have creds: "get v ''apiKey'' = get args ''apiKey''" "get v ''token'' = get args ''token''"
      by (simp_all add: validated_get [OF sch v] validateDeleteChecklist_schema_def)
    have n: "\<not> nullish v"
      using validated_not_nullish [OF sch v] .
    have req: "deleteChecklist_request v
        = ((get args ''apiKey'', get args ''token''), deleteChecklist (JStr s))"
      by (simp add: deleteChecklist_request_def s creds)
    have "handleTrelloDeleteChecklist rt args =
             (\<lparr>content = [TextContent (stringify rt
                  (JObj [(''summary'', JStr (''Deleted checklist '' @ s)),
                         (''checklistId'', JStr s),
                         (''deleted'', JBool True)]))],
               isError = None\<rparr>,
              [((get args ''apiKey'', get args ''token''), deleteChecklist (JStr s))])"
      using v n c
      by (simp add: handler_run [OF f] req respond_def invoke_def deleteChecklist_result_def s
          template_JStr)
    with s show ?thesis by blast
  qed
  have 2: "\<exists>s i. get args ''checklistId'' = JStr s \<and> get args ''checkItemId'' = JStr i
         \<and> handleTrelloDeleteChecklistItem rt args =
             (\<lparr>content = [TextContent (stringify rt
                  (JObj [(''summary'', JStr (''Deleted check item '' @ i @ '' from checklist '' @ s)),
                         (''checklistId'', JStr s),
                         (''checkItemId'', JStr i),
                         (''deleted'', JBool True)]))],
               isError = None\<rparr>,
              [((get args ''apiKey'', get args ''token''), deleteChecklistItem (JStr s) (JStr i))])"
    if v: "validation rt HandleTrelloDeleteChecklistItem args = Inr v"
      and c: "client rt (fst (request_of HandleTrelloDeleteChecklistItem v))
           (snd (request_of HandleTrelloDeleteChecklistItem v)) = Inr r"
  proof -
    have sch: "schema_of HandleTrelloDeleteChecklistItem = Some validateDeleteChecklistItem_schema"
      by simp
    have f: "module_handler HandleTrelloDeleteChecklistItem = Some handleTrelloDeleteChecklistItem"
      by simp
    obtain s where s: "get args ''checklistId'' = JStr s" "get v ''checklistId'' = JStr s"
      using validated_identifier [OF sch v, of "''checklistId''"]
      by (auto simp: validateDeleteChecklistItem_schema_def)
    obtain i where i: "get args ''checkItemId'' = JStr i" "get v ''checkItemId'' = JStr i"
      using validated_identifier [OF sch v, of "''checkItemId''"]
      by (auto simp: validateDeleteChecklistItem_schema_def)
    have creds: "get v ''apiKey'' = get args ''apiKey''" "get v ''token'' = get args ''token''"
      by (simp_all add: validated_get [OF sch v] validateDeleteChecklistItem_schema_def)
    have n: "\<not> nullish v"
      using validated_not_nullish [OF sch v] .
    have req: "deleteChecklistItem_request v
        = ((get args ''apiKey'', get args ''token''), deleteChecklistItem (JStr s) (JStr i))"
      by (simp add: deleteChecklistItem_request_def s i creds)
    have "handleTrelloDeleteChecklistItem rt args =
             (\<lparr>content = [TextContent (stringify rt
                  (JObj [(''summary'', JStr (''Deleted check item '' @ i @ '' from checklist '' @ s)),
                         (''checklistId'', JStr s),
                         (''checkItemId'', JStr i),
                         (''deleted'', JBool True)]))],
               isError = None\<rparr>,
              [((get args ''apiKey'', get args ''token''), deleteChecklistItem (JStr s) (JStr i))])"
      using v n c
      by (simp add: handler_run [OF f] req respond_def invoke_def deleteChecklistItem_result_def
          s i template_JStr)
    with s i show ?thesis by blast
  qed
  from 1 2 show ?thesis by blast
qed

theorem deletion_confirmed_witness:
  "handleTrelloDeleteChecklist
     (example_runtime (Inr \<lparr>data = JObj [(''name'', JStr ''Groceries''),
                                           (''checkItems'', JArr [JStr ''milk''])],
                              rateLimit = JNull\<rparr>))
     (JObj [(''apiKey'', JStr ''k''), (''token'', JStr ''t''),
            (''checklistId'', JStr ''5f1a2b3c4d5e6f7a8b9c0d1e'')])
   = (\<lparr>content = [TextContent
         (stringify
            (example_runtime (Inr \<lparr>data = JObj [(''name'', JStr ''Groceries''),
                                                  (''checkItems'', JArr [JStr ''milk''])],
                                     rateLimit = JNull\<rparr>))
            (JObj [(''summary'', JStr ''Deleted checklist 5f1a2b3c4d5e6f7a8b9c0d1e''),
                   (''checklistId'', JStr ''5f1a2b3c4d5e6f7a8b9c0d1e''),
                   (''deleted'', JBool True)]))],
       isError = None\<rparr>,
      [((JStr ''k'', JStr ''t''), deleteChecklist (JStr ''5f1a2b3c4d5e6f7a8b9c0d1e''))])
   \<and> handleTrelloDeleteChecklistItem
     (example_runtime (Inr \<lparr>data = JObj [(''name'', JStr ''milk'')], rateLimit = JNull\<rparr>))
     (JObj [(''apiKey'', JStr ''k''), (''token'', JStr ''t''),
            (''checklistId'', JStr ''5f1a2b3c4d5e6f7a8b9c0d1e''),
            (''checkItemId'', JStr ''aaaaaaaaaaaaaaaaaaaaaaaa'')])
   = (\<lparr>content = [TextContent
         (stringify
            (example_runtime (Inr \<lparr>data = JObj [(''name'', JStr ''milk'')], rateLimit = JNull\<rparr>))
            (JObj [(''summary'', JStr ''Deleted check item aaaaaaaaaaaaaaaaaaaaaaaa from checklist 5f1a2b3c4d5e6f7a8b9c0d1e''),
                   (''checklistId'', JStr ''5f1a2b3c4d5e6f7a8b9c0d1e''),
                   (''checkItemId'', JStr ''aaaaaaaaaaaaaaaaaaaaaaaa''),
                   (''deleted'', JBool True)]))],
       isError = None\<rparr>,
      [((JStr ''k'', JStr ''t''),
        deleteChecklistItem (JStr ''5f1a2b3c4d5e6f7a8b9c0d1e'') (JStr ''aaaaaaaaaaaaaaaaaaaaaaaa''))])"
proof -
  let ?r1 = "\<lparr>data = JObj [(''name'', JStr ''Groceries''), (''checkItems'', JArr [JStr ''milk''])],
             rateLimit = JNull\<rparr>"
  let ?r2 = "\<lparr>data = JObj [(''name'', JStr ''milk'')], rateLimit = JNull\<rparr>"
  let ?a1 = "JObj [(''apiKey'', JStr ''k''), (''token'', JStr ''t''),
            (''checklistId'', JStr ''5f1a2b3c4d5e6f7a8b9c0d1e'')]"
  let ?a2 = "JObj [(''apiKey'', JStr ''k''), (''token'', JStr ''t''),
            (''checklistId'', JStr ''5f1a2b3c4d5e6f7a8b9c0d1e''),
            (''checkItemId'', JStr ''aaaaaaaaaaaaaaaaaaaaaaaa'')]"
  have cl: "client (example_runtime out) c x = out" for out c x
    by (simp add: example_runtime_def)
  have v1: "validation (example_runtime (Inr ?r1)) HandleTrelloDeleteChecklist ?a1 = Inr ?a1"
    by (simp add: validateDeleteChecklist_def parse_object_eval
        validateDeleteChecklist_schema_def trelloId_def in_class_def)
  have v2: "validation (example_runtime (Inr ?r2)) HandleTrelloDeleteChecklistItem ?a2 = Inr ?a2"
    by (simp add: validateDeleteChecklistItem_def parse_object_eval
        validateDeleteChecklistItem_schema_def trelloId_def in_class_def)
  have 1: "handleTrelloDeleteChecklist (example_runtime (Inr ?r1)) ?a1
   = (\<lparr>content = [TextContent
         (stringify (example_runtime (Inr ?r1))
            (JObj [(''summary'', JStr ''Deleted checklist 5f1a2b3c4d5e6f7a8b9c0d1e''),
                   (''checklistId'', JStr ''5f1a2b3c4d5e6f7a8b9c0d1e''),
                   (''deleted'', JBool True)]))],
       isError = None\<rparr>,
      [((JStr ''k'', JStr ''t''), deleteChecklist (JStr ''5f1a2b3c4d5e6f7a8b9c0d1e''))])"
    using deletion_confirmed [where rt = "example_runtime (Inr ?r1)" and args = ?a1 and v = ?a1
        and r = ?r1, THEN conjunct1] v1 cl
    by simp
  have 2: "handleTrelloDeleteChecklistItem (example_runtime (Inr ?r2)) ?a2
   = (\<lparr>content = [TextContent
         (stringify (example_runtime (Inr ?r2))
            (JObj [(''summary'', JStr ''Deleted check item aaaaaaaaaaaaaaaaaaaaaaaa from checklist 5f1a2b3c4d5e6f7a8b9c0d1e''),
                   (''checklistId'', JStr ''5f1a2b3c4d5e6f7a8b9c0d1e''),
                   (''checkItemId'', JStr ''aaaaaaaaaaaaaaaaaaaaaaaa''),
                   (''deleted'', JBool True)]))],
       isError = None\<rparr>,
      [((JStr ''k'', JStr ''t''),
        deleteChecklistItem (JStr ''5f1a2b3c4d5e6f7a8b9c0d1e'') (JStr ''aaaaaaaaaaaaaaaaaaaaaaaa''))])"
    using deletion_confirmed [where rt = "example_runtime (Inr ?r2)" and args = ?a2 and v = ?a2
        and r = ?r2, THEN conjunct2] v2 cl
    by simp
  from 1 2 show ?thesis by blast
qed

section \<open>The dispatcher\<close>

lemma callTool_cases_distinct: "distinct (map fst callTool_cases)"
  by (simp add: callTool_cases_def)

text \<open>The names of the descriptors of \<^verbatim>\<open>boards.ts\<close> and \<^verbatim>\<open>checklists.ts\<close> are
  labels of the \<^verbatim>\<open>switch\<close>, each with the handler of its operation.\<close>

lemma catalog_names_dispatched:
  "map_of callTool_cases (name createBoardTool) = Some HandleCreateBoard"
  "map_of callTool_cases (name listBoardsTool) = Some HandleListBoards"
  "map_of callTool_cases (name getBoardDetailsTool) = Some HandleGetBoardDetails"
  "map_of callTool_cases (name getListsTool) = Some HandleGetLists"
  "map_of callTool_cases (name trelloCreateChecklistTool) = Some HandleTrelloCreateChecklist"
  "map_of callTool_cases (name trelloGetChecklistTool) = Some HandleTrelloGetChecklist"
  "map_of callTool_cases (name trelloUpdateChecklistTool) = Some HandleTrelloUpdateChecklist"
  "map_of callTool_cases (name trelloDeleteChecklistTool) = Some HandleTrelloDeleteChecklist"
  "map_of callTool_cases (name trelloCreateChecklistItemTool) = Some HandleTrelloCreateChecklistItem"
  "map_of callTool_cases (name trelloUpdateChecklistItemTool) = Some HandleTrelloUpdateChecklistItem"
  "map_of callTool_cases (name trelloDeleteChecklistItemTool) = Some HandleTrelloDeleteChecklistItem"
  by (simp_all add: callTool_cases_def createBoardTool_def listBoardsTool_def
      getBoardDetailsTool_def getListsTool_def trelloCreateChecklistTool_def
      trelloGetChecklistTool_def trelloUpdateChecklistTool_def trelloDeleteChecklistTool_def
      trelloCreateChecklistItemTool_def trelloUpdateChecklistItemTool_def
      trelloDeleteChecklistItemTool_def)

text \<open>
  Claim C3. For every name that is not a \<^verbatim>\<open>case\<close> label of the dispatcher, the
  dispatcher throws: the outcome is the \<^verbatim>\<open>Error\<close> with the message
  \<^verbatim>\<open>Unknown tool: <name>\<close>, not an envelope, whatever the arguments; no handler
  runs. For a name that is a label the outcome is that of the handler bound to it; a
  handler of \<^verbatim>\<open>boards.ts\<close> or \<^verbatim>\<open>checklists.ts\<close> always gives an envelope, so from
  these nothing else is thrown at the dispatcher.
\<close>

theorem unknown_tool:
  "(name' \<notin> fst ` set callTool_cases \<longrightarrow>
      callTool rt name' args = Inl (Error (''Unknown tool: '' @ name')))
   \<and> ((name', h) \<in> set callTool_cases \<longrightarrow> callTool rt name' args = await_handler rt h args)
   \<and> ((name', h) \<in> set callTool_cases \<and> module_handler h = Some f \<longrightarrow>
      callTool rt name' args = Inr (fst (f rt args)))"
proof -
  have 1: "callTool rt name' args = Inl (Error (''Unknown tool: '' @ name'))"
    if "name' \<notin> fst ` set callTool_cases"
  proof -
    from that have "map_of callTool_cases name' = None"
      by (simp add: map_of_eq_None_iff)
    then show ?thesis by (simp add: callTool_def)
  qed
  have 2: "callTool rt name' args = await_handler rt h args" if "(name', h) \<in> set callTool_cases"
  proof -
    from that have "map_of callTool_cases name' = Some h"
      using callTool_cases_distinct by simp
    then show ?thesis by (simp add: callTool_def)
  qed
  have 3: "callTool rt name' args = Inr (fst (f rt args))"
    if "(name', h) \<in> set callTool_cases" and "module_handler h = Some f"
    using 2 [OF that(1)] that(2) by (simp add: await_handler_def)
  from 1 2 3 show ?thesis by blast
qed

theorem unknown_tool_witness:
  "callTool (example_runtime (Inl NonError)) ''trello_delete_board'' (JObj [])
     = Inl (Error ''Unknown tool: trello_delete_board'')
   \<and> callTool (example_runtime (Inl NonError)) ''trello_get_checklist'' (JObj [])
     = Inr \<lparr>content = [TextContent ''Error getting checklist: Validation failed''],
            isError = Some True\<rparr>"
proof -
  let ?rt = "example_runtime (Inl NonError)"
  have n: "''trello_delete_board'' \<notin> fst ` set callTool_cases"
    by (simp add: callTool_cases_def)
  have m: "(''trello_get_checklist'', HandleTrelloGetChecklist) \<in> set callTool_cases"
    by (simp add: callTool_cases_def)
  have f: "module_handler HandleTrelloGetChecklist = Some handleTrelloGetChecklist"
    by simp
  have e: "handleTrelloGetChecklist ?rt (JObj [])
      = (\<lparr>content = [TextContent ''Error getting checklist: Validation failed''],
          isError = Some True\<rparr>, [])"
    by (simp add: handleTrelloGetChecklist_def validateGetChecklist_def parse_object_eval validateGetChecklist_schema_def trelloId_def respond_def
        errorMessage_def example_runtime_def)
  have 1: "callTool ?rt ''trello_delete_board'' (JObj []) = Inl (Error ''Unknown tool: trello_delete_board'')"
    using unknown_tool [where name' = "''trello_delete_board''" and rt = ?rt and args = "JObj []"] n
    by simp
  have 2: "callTool ?rt ''trello_get_checklist'' (JObj [])
      = Inr \<lparr>content = [TextContent ''Error getting checklist: Validation failed''],
            isError = Some True\<rparr>"
  proof -
    have "callTool ?rt ''trello_get_checklist'' (JObj [])
        = Inr (fst (handleTrelloGetChecklist ?rt (JObj [])))"
      using unknown_tool [where name' = "''trello_get_checklist''" and rt = ?rt
          and args = "JObj []" and h = HandleTrelloGetChecklist and f = handleTrelloGetChecklist]
        m f
      by blast
    then show ?thesis by (simp add: e)
  qed
  from 1 2 show ?thesis by blast
qed

section \<open>The two shells\<close>

lemma listTools_set: "set standalone_listTools = set listTools"
  by (simp add: listTools_def standalone_listTools_def insert_commute)

text \<open>
  Claim C1. The catalog of the standalone shell, as the spec lists it, and the catalog
  that \<^verbatim>\<open>server.ts\<close> returns for \<^verbatim>\<open>ListTools\<close> hold the same descriptors (name,
  description and input schema), each of them once; the two shells bind the same names
  to the same handlers; and the standalone shell calls a tool as \<^verbatim>\<open>server.ts\<close> does,
  on the arguments with the credentials injected.
\<close>

theorem catalog_parity:
  "set (map (descriptor rt) standalone_listTools) = set (map (descriptor rt) listTools)
   \<and> distinct standalone_listTools \<and> distinct listTools
   \<and> map_of standalone_cases = map_of callTool_cases
   \<and> standalone_callTool rt credentials name' args
       = callTool rt name' (argsWithCredentials credentials args)"
proof -
  have 1: "set (map (descriptor rt) standalone_listTools) = set (map (descriptor rt) listTools)"
    by (simp only: set_map listTools_set)
  have 2: "distinct standalone_listTools \<and> distinct listTools"
    by (simp add: listTools_def standalone_listTools_def)
  have 3: "standalone_cases = callTool_cases"
    by (simp add: standalone_cases_def callTool_cases_def)
  have 4: "standalone_callTool rt credentials name' args
       = callTool rt name' (argsWithCredentials credentials args)"
    by (simp add: standalone_callTool_def callTool_def 3)
  from 1 2 3 4 show ?thesis by simp
qed

theorem catalog_parity_witness:
  "descriptor (example_runtime (Inl NonError)) CreateBoardTool
     \<in> set (map (descriptor (example_runtime (Inl NonError))) listTools)
   \<and> descriptor (example_runtime (Inl NonError)) CreateBoardTool
     \<in> set (map (descriptor (example_runtime (Inl NonError))) standalone_listTools)
   \<and> map_of standalone_cases ''trello_create_board'' = Some HandleCreateBoard
   \<and> map_of callTool_cases ''trello_create_board'' = Some HandleCreateBoard"
proof -
  let ?rt = "example_runtime (Inl NonError)"
  have a: "descriptor ?rt CreateBoardTool \<in> set (map (descriptor ?rt) listTools)"
    by (simp add: listTools_def)
  have c: "map_of callTool_cases ''trello_create_board'' = Some HandleCreateBoard"
    by (simp add: callTool_cases_def)
  from a c catalog_parity [of ?rt] show ?thesis by simp
qed


end
